theory Spec2Isabelle
  imports Complex_Main "HOL-Library.Monad_Syntax"
begin

section \<open>Search-request tools: the query tree and its refinement operations\<close>

text \<open>
  A shallow embedding of the module: \<^verbatim>\<open>src/unnamed/part_001\<close>, the version with the
  attribute cache, and the older synchronous \<^verbatim>\<open>src/index.js\<close> where the two differ.

  The request is a JSON tree, so the tree-shaping functions are embedded over a datatype of
  nodes, and an object is taken to occur at one place of the tree only. A JavaScript
  reference into the tree (the result of \<^verbatim>\<open>getGroupNode\<close>) is the index of a child; what
  the caller then does through the reference is written back at that index. A later
  section embeds \<^verbatim>\<open>setFacetFilterAttributeNode\<close> a second time over an explicit store of
  objects, because the question there is which objects are shared.
\<close>

subsection \<open>JavaScript values\<close>

text \<open>
  A JavaScript number is modelled by its exact value: \<open>Num r\<close> is the number whose value is
  the rational \<open>r\<close>. The rounding of a decimal literal to the nearest binary64 value and
  the overflow to \<^verbatim>\<open>Infinity\<close> are not modelled, so \<open>parseFloat\<close> below is the code's
  \<^verbatim>\<open>parseFloat\<close> on the literals whose value is a binary64 value, as 0.5, 1.0 and 2.0 are,
  and the theorems on numbers are stated for such literals only. \<open>+0\<close> and \<open>-0\<close> are
  both \<open>Num 0\<close>.
\<close>

datatype jsnum = NaN | PosInfinity | NegInfinity | Num rat

datatype scalar = Str string | Number jsnum

record range =
  rfrom :: scalar
  rto :: scalar
  include_lower :: bool
  include_upper :: bool

text \<open>
  A \<^verbatim>\<open>value\<close> is a string, a number or a range object. Objects are compared by reference
  in JavaScript, so a range object carries the identity of the object (\<open>Object a r\<close> is the
  object with identity \<open>a\<close> and fields \<open>r\<close>); two occurrences with the same identity are
  the same object.
\<close>

datatype jsvalue = Scalar scalar | Object nat range

text \<open>\<^verbatim>\<open>x === y\<close> on values: \<^verbatim>\<open>NaN\<close> equals nothing, objects are equal when they are the
  same object.\<close>

fun strict_equals :: "jsvalue \<Rightarrow> jsvalue \<Rightarrow> bool" where
  "strict_equals (Scalar (Str a)) (Scalar (Str b)) = (a = b)"
| "strict_equals (Scalar (Number a)) (Scalar (Number b)) = (a \<noteq> NaN \<and> a = b)"
| "strict_equals (Object a _) (Object b _) = (a = b)"
| "strict_equals _ _ = False"

subsection \<open>String primitives used by the value normalizer\<close>

text \<open>Strings are lists of bytes; only the ASCII white space characters are recognised.\<close>

definition is_whitespace :: "char \<Rightarrow> bool" where
  "is_whitespace c = (c = CHR '' '' \<or> c = CHR 0x09 \<or> c = CHR 0x0A \<or> c = CHR 0x0B
     \<or> c = CHR 0x0C \<or> c = CHR 0x0D)"

text \<open>The position of a character in a string.\<close>

fun position :: "string \<Rightarrow> char \<Rightarrow> nat option" where
  "position [] c = None"
| "position (x # xs) c = (if x = c then Some 0 else map_option Suc (position xs c))"

definition digit_value :: "char \<Rightarrow> nat option" where
  "digit_value c = position ''0123456789'' c"

definition hex_digit_value :: "char \<Rightarrow> nat option" where
  "hex_digit_value c =
    (case position ''0123456789abcdef'' c of
       Some d \<Rightarrow> Some d
     | None \<Rightarrow> map_option (\<lambda>d. 10 + d) (position ''ABCDEF'' c))"

definition is_digit :: "char \<Rightarrow> bool" where
  "is_digit c = (digit_value c \<noteq> None)"

definition is_hex_digit :: "char \<Rightarrow> bool" where
  "is_hex_digit c = (hex_digit_value c \<noteq> None)"

text \<open>The value of a string of digits in a radix, most significant digit first.\<close>

definition digits_value :: "nat \<Rightarrow> (char \<Rightarrow> nat option) \<Rightarrow> string \<Rightarrow> nat" where
  "digits_value radix dv ds = foldl (\<lambda>acc c. radix * acc + (case dv c of Some d \<Rightarrow> d | None \<Rightarrow> 0)) 0 ds"

fun starts_with :: "string \<Rightarrow> string \<Rightarrow> bool" where
  "starts_with [] s = True"
| "starts_with (p # ps) [] = False"
| "starts_with (p # ps) (c # cs) = (p = c \<and> starts_with ps cs)"

text \<open>\<^verbatim>\<open>s.indexOf(pat)\<close>: the first position at which \<open>pat\<close> occurs in \<open>s\<close>, or \<open>-1\<close>.\<close>

fun indexOf_from :: "nat \<Rightarrow> string \<Rightarrow> string \<Rightarrow> int" where
  "indexOf_from n [] pat = (if pat = [] then int n else -1)"
| "indexOf_from n (c # cs) pat =
     (if starts_with pat (c # cs) then int n else indexOf_from (Suc n) cs pat)"

definition indexOf :: "string \<Rightarrow> string \<Rightarrow> int" where
  "indexOf s pat = indexOf_from 0 s pat"

text \<open>\<^verbatim>\<open>s.split(sep)\<close> for a one-character separator: the pieces between the separators, so
  that a string without the separator gives one piece and the empty string gives \<open>['''']\<close>.\<close>

fun split_acc :: "char \<Rightarrow> string \<Rightarrow> string \<Rightarrow> string list" where
  "split_acc sep cur [] = [cur]"
| "split_acc sep cur (c # cs) =
     (if c = sep then cur # split_acc sep [] cs else split_acc sep (cur @ [c]) cs)"

definition split :: "string \<Rightarrow> char \<Rightarrow> string list" where
  "split s sep = split_acc sep [] s"

text \<open>Strip an optional sign: the flag says whether the sign was \<open>-\<close>.\<close>

fun strip_sign :: "string \<Rightarrow> bool \<times> string" where
  "strip_sign [] = (False, [])"
| "strip_sign (c # cs) =
     (if c = CHR ''-'' then (True, cs) else if c = CHR ''+'' then (False, cs) else (False, c # cs))"

text \<open>
  The exponent part of a decimal literal: \<open>e\<close> or \<open>E\<close>, an optional sign and at least one
  digit; anything else is not part of the literal and the exponent is 0.
\<close>

definition exponent_part :: "string \<Rightarrow> int" where
  "exponent_part s =
    (case s of
       [] \<Rightarrow> 0
     | c # cs \<Rightarrow>
        if c = CHR ''e'' \<or> c = CHR ''E'' then
          (let (neg, ds) = strip_sign cs; ex = takeWhile is_digit ds
           in if ex = [] then 0
              else if neg then - int (digits_value 10 digit_value ex)
              else int (digits_value 10 digit_value ex))
        else 0)"

definition scale10 :: "rat \<Rightarrow> int \<Rightarrow> rat" where
  "scale10 m e = (if 0 \<le> e then m * 10 ^ nat e else m / 10 ^ nat (- e))"

text \<open>
  \<^verbatim>\<open>parseFloat(s)\<close>: skip leading white space, then read the longest prefix that is a decimal
  literal (sign, \<^verbatim>\<open>Infinity\<close> or digits with an optional fraction and exponent); \<^verbatim>\<open>NaN\<close> when
  there is none.
\<close>

definition parseFloat :: "string \<Rightarrow> jsnum" where
  "parseFloat s =
    (let (neg, u) = strip_sign (dropWhile is_whitespace s)
     in if starts_with ''Infinity'' u then (if neg then NegInfinity else PosInfinity)
        else
          (let ip = takeWhile is_digit u;
               r1 = dropWhile is_digit u;
               dot = (case r1 of [] \<Rightarrow> False | c # _ \<Rightarrow> c = CHR ''.'');
               fp = (if dot then takeWhile is_digit (tl r1) else []);
               r2 = (if dot then dropWhile is_digit (tl r1) else r1)
           in if ip = [] \<and> fp = [] then NaN
              else
                (let m = rat_of_nat (digits_value 10 digit_value (ip @ fp)) / 10 ^ length fp;
                     v = scale10 m (exponent_part r2)
                 in Num (if neg then - v else v))))"

text \<open>
  \<^verbatim>\<open>parseFloat(arr[i])\<close>: an index past the end reads \<^verbatim>\<open>undefined\<close>, whose string form
  \<^verbatim>\<open>"undefined"\<close> parses to \<^verbatim>\<open>NaN\<close>.
\<close>

definition parseFloat_at :: "string list \<Rightarrow> nat \<Rightarrow> jsnum" where
  "parseFloat_at arr i = (if i < length arr then parseFloat (arr ! i) else NaN)"

text \<open>
  \<^verbatim>\<open>parseInt(s)\<close> without a radix: skip leading white space, read a sign, switch to radix 16
  after \<^verbatim>\<open>0x\<close> or \<^verbatim>\<open>0X\<close>, and read the longest prefix of digits; \<open>None\<close> is \<^verbatim>\<open>NaN\<close>. The
  result is the exact integer. JavaScript gives the nearest binary64 value, which is the
  integer itself up to \<open>2^53\<close> in absolute value: \<open>parseInt\<close>, \<open>int_plus\<close> and
  \<open>int_toString\<close> below are the code's operations within that range and not
  beyond it, and the theorems on them are stated within it.
\<close>

definition parseInt :: "string \<Rightarrow> int option" where
  "parseInt s =
    (let (neg, u) = strip_sign (dropWhile is_whitespace s);
         hex = (starts_with ''0x'' u \<or> starts_with ''0X'' u);
         ds = (if hex then takeWhile is_hex_digit (drop 2 u) else takeWhile is_digit u);
         n = (if hex then digits_value 16 hex_digit_value ds else digits_value 10 digit_value ds)
     in if ds = [] then None else Some (if neg then - int n else int n))"

definition digit_char :: "nat \<Rightarrow> char" where
  "digit_char d = ''0123456789'' ! d"

fun nat_toString :: "nat \<Rightarrow> string" where
  "nat_toString n = (if n < 10 then [digit_char n] else nat_toString (n div 10) @ [digit_char (n mod 10)])"

declare nat_toString.simps [simp del]

text \<open>
  The string form of the number \<^verbatim>\<open>parseInt(s) + k\<close>: \<^verbatim>\<open>NaN + k\<close> is \<^verbatim>\<open>NaN\<close>, an integer
  prints its decimal digits. This is what JavaScript prints for the integers up to \<open>2^53\<close>
  in absolute value (it rounds the sum beyond that, and switches to exponent notation from
  \<open>10^21\<close>).
\<close>

definition int_toString :: "int option \<Rightarrow> string" where
  "int_toString x =
    (case x of None \<Rightarrow> ''NaN''
     | Some n \<Rightarrow> if n < 0 then CHR ''-'' # nat_toString (nat (- n)) else nat_toString (nat n))"

definition int_plus :: "int option \<Rightarrow> int \<Rightarrow> int option" where
  "int_plus x k = (case x of None \<Rightarrow> None | Some n \<Rightarrow> Some (n + k))"

subsection \<open>The data model\<close>

record parameters =
  p_attribute :: string
  p_operator :: string
  p_value :: jsvalue

text \<open>
  A node is a terminal \<^verbatim>\<open>{type: 'terminal', service, parameters}\<close> or a group
  \<^verbatim>\<open>{type: 'group', label?, logical_operator, nodes}\<close>; a group without the \<^verbatim>\<open>label\<close>
  property has label \<open>None\<close>.
\<close>

datatype node =
    Terminal string parameters
  | Group "string option" string "node list"

text \<open>\<^verbatim>\<open>n.label\<close>: a terminal has no such property, and reading it gives \<^verbatim>\<open>undefined\<close>.\<close>

fun label_of :: "node \<Rightarrow> string option" where
  "label_of (Terminal s p) = None"
| "label_of (Group l lo ns) = l"

fun is_terminal :: "node \<Rightarrow> bool" where
  "is_terminal (Terminal s p) = True"
| "is_terminal (Group l lo ns) = False"

datatype refinement = Refinement string "string list"

fun refinement_attribute :: "refinement \<Rightarrow> string" where
  "refinement_attribute (Refinement a vs) = a"

fun refinement_values :: "refinement \<Rightarrow> string list" where
  "refinement_values (Refinement a vs) = vs"

definition GROUP_AND :: string where "GROUP_AND = ''and''"
definition GROUP_OR :: string where "GROUP_OR = ''or''"
definition EXACT_MATCH :: string where "EXACT_MATCH = ''exact_match''"
definition LESS :: string where "LESS = ''less''"
definition GREATER_OR_EQUAL :: string where "GREATER_OR_EQUAL = ''greater_or_equal''"
definition RANGE :: string where "RANGE = ''range''"
definition LABEL_GROUPS_REFINEMENTS :: string where "LABEL_GROUPS_REFINEMENTS = ''groups-refinements''"
definition LABEL_NESTED_ATTRIBUTE :: string where "LABEL_NESTED_ATTRIBUTE = ''nested-attribute''"

text \<open>How a call ends: it returns, or it throws (an \<^verbatim>\<open>async\<close> function rejects).\<close>

datatype error = TypeError | FetchError

datatype outcome = Returned | Thrown error

subsection \<open>The attribute metadata\<close>

text \<open>
  The global \<^verbatim>\<open>metadata\<close> object, the global \<^verbatim>\<open>metadata_\<close> and the server behind
  \<^verbatim>\<open>fetch('/search/attribute-data')\<close> are not part of the module: they are parameters.
  \<open>nestedAttribute = Some a\<close> is \<^verbatim>\<open>nestedAttribute: {attribute: a}\<close>. \<open>fetch\<close> gives the
  items \<^verbatim>\<open>{attribute, attrObj, facetFilter}\<close> of the response, or \<open>None\<close> when the request or
  the decoding of its response fails.
\<close>

record attr_obj =
  nestedAttribute :: "string option"

record attributeData =
  ad_attrObj :: "attr_obj option"
  ad_facetFilter :: "node option"

record schema_metadata =
  uiAttrMap :: "string \<Rightarrow> attr_obj option"
  facetFilters :: "string \<Rightarrow> node option"

record env =
  metadata :: "string \<Rightarrow> schema_metadata option"
  metadata__defined :: bool
  fetch :: "string list \<Rightarrow> string \<Rightarrow> (string \<times> attributeData) list option"

text \<open>
  The mutable state: \<^verbatim>\<open>request.query\<close>, the module's cache \<^verbatim>\<open>attributeMap\<close>, and the
  identity that the next allocated range object gets (the identities of the objects of
  the request are taken to be below it).
\<close>

record state =
  query :: node
  attributeMap :: "string \<Rightarrow> attributeData option"
  fresh :: nat

subsection \<open>Tree navigator\<close>

text \<open>\<^verbatim>\<open>if (label) node.label = label\<close>: neither \<^verbatim>\<open>null\<close> nor the empty string is attached.\<close>

definition getEmptyGroupNode :: "string option \<Rightarrow> string \<Rightarrow> node" where
  "getEmptyGroupNode label logical_operator =
     Group (case label of None \<Rightarrow> None | Some l \<Rightarrow> if l = [] then None else Some l)
       logical_operator []"

definition getTerminalNode :: "string \<Rightarrow> parameters \<Rightarrow> node" where
  "getTerminalNode service parameters = Terminal service parameters"

text \<open>
  The loop of \<^verbatim>\<open>getGroupNode\<close>: \<open>i\<close> is the index of the first remaining child, and
  \<open>groupNode\<close> is the index of the child held by the variable \<^verbatim>\<open>groupNode\<close>. The loop has
  no \<^verbatim>\<open>break\<close>: every matching child overwrites the variable.
\<close>

fun scan_labels :: "node list \<Rightarrow> string \<Rightarrow> nat \<Rightarrow> nat option \<Rightarrow> nat option" where
  "scan_labels [] label i groupNode = groupNode"
| "scan_labels (n # ns) label i groupNode =
     scan_labels ns label (Suc i) (if label_of n = Some label then Some i else groupNode)"

text \<open>
  \<^verbatim>\<open>getGroupNode(node, label, operator)\<close> returns the position of the group node among
  \<^verbatim>\<open>node.nodes\<close> (\<open>None\<close> is \<^verbatim>\<open>undefined\<close>) and the node after the call.
\<close>

fun getGroupNode :: "node \<Rightarrow> string \<Rightarrow> string \<Rightarrow> nat option \<times> node" where
  "getGroupNode (Terminal s p) label operator = (None, Terminal s p)"
| "getGroupNode (Group l lo ns) label operator =
     (case scan_labels ns label 0 None of
        Some i \<Rightarrow> (Some i, Group l lo ns)
      | None \<Rightarrow> (Some (length ns), Group l lo (ns @ [getEmptyGroupNode (Some label) operator])))"

text \<open>\<^verbatim>\<open>x.nodes.push(n)\<close>: a terminal has no \<^verbatim>\<open>nodes\<close>, and the call throws.\<close>

fun push :: "node \<Rightarrow> node \<Rightarrow> outcome \<times> node" where
  "push (Terminal s p) n = (Thrown TypeError, Terminal s p)"
| "push (Group l lo ns) n = (Returned, Group l lo (ns @ [n]))"

text \<open>
  What a caller does with the group node that \<^verbatim>\<open>getGroupNode\<close> returned: \<open>body\<close> acts on the
  child at the returned position and the child it leaves is put back there, also when
  \<open>body\<close> throws. When \<^verbatim>\<open>getGroupNode\<close> returned \<^verbatim>\<open>undefined\<close> the first use of the result
  throws: \<open>fail\<close> is the result then.
\<close>

definition in_group :: "node \<Rightarrow> string \<Rightarrow> string \<Rightarrow> 'a \<Rightarrow> (node \<Rightarrow> 'a \<times> node) \<Rightarrow> 'a \<times> node" where
  "in_group parent label operator fail body =
     (case getGroupNode parent label operator of
        (None, parent') \<Rightarrow> (fail, parent')
      | (Some i, parent') \<Rightarrow>
          (case parent' of
             Terminal s p \<Rightarrow> (fail, parent')
           | Group l lo ns \<Rightarrow>
               (let (r, c) = body (ns ! i) in (r, Group l lo (ns[i := c])))))"

subsection \<open>Value normalizer\<close>

text \<open>
  The body of the callback of \<^verbatim>\<open>setAttributeNode\<close> up to the construction of
  \<^verbatim>\<open>parameters\<close>: the operator and the value computed for one raw value, and the next free
  object identity (a range is a new object).
\<close>

definition setAttributeNode_value :: "string \<Rightarrow> string \<Rightarrow> nat \<Rightarrow> string \<times> jsvalue \<times> nat" where
  "setAttributeNode_value attribute v next =
    (if attribute = ''rcsb_entry_info.resolution_combined'' \<or>
        attribute = ''chem_comp.formula_weight'' \<or>
        attribute = ''rcsb_chem_comp_info.atom_count_heavy'' then
       (let arr = split v CHR ''-''
        in if indexOf v ''*'' = 0 then
             (LESS, Scalar (Number (parseFloat_at arr 1)), next)
           else if indexOf v ''-*'' \<noteq> - 1 then
             (GREATER_OR_EQUAL, Scalar (Number (parseFloat_at arr 0)), next)
           else
             (RANGE,
              Object next \<lparr>rfrom = Number (parseFloat_at arr 0), rto = Number (parseFloat_at arr 1),
                include_lower = True, include_upper = False\<rparr>,
              Suc next))
     else if attribute = ''rcsb_accession_info.initial_release_date'' \<or>
             attribute = ''rcsb_chem_comp_info.initial_release_date'' then
       (''range'',
        Object next \<lparr>rfrom = Str (v @ ''-01-01''),
          rto = Str (int_toString (int_plus (parseInt v) 4) @ ''-12-31''),
          include_lower = True, include_upper = True\<rparr>,
        Suc next)
     else (EXACT_MATCH, Scalar (Str v), next))"

text \<open>\<^verbatim>\<open>values.forEach(value => ...)\<close> of \<^verbatim>\<open>setAttributeNode\<close>.\<close>

fun setAttributeNode_each :: "string \<Rightarrow> string \<Rightarrow> string list \<Rightarrow> node \<Rightarrow> nat \<Rightarrow> (outcome \<times> nat) \<times> node" where
  "setAttributeNode_each service attribute [] attributeNode next = ((Returned, next), attributeNode)"
| "setAttributeNode_each service attribute (v # vs) attributeNode next =
     (let (oper, v', next') = setAttributeNode_value attribute v next;
          parameters = \<lparr>p_attribute = attribute, p_operator = oper, p_value = v'\<rparr>
      in case push attributeNode (getTerminalNode service parameters) of
           (Returned, attributeNode') \<Rightarrow> setAttributeNode_each service attribute vs attributeNode' next'
         | (Thrown e, attributeNode') \<Rightarrow> ((Thrown e, next'), attributeNode'))"

definition setAttributeNode :: "string \<Rightarrow> node \<Rightarrow> refinement \<Rightarrow> nat \<Rightarrow> (outcome \<times> nat) \<times> node" where
  "setAttributeNode service attributeNode refinement next =
     setAttributeNode_each service (refinement_attribute refinement) (refinement_values refinement)
       attributeNode next"

subsection \<open>Facet-filter expander\<close>

text \<open>
  The label of \<^verbatim>\<open>setFacetFilterAttributeNode\<close> (\<open>None\<close> is \<^verbatim>\<open>null\<close>), or \<open>None\<close> when its
  computation throws: \<^verbatim>\<open>attrObj\<close> is read without a guard, and \<^verbatim>\<open>facetFilter.parameters\<close> is
  read only when \<^verbatim>\<open>attrObj.nestedAttribute\<close> is there.
\<close>

definition facetFilter_label :: "attr_obj option \<Rightarrow> node \<Rightarrow> string option option" where
  "facetFilter_label attrObj facetFilter =
    (case attrObj of
       None \<Rightarrow> None
     | Some ao \<Rightarrow>
        (case nestedAttribute ao of
           None \<Rightarrow> Some None
         | Some a \<Rightarrow>
            (case facetFilter of
               Terminal s p \<Rightarrow> Some (if a = p_attribute p then Some LABEL_NESTED_ATTRIBUTE else None)
             | Group l lo ns \<Rightarrow> None)))"

text \<open>
  \<^verbatim>\<open>values.forEach(value => ...)\<close> of \<^verbatim>\<open>setFacetFilterAttributeNode\<close>. In the tree the copy
  made by \<^verbatim>\<open>Object.assign({}, facetFilter)\<close> is the filter itself.
\<close>

fun setFacetFilterAttributeNode_each ::
  "string \<Rightarrow> string \<Rightarrow> string option \<Rightarrow> node \<Rightarrow> string list \<Rightarrow> node \<Rightarrow> outcome \<times> node" where
  "setFacetFilterAttributeNode_each service attribute label facetFilter [] attributeNode =
     (Returned, attributeNode)"
| "setFacetFilterAttributeNode_each service attribute label facetFilter (v # vs) attributeNode =
     (let parameters = \<lparr>p_attribute = attribute, p_operator = EXACT_MATCH, p_value = Scalar (Str v)\<rparr>;
          groupNode = Group label GROUP_AND [getTerminalNode service parameters, facetFilter]
      in case push attributeNode groupNode of
           (Returned, attributeNode') \<Rightarrow>
             setFacetFilterAttributeNode_each service attribute label facetFilter vs attributeNode'
         | (Thrown e, attributeNode') \<Rightarrow> (Thrown e, attributeNode'))"

text \<open>
  \<^verbatim>\<open>setFacetFilterAttributeNode(service, attributeNode, refinement, attributeData)\<close>, called
  with an \<^verbatim>\<open>attributeData\<close> whose \<^verbatim>\<open>facetFilter\<close> is there.
\<close>

definition setFacetFilterAttributeNode ::
  "string \<Rightarrow> node \<Rightarrow> refinement \<Rightarrow> attr_obj option \<Rightarrow> node \<Rightarrow> outcome \<times> node" where
  "setFacetFilterAttributeNode service attributeNode refinement attrObj facetFilter =
    (case facetFilter_label attrObj facetFilter of
       None \<Rightarrow> (Thrown TypeError, attributeNode)
     | Some label \<Rightarrow>
         setFacetFilterAttributeNode_each service (refinement_attribute refinement) label facetFilter
           (refinement_values refinement) attributeNode)"

subsection \<open>Single-refinement merger\<close>

text \<open>
  \<^verbatim>\<open>attributeNode.nodes.forEach(n => { if (read(n) === value) found = true })\<close>, where
  \<open>read\<close> is \<^verbatim>\<open>n.parameters.value\<close> or \<^verbatim>\<open>n.nodes[0].parameters.value\<close> and gives \<open>None\<close> when
  the access throws. The result is \<open>None\<close> when the loop throws.
\<close>

fun find_value :: "(node \<Rightarrow> jsvalue option) \<Rightarrow> jsvalue \<Rightarrow> node list \<Rightarrow> bool \<Rightarrow> bool option" where
  "find_value read v [] found = Some found"
| "find_value read v (n # ns) found =
     (case read n of
        None \<Rightarrow> None
      | Some w \<Rightarrow> find_value read v ns (if strict_equals w v then True else found))"

text \<open>\<^verbatim>\<open>n.parameters.value\<close>: a group has no \<^verbatim>\<open>parameters\<close>.\<close>

fun terminal_value :: "node \<Rightarrow> jsvalue option" where
  "terminal_value (Terminal s p) = Some (p_value p)"
| "terminal_value (Group l lo ns) = None"

text \<open>\<^verbatim>\<open>n.nodes[0].parameters\<close>: \<open>n\<close> has to be a group whose first child is a terminal.\<close>

fun first_parameters :: "node \<Rightarrow> parameters option" where
  "first_parameters (Group l lo (Terminal s p # ns)) = Some p"
| "first_parameters _ = None"

definition group_value :: "node \<Rightarrow> jsvalue option" where
  "group_value n = map_option p_value (first_parameters n)"

text \<open>\<^verbatim>\<open>node.nodes[1].parameters.attribute\<close>.\<close>

fun second_attribute :: "node \<Rightarrow> string option" where
  "second_attribute (Group l lo (n0 # Terminal s p # ns)) = Some (p_attribute p)"
| "second_attribute _ = None"

text \<open>\<^verbatim>\<open>node.label = l\<close> on a group.\<close>

fun set_label :: "node \<Rightarrow> string \<Rightarrow> node" where
  "set_label (Group l lo ns) l' = Group (Some l') lo ns"
| "set_label (Terminal s p) l' = Terminal s p"

text \<open>The terminal branch of \<^verbatim>\<open>addRefinement\<close>, from the scan of \<^verbatim>\<open>attributeNode\<close> on.\<close>

definition add_terminal :: "node \<Rightarrow> jsvalue \<Rightarrow> node \<Rightarrow> outcome \<times> node" where
  "add_terminal node v attributeNode =
    (case attributeNode of
       Terminal s p \<Rightarrow> (Thrown TypeError, attributeNode)
     | Group l lo ns \<Rightarrow>
        (case find_value terminal_value v ns False of
           None \<Rightarrow> (Thrown TypeError, attributeNode)
         | Some found \<Rightarrow> if \<not> found then push attributeNode node else (Returned, attributeNode)))"

text \<open>
  \<^verbatim>\<open>attrObj && attrObj.nestedAttribute && attrObj.nestedAttribute.attribute === nested_attribute\<close>
\<close>

definition is_nested :: "attr_obj option \<Rightarrow> string \<Rightarrow> bool" where
  "is_nested attrObj nested_attribute =
    (case attrObj of None \<Rightarrow> False | Some ao \<Rightarrow> nestedAttribute ao = Some nested_attribute)"

text \<open>
  The group branch of \<^verbatim>\<open>addRefinement\<close>, from the scan of \<^verbatim>\<open>attributeNode\<close> on:
  \<^verbatim>\<open>metadata[schema].uiAttrMap\<close> throws for a schema that \<^verbatim>\<open>metadata\<close> does not have, and
  \<^verbatim>\<open>node.nodes[1].parameters\<close> throws when the second child is not a terminal.
\<close>

definition add_group :: "env \<Rightarrow> string \<Rightarrow> node \<Rightarrow> string \<Rightarrow> jsvalue \<Rightarrow> node \<Rightarrow> outcome \<times> node" where
  "add_group e schema node attribute v attributeNode =
    (case attributeNode of
       Terminal s p \<Rightarrow> (Thrown TypeError, attributeNode)
     | Group l lo ns \<Rightarrow>
        (case find_value group_value v ns False of
           None \<Rightarrow> (Thrown TypeError, attributeNode)
         | Some found \<Rightarrow>
            if \<not> found then
              (case metadata e schema of
                 None \<Rightarrow> (Thrown TypeError, attributeNode)
               | Some md \<Rightarrow>
                  (let attrObj = uiAttrMap md attribute
                   in case second_attribute node of
                        None \<Rightarrow> (Thrown TypeError, attributeNode)
                      | Some nested_attribute \<Rightarrow>
                          push attributeNode
                            (if is_nested attrObj nested_attribute
                             then set_label node LABEL_NESTED_ATTRIBUTE else node)))
            else (Returned, attributeNode)))"

text \<open>
  The part of \<^verbatim>\<open>addRefinement\<close> after \<^verbatim>\<open>refinementNode\<close> is there. A group \<^verbatim>\<open>node\<close> whose
  first child is not a terminal makes \<^verbatim>\<open>node.nodes[0].parameters\<close> throw.
\<close>

definition add_node :: "env \<Rightarrow> string \<Rightarrow> node \<Rightarrow> node \<Rightarrow> outcome \<times> node" where
  "add_node e schema node refinementNode =
    (case node of
       Terminal s p \<Rightarrow>
         in_group refinementNode (p_attribute p) GROUP_OR (Thrown TypeError)
           (add_terminal node (p_value p))
     | Group l lo ns \<Rightarrow>
        (case first_parameters node of
           None \<Rightarrow> (Thrown TypeError, refinementNode)
         | Some p \<Rightarrow>
             in_group refinementNode (p_attribute p) GROUP_OR (Thrown TypeError)
               (add_group e schema node (p_attribute p) (p_value p))))"

text \<open>
  The first branch of \<^verbatim>\<open>addRefinement\<close>, from \<^verbatim>\<open>innerGroupNode\<close> on: the terminal is wrapped
  in a new group, which is pushed onto \<^verbatim>\<open>serviceNode\<close>.
\<close>

definition wrap_terminal :: "node \<Rightarrow> node \<Rightarrow> outcome \<times> node" where
  "wrap_terminal terminalNode serviceNode =
    (case push (getEmptyGroupNode None GROUP_AND) terminalNode of
       (Returned, innerGroupNode) \<Rightarrow> push serviceNode innerGroupNode
     | (Thrown e, innerGroupNode) \<Rightarrow> (Thrown e, serviceNode))"

text \<open>
  \<^verbatim>\<open>addRefinement(request, node, schema, service)\<close>. The tagged \<^verbatim>\<open>node\<close> is the caller's
  object; the model shows it where it is inserted.
\<close>

definition addRefinement :: "env \<Rightarrow> state \<Rightarrow> node \<Rightarrow> string \<Rightarrow> string \<Rightarrow> outcome \<times> state" where
  "addRefinement e st node schema service =
    (let (r, q) =
       (if is_terminal (query st) then
          in_group (getEmptyGroupNode None GROUP_AND) service GROUP_AND (Thrown TypeError)
            (\<lambda>serviceNode.
               case wrap_terminal (query st) serviceNode of
                 (Returned, serviceNode') \<Rightarrow>
                   in_group serviceNode' LABEL_GROUPS_REFINEMENTS GROUP_AND (Thrown TypeError)
                     (add_node e schema node)
               | (Thrown err, serviceNode') \<Rightarrow> (Thrown err, serviceNode'))
        else
          in_group (query st) service GROUP_AND (Thrown TypeError)
            (\<lambda>serviceNode.
               in_group serviceNode LABEL_GROUPS_REFINEMENTS GROUP_AND (Thrown TypeError)
                 (add_node e schema node)))
     in (r, st\<lparr>query := q\<rparr>))"

definition default_schema :: string where "default_schema = ''structure''"
definition default_service :: string where "default_service = ''text''"

subsection \<open>Bulk-refinement translator\<close>

text \<open>
  The cache \<^verbatim>\<open>attributeMap\<close> is a plain object, so \<^verbatim>\<open>attributeMap[a]\<close> also finds what the
  object inherits. The map \<open>m\<close> holds the entries that the module has stored. The
  properties of \<^verbatim>\<open>Object.prototype\<close> are functions (and \<^verbatim>\<open>__proto__\<close> reads the prototype):
  they are truthy and have neither \<^verbatim>\<open>attrObj\<close> nor \<^verbatim>\<open>facetFilter\<close>, which is all that the
  module reads of a cache entry. A store to \<^verbatim>\<open>attributeMap['__proto__']\<close> makes the stored
  object the prototype of the cache: it is then what \<^verbatim>\<open>__proto__\<close> reads, and its own two
  properties \<^verbatim>\<open>attrObj\<close> and \<^verbatim>\<open>facetFilter\<close> are inherited; the entry of \<open>m\<close> under
  \<^verbatim>\<open>__proto__\<close> stands for it.
\<close>

definition inherited_property :: "string \<Rightarrow> bool" where
  "inherited_property a =
     (a \<in> set [''constructor'', ''__defineGetter__'', ''__defineSetter__'', ''hasOwnProperty'',
               ''__lookupGetter__'', ''__lookupSetter__'', ''isPrototypeOf'',
               ''propertyIsEnumerable'', ''toString'', ''valueOf'', ''__proto__'',
               ''toLocaleString''])"

text \<open>What the module reads of a truthy value that is not a cache entry.\<close>

definition no_data :: attributeData where
  "no_data = \<lparr>ad_attrObj = None, ad_facetFilter = None\<rparr>"

text \<open>\<^verbatim>\<open>attributeMap[a]\<close>: \<open>None\<close> when the value is \<^verbatim>\<open>undefined\<close>.\<close>

definition cache_get :: "(string \<Rightarrow> attributeData option) \<Rightarrow> string \<Rightarrow> attributeData option" where
  "cache_get m a =
    (case m a of
       Some d \<Rightarrow> Some d
     | None \<Rightarrow>
        if inherited_property a then Some no_data
        else
          (case m ''__proto__'' of
             None \<Rightarrow> None
           | Some d \<Rightarrow>
              if a = ''attrObj'' \<and> ad_attrObj d \<noteq> None then Some no_data
              else if a = ''facetFilter'' \<and> ad_facetFilter d \<noteq> None then Some no_data
              else None))"

text \<open>
  \<^verbatim>\<open>setAttributeMap(attributes, schema)\<close> on the cache \<open>m\<close>: the attributes for which
  \<^verbatim>\<open>attributeMap[a]\<close> is falsy are fetched from the server when \<^verbatim>\<open>metadata_\<close> is undefined,
  and read from \<^verbatim>\<open>metadata[schema]\<close> otherwise.
\<close>

definition setAttributeMap ::
  "env \<Rightarrow> (string \<Rightarrow> attributeData option) \<Rightarrow> string list \<Rightarrow> string
     \<Rightarrow> outcome \<times> (string \<Rightarrow> attributeData option)" where
  "setAttributeMap e m attributes schema =
    (let attributes' = filter (\<lambda>a. cache_get m a = None) attributes
     in if attributes' \<noteq> [] then
          (if \<not> metadata__defined e then
             (case fetch e attributes' schema of
                None \<Rightarrow> (Thrown FetchError, m)
              | Some data \<Rightarrow> (Returned, foldl (\<lambda>m' (a, d). m'(a \<mapsto> d)) m data))
           else
             (case metadata e schema of
                None \<Rightarrow> (Thrown TypeError, m)
              | Some md \<Rightarrow>
                  (Returned,
                   foldl (\<lambda>m' a. m'(a \<mapsto> \<lparr>ad_attrObj = uiAttrMap md a, ad_facetFilter = facetFilters md a\<rparr>))
                     m attributes')))
        else (Returned, m))"

text \<open>
  The callback of the second \<^verbatim>\<open>refinements.forEach\<close> of \<^verbatim>\<open>addRefinements\<close>, on
  \<^verbatim>\<open>attributeNode\<close>: \<^verbatim>\<open>attributeData.facetFilter\<close> throws when \<^verbatim>\<open>attributeMap[attribute]\<close>
  is \<^verbatim>\<open>undefined\<close>.
\<close>

definition refine_attribute ::
  "string \<Rightarrow> attributeData option \<Rightarrow> refinement \<Rightarrow> nat \<Rightarrow> node \<Rightarrow> (outcome \<times> nat) \<times> node" where
  "refine_attribute service attributeData refinement next attributeNode =
    (case attributeData of
       None \<Rightarrow> ((Thrown TypeError, next), attributeNode)
     | Some d \<Rightarrow>
        (case ad_facetFilter d of
           Some facetFilter \<Rightarrow>
             (let (r, attributeNode') =
                    setFacetFilterAttributeNode service attributeNode refinement (ad_attrObj d) facetFilter
              in ((r, next), attributeNode'))
         | None \<Rightarrow> setAttributeNode service attributeNode refinement next))"

fun addRefinements_each ::
  "string \<Rightarrow> (string \<Rightarrow> attributeData option) \<Rightarrow> refinement list \<Rightarrow> node \<Rightarrow> nat
     \<Rightarrow> (outcome \<times> nat) \<times> node" where
  "addRefinements_each service m [] refinementNode next = ((Returned, next), refinementNode)"
| "addRefinements_each service m (refinement # rest) refinementNode next =
     (case in_group refinementNode (refinement_attribute refinement) GROUP_OR (Thrown TypeError, next)
             (refine_attribute service (cache_get m (refinement_attribute refinement)) refinement next) of
        ((Returned, next'), refinementNode') \<Rightarrow> addRefinements_each service m rest refinementNode' next'
      | ((Thrown err, next'), refinementNode') \<Rightarrow> ((Thrown err, next'), refinementNode'))"

text \<open>Write back the child that was pushed last.\<close>

fun replace_last :: "node \<Rightarrow> node \<Rightarrow> node" where
  "replace_last (Group l lo ns) c = Group l lo (butlast ns @ [c])"
| "replace_last (Terminal s p) c = Terminal s p"

text \<open>
  \<^verbatim>\<open>addRefinements\<close> from \<^verbatim>\<open>serviceNode.nodes.push(refinementNode)\<close> on. The new group is
  in the tree before the metadata is awaited and before it is filled.
\<close>

definition append_refinements ::
  "env \<Rightarrow> string \<Rightarrow> string \<Rightarrow> refinement list \<Rightarrow> (string \<Rightarrow> attributeData option) \<Rightarrow> nat \<Rightarrow> node
     \<Rightarrow> (outcome \<times> (string \<Rightarrow> attributeData option) \<times> nat) \<times> node" where
  "append_refinements e schema service refinements m next serviceNode =
    (let refinementNode = getEmptyGroupNode None GROUP_AND
     in case push serviceNode refinementNode of
          (Thrown err, serviceNode') \<Rightarrow> ((Thrown err, m, next), serviceNode')
        | (Returned, serviceNode') \<Rightarrow>
            (case setAttributeMap e m (map refinement_attribute refinements) schema of
               (Thrown err, m') \<Rightarrow> ((Thrown err, m', next), serviceNode')
             | (Returned, m') \<Rightarrow>
                 (let ((r, next'), refinementNode') =
                        addRefinements_each service m' refinements refinementNode next
                  in ((r, m', next'), replace_last serviceNode' refinementNode'))))"

definition schema_of :: "string \<Rightarrow> string" where
  "schema_of result_type = (if result_type = ''mol_definition'' then ''chemical'' else ''structure'')"

definition service_of :: "string \<Rightarrow> string" where
  "service_of result_type = (if result_type = ''mol_definition'' then ''text_chem'' else ''text'')"

text \<open>\<^verbatim>\<open>addRefinements(request, refinements, result_type)\<close>, the \<^verbatim>\<open>async\<close> version.\<close>

definition addRefinements :: "env \<Rightarrow> state \<Rightarrow> refinement list \<Rightarrow> string \<Rightarrow> outcome \<times> state" where
  "addRefinements e st refinements result_type =
    (let schema = schema_of result_type;
         service = service_of result_type;
         ((r, m, next), q) =
           in_group (query st) service GROUP_AND (Thrown TypeError, attributeMap st, fresh st)
             (append_refinements e schema service refinements (attributeMap st) (fresh st))
     in (r, \<lparr>query = q, attributeMap = m, fresh = next\<rparr>))"

subsection \<open>The synchronous version of \<^verbatim>\<open>src/index.js\<close>\<close>

text \<open>
  There \<^verbatim>\<open>setFacetFilterAttributeNode(schema, service, attributeNode, refinement)\<close> reads
  \<^verbatim>\<open>metadata[schema]\<close> itself, pushes the filter without a copy, and evaluates the label test
  for every value, with a guard on \<^verbatim>\<open>attrObj\<close>, after the two children are in \<^verbatim>\<open>groupNode\<close>.
\<close>

definition facetFilter_label_sync :: "attr_obj option \<Rightarrow> node \<Rightarrow> string option option" where
  "facetFilter_label_sync attrObj facetFilter =
    (case attrObj of
       None \<Rightarrow> Some None
     | Some ao \<Rightarrow>
        (case nestedAttribute ao of
           None \<Rightarrow> Some None
         | Some a \<Rightarrow>
            (case facetFilter of
               Terminal s p \<Rightarrow> Some (if a = p_attribute p then Some LABEL_NESTED_ATTRIBUTE else None)
             | Group l lo ns \<Rightarrow> None)))"

fun setFacetFilterAttributeNode_sync_each ::
  "string \<Rightarrow> string \<Rightarrow> attr_obj option \<Rightarrow> node \<Rightarrow> string list \<Rightarrow> node \<Rightarrow> outcome \<times> node" where
  "setFacetFilterAttributeNode_sync_each service attribute attrObj facetFilter [] attributeNode =
     (Returned, attributeNode)"
| "setFacetFilterAttributeNode_sync_each service attribute attrObj facetFilter (v # vs) attributeNode =
     (let parameters = \<lparr>p_attribute = attribute, p_operator = EXACT_MATCH, p_value = Scalar (Str v)\<rparr>
      in case facetFilter_label_sync attrObj facetFilter of
           None \<Rightarrow> (Thrown TypeError, attributeNode)
         | Some label \<Rightarrow>
            (case push attributeNode
                    (Group label GROUP_AND [getTerminalNode service parameters, facetFilter]) of
               (Returned, attributeNode') \<Rightarrow>
                 setFacetFilterAttributeNode_sync_each service attribute attrObj facetFilter vs attributeNode'
             | (Thrown e, attributeNode') \<Rightarrow> (Thrown e, attributeNode')))"

text \<open>The callback of \<^verbatim>\<open>refinements.forEach\<close> in \<^verbatim>\<open>src/index.js\<close>, on \<^verbatim>\<open>attributeNode\<close>.\<close>

definition refine_attribute_sync ::
  "env \<Rightarrow> string \<Rightarrow> string \<Rightarrow> refinement \<Rightarrow> nat \<Rightarrow> node \<Rightarrow> (outcome \<times> nat) \<times> node" where
  "refine_attribute_sync e schema service refinement next attributeNode =
    (case metadata e schema of
       None \<Rightarrow> ((Thrown TypeError, next), attributeNode)
     | Some md \<Rightarrow>
        (case facetFilters md (refinement_attribute refinement) of
           Some facetFilter \<Rightarrow>
             (let (r, attributeNode') =
                    setFacetFilterAttributeNode_sync_each service (refinement_attribute refinement)
                      (uiAttrMap md (refinement_attribute refinement)) facetFilter
                      (refinement_values refinement) attributeNode
              in ((r, next), attributeNode'))
         | None \<Rightarrow> setAttributeNode service attributeNode refinement next))"

fun addRefinements_sync_each ::
  "env \<Rightarrow> string \<Rightarrow> string \<Rightarrow> refinement list \<Rightarrow> node \<Rightarrow> nat \<Rightarrow> (outcome \<times> nat) \<times> node" where
  "addRefinements_sync_each e schema service [] refinementNode next = ((Returned, next), refinementNode)"
| "addRefinements_sync_each e schema service (refinement # rest) refinementNode next =
     (case in_group refinementNode (refinement_attribute refinement) GROUP_OR (Thrown TypeError, next)
             (refine_attribute_sync e schema service refinement next) of
        ((Returned, next'), refinementNode') \<Rightarrow>
          addRefinements_sync_each e schema service rest refinementNode' next'
      | ((Thrown err, next'), refinementNode') \<Rightarrow> ((Thrown err, next'), refinementNode'))"

definition append_refinements_sync ::
  "env \<Rightarrow> string \<Rightarrow> string \<Rightarrow> refinement list \<Rightarrow> nat \<Rightarrow> node \<Rightarrow> (outcome \<times> nat) \<times> node" where
  "append_refinements_sync e schema service refinements next serviceNode =
    (let refinementNode = getEmptyGroupNode None GROUP_AND
     in case push serviceNode refinementNode of
          (Thrown err, serviceNode') \<Rightarrow> ((Thrown err, next), serviceNode')
        | (Returned, serviceNode') \<Rightarrow>
            (let (r, refinementNode') =
                   addRefinements_sync_each e schema service refinements refinementNode next
             in (r, replace_last serviceNode' refinementNode')))"

definition addRefinements_sync :: "env \<Rightarrow> state \<Rightarrow> refinement list \<Rightarrow> string \<Rightarrow> outcome \<times> state" where
  "addRefinements_sync e st refinements result_type =
    (let schema = schema_of result_type;
         service = service_of result_type;
         ((r, next), q) =
           in_group (query st) service GROUP_AND (Thrown TypeError, fresh st)
             (append_refinements_sync e schema service refinements (fresh st))
     in (r, st\<lparr>query := q, fresh := next\<rparr>))"

subsection \<open>Reference definitions for the statements\<close>

text \<open>
  The first child, in sequence order, whose label equals the requested label: what
  a scan that stops at the first match would return. \<open>i\<close> is the index of the first
  remaining child.
\<close>

fun first_labelled :: "node list \<Rightarrow> string \<Rightarrow> nat \<Rightarrow> nat option" where
  "first_labelled [] label i = None"
| "first_labelled (n # ns) label i =
     (if label_of n = Some label then Some i else first_labelled ns label (Suc i))"

text \<open>
  The child that \<^verbatim>\<open>getGroupNode\<close> returns when it creates nothing: the one that its scan
  finds.
\<close>

fun find_group :: "node \<Rightarrow> string \<Rightarrow> node option" where
  "find_group (Terminal s p) label = None"
| "find_group (Group l lo ns) label = map_option (\<lambda>i. ns ! i) (scan_labels ns label 0 None)"

text \<open>
  The attribute group of a request: the group labelled with the attribute, under the group
  labelled \<^verbatim>\<open>groups-refinements\<close>, under the group labelled with the service.
\<close>

definition attribute_group :: "node \<Rightarrow> string \<Rightarrow> string \<Rightarrow> node option" where
  "attribute_group q service attribute =
     (case find_group q service of
        None \<Rightarrow> None
      | Some serviceNode \<Rightarrow>
         (case find_group serviceNode LABEL_GROUPS_REFINEMENTS of
            None \<Rightarrow> None
          | Some refinementNode \<Rightarrow> find_group refinementNode attribute))"


text \<open>The located group, or the empty group that \<^verbatim>\<open>getGroupNode\<close> creates when there is none.\<close>

definition located_or_new :: "node option \<Rightarrow> string \<Rightarrow> string \<Rightarrow> node" where
  "located_or_new x label operator = (case x of Some c \<Rightarrow> c | None \<Rightarrow> Group (Some label) operator [])"

text \<open>
  The parent with \<open>c\<close> in the place of the child that the scan finds, or with \<open>c\<close>
  appended when the scan finds none; the other children stay as they are.
\<close>

fun put_group :: "node \<Rightarrow> string \<Rightarrow> node \<Rightarrow> node" where
  "put_group (Group l lo ns) label c =
     (case scan_labels ns label 0 None of
        Some i \<Rightarrow> Group l lo (ns[i := c])
      | None \<Rightarrow> Group l lo (ns @ [c]))"
| "put_group (Terminal s p) label c = Terminal s p"

text \<open>
  The group that one call of \<^verbatim>\<open>addRefinements\<close> builds, for the cache and the counter it
  starts from: it is computed from the refinements of the call, not from the request.
\<close>

definition refinements_group ::
  "env \<Rightarrow> string \<Rightarrow> string \<Rightarrow> refinement list \<Rightarrow> (string \<Rightarrow> attributeData option) \<Rightarrow> nat \<Rightarrow> node" where
  "refinements_group e schema service refinements m next =
    (case setAttributeMap e m (map refinement_attribute refinements) schema of
       (Thrown err, m') \<Rightarrow> getEmptyGroupNode None GROUP_AND
     | (Returned, m') \<Rightarrow>
         snd (addRefinements_each service m' refinements (getEmptyGroupNode None GROUP_AND) next))"

text \<open>The same for \<^verbatim>\<open>src/index.js\<close>.\<close>

definition refinements_group_sync ::
  "env \<Rightarrow> string \<Rightarrow> string \<Rightarrow> refinement list \<Rightarrow> nat \<Rightarrow> node" where
  "refinements_group_sync e schema service refinements next =
     snd (addRefinements_sync_each e schema service refinements (getEmptyGroupNode None GROUP_AND) next)"

text \<open>
  A node that a call builds for attribute \<open>a\<close> from a value of one of its refinements:
  the terminal that \<^verbatim>\<open>setAttributeNode\<close> pushes, or the pair that
  \<^verbatim>\<open>setFacetFilterAttributeNode\<close> pushes.
\<close>

definition refined_leaf :: "refinement list \<Rightarrow> string \<Rightarrow> node \<Rightarrow> bool" where
  "refined_leaf rs a x =
    (\<exists>r \<in> set rs. refinement_attribute r = a \<and>
       (\<exists>v \<in> set (refinement_values r).
          (\<exists>s n. x = Terminal s \<lparr>p_attribute = a, p_operator = fst (setAttributeNode_value a v n),
                      p_value = fst (snd (setAttributeNode_value a v n))\<rparr>)
        \<or> (\<exists>s l f. x = Group l GROUP_AND
                      [Terminal s \<lparr>p_attribute = a, p_operator = EXACT_MATCH, p_value = Scalar (Str v)\<rparr>, f])))"

text \<open>
  A group that holds only the refinements \<open>rs\<close>: it is an unlabelled \<^verbatim>\<open>and\<close> group, each
  of its children is the \<^verbatim>\<open>or\<close> group of an attribute of \<open>rs\<close>, and each node in such a
  group is built from a value that \<open>rs\<close> gives for that attribute.
\<close>

definition only_refinements :: "refinement list \<Rightarrow> node \<Rightarrow> bool" where
  "only_refinements rs g =
    (\<exists>cs. g = Group None GROUP_AND cs \<and>
       (\<forall>c \<in> set cs. \<exists>a xs. a \<in> refinement_attribute ` set rs \<and>
           c = Group (if a = [] then None else Some a) GROUP_OR xs \<and>
           (\<forall>x \<in> set xs. refined_leaf rs a x)))"

text \<open>
  The number that a string of decimal digits denotes, read from the last digit on through
  the character codes.
\<close>

fun decimal_rev :: "string \<Rightarrow> nat" where
  "decimal_rev [] = 0"
| "decimal_rev (c # cs) = (of_char c - 48) + 10 * decimal_rev cs"

definition year_of :: "string \<Rightarrow> nat" where
  "year_of v = decimal_rev (rev v)"

text \<open>
  A year as the user interface sends it: one to fifteen decimal digits. Such a year and its
  sum with 4 are below \<open>2^53\<close>, where the numbers of JavaScript are exact.
\<close>

definition year_string :: "string \<Rightarrow> bool" where
  "year_string v = (v \<noteq> [] \<and> length v \<le> 15 \<and> list_all is_digit v)"

text \<open>The label of the group that \<^verbatim>\<open>getGroupNode\<close> creates for an attribute: none for the empty string.\<close>

definition group_label :: "string \<Rightarrow> string option" where
  "group_label a = (if a = [] then None else Some a)"

text \<open>The raw values that the refinements \<open>rs\<close> give for attribute \<open>a\<close>, in their order.\<close>

definition values_of :: "refinement list \<Rightarrow> string \<Rightarrow> string list" where
  "values_of rs a = concat (map refinement_values (filter (\<lambda>r. refinement_attribute r = a) rs))"

text \<open>
  The positions of \<open>rs\<close> at which a call starts a new attribute group: every refinement
  with the empty attribute, and the first refinement of every other attribute.
\<close>

definition mentions :: "refinement list \<Rightarrow> nat list" where
  "mentions rs =
     filter (\<lambda>i. refinement_attribute (rs ! i) = []
                \<or> refinement_attribute (rs ! i) \<notin> refinement_attribute ` set (take i rs))
       [0..<length rs]"

text \<open>
  The raw values of the attribute group started at position \<open>i\<close>: those of the refinement
  itself when its attribute is empty, and those of all the refinements of the call with its
  attribute otherwise.
\<close>

definition mention_values :: "refinement list \<Rightarrow> nat \<Rightarrow> string list" where
  "mention_values rs i =
     (if refinement_attribute (rs ! i) = [] then refinement_values (rs ! i)
      else values_of rs (refinement_attribute (rs ! i)))"

text \<open>
  The label of a pair built from a facet filter: \<^verbatim>\<open>nested-attribute\<close> when the attribute has
  a nested attribute that is the attribute of the filter, and none otherwise.
\<close>

definition nested_label :: "attr_obj option \<Rightarrow> node \<Rightarrow> string option" where
  "nested_label attrObj facetFilter =
     (if \<exists>ao s p. attrObj = Some ao \<and> facetFilter = Terminal s p
            \<and> nestedAttribute ao = Some (p_attribute p)
      then Some LABEL_NESTED_ATTRIBUTE else None)"

text \<open>
  The node that a call builds from the raw value \<open>v\<close> of attribute \<open>a\<close>, for the attribute
  data \<open>d\<close>: without a facet filter a terminal with the normalized operator and value (the
  identity of a range object is left open), with a facet filter the pair of the exact-match
  terminal and the filter.
\<close>

definition refinement_leaf :: "string \<Rightarrow> attributeData option \<Rightarrow> string \<Rightarrow> string \<Rightarrow> node \<Rightarrow> bool" where
  "refinement_leaf service d a v x =
     (case d of
        None \<Rightarrow> False
      | Some ad \<Rightarrow>
         (case ad_facetFilter ad of
            None \<Rightarrow>
              (\<exists>n. x = Terminal service
                 \<lparr>p_attribute = a, p_operator = fst (setAttributeNode_value a v n),
                  p_value = fst (snd (setAttributeNode_value a v n))\<rparr>)
          | Some f \<Rightarrow>
              x = Group (nested_label (ad_attrObj ad) f) GROUP_AND
                    [Terminal service \<lparr>p_attribute = a, p_operator = EXACT_MATCH, p_value = Scalar (Str v)\<rparr>,
                     f]))"

text \<open>
  \<open>c\<close> is the attribute group started at position \<open>i\<close> of \<open>rs\<close>: an \<^verbatim>\<open>or\<close> group with the
  label of the attribute that holds, in order, one node for each raw value.
\<close>

definition attribute_group_of ::
  "string \<Rightarrow> (string \<Rightarrow> attributeData option) \<Rightarrow> refinement list \<Rightarrow> nat \<Rightarrow> node \<Rightarrow> bool" where
  "attribute_group_of service data rs i c =
     (\<exists>xs. c = Group (group_label (refinement_attribute (rs ! i))) GROUP_OR xs
         \<and> list_all2 (refinement_leaf service (data (refinement_attribute (rs ! i)))
                        (refinement_attribute (rs ! i)))
             (mention_values rs i) xs)"

text \<open>
  \<open>g\<close> holds the refinements \<open>rs\<close> and nothing else: it is an unlabelled \<^verbatim>\<open>and\<close> group
  whose children are, in order, the attribute groups of \<open>rs\<close>.
\<close>

definition holds_refinements ::
  "string \<Rightarrow> (string \<Rightarrow> attributeData option) \<Rightarrow> refinement list \<Rightarrow> node \<Rightarrow> bool" where
  "holds_refinements service data rs g =
     (\<exists>cs. g = Group None GROUP_AND cs
         \<and> list_all2 (attribute_group_of service data rs) (mentions rs) cs)"

text \<open>The attribute data that \<^verbatim>\<open>src/index.js\<close> reads from \<^verbatim>\<open>metadata[schema]\<close> for an attribute.\<close>

definition metadata_data :: "env \<Rightarrow> string \<Rightarrow> string \<Rightarrow> attributeData option" where
  "metadata_data e schema a =
     map_option (\<lambda>md. \<lparr>ad_attrObj = uiAttrMap md a, ad_facetFilter = facetFilters md a\<rparr>)
       (metadata e schema)"

subsection \<open>Example data\<close>

text \<open>The two example nodes of the module's documentation.\<close>

definition example_terminal :: node where
  "example_terminal = Terminal ''text''
     \<lparr>p_attribute = ''exptl.method'', p_operator = ''exact_match'',
      p_value = Scalar (Str ''ELECTRON MICROSCOPY'')\<rparr>"

definition example_pair :: node where
  "example_pair = Group None ''and''
     [Terminal ''text''
        \<lparr>p_attribute = ''rcsb_polymer_instance_annotation.annotation_lineage.id'',
         p_operator = ''exact_match'', p_value = Scalar (Str ''2'')\<rparr>,
      Terminal ''text''
        \<lparr>p_attribute = ''rcsb_polymer_instance_annotation.type'',
         p_operator = ''exact_match'', p_value = Scalar (Str ''CATH'')\<rparr>]"

text \<open>A request whose query is a single terminal.\<close>

definition example_root :: node where
  "example_root = Terminal ''text''
     \<lparr>p_attribute = ''rcsb_entry_info.resolution_combined'', p_operator = ''less'',
      p_value = Scalar (Number (Num 2))\<rparr>"

text \<open>
  Metadata with the schema \<^verbatim>\<open>structure\<close> only, in which the lineage identifier has the
  annotation type as its nested attribute; a server that knows no facet filter.
\<close>

definition example_metadata :: schema_metadata where
  "example_metadata =
     \<lparr>uiAttrMap = (\<lambda>a. if a = ''rcsb_polymer_instance_annotation.annotation_lineage.id''
                       then Some \<lparr>nestedAttribute = Some ''rcsb_polymer_instance_annotation.type''\<rparr>
                       else None),
      facetFilters = (\<lambda>a. None)\<rparr>"

definition example_env :: env where
  "example_env =
     \<lparr>metadata = (\<lambda>s. if s = ''structure'' then Some example_metadata else None),
      metadata__defined = False,
      fetch = (\<lambda>as s. Some (map (\<lambda>a. (a, \<lparr>ad_attrObj = None, ad_facetFilter = None\<rparr>)) as))\<rparr>"

definition example_state :: "node \<Rightarrow> state" where
  "example_state q = \<lparr>query = q, attributeMap = (\<lambda>a. None), fresh = 0\<rparr>"

text \<open>
  Metadata in which the lineage identifier has a facet filter on the annotation type, its
  nested attribute; \<^verbatim>\<open>metadata_\<close> is defined, so that both versions read the metadata.
\<close>

definition example_facet_filter :: node where
  "example_facet_filter = Terminal ''text''
     \<lparr>p_attribute = ''rcsb_polymer_instance_annotation.type'', p_operator = ''exact_match'',
      p_value = Scalar (Str ''CATH'')\<rparr>"

definition example_facet_metadata :: schema_metadata where
  "example_facet_metadata =
     \<lparr>uiAttrMap = (\<lambda>a. if a = ''rcsb_polymer_instance_annotation.annotation_lineage.id''
                       then Some \<lparr>nestedAttribute = Some ''rcsb_polymer_instance_annotation.type''\<rparr>
                       else None),
      facetFilters = (\<lambda>a. if a = ''rcsb_polymer_instance_annotation.annotation_lineage.id''
                          then Some example_facet_filter else None)\<rparr>"

definition example_facet_env :: env where
  "example_facet_env =
     \<lparr>metadata = (\<lambda>s. if s = ''structure'' then Some example_facet_metadata else None),
      metadata__defined = True,
      fetch = (\<lambda>as s. None)\<rparr>"

text \<open>The pair that the facet filter gives for a value of the lineage identifier.\<close>

definition example_lineage :: "string \<Rightarrow> node" where
  "example_lineage v = Group (Some ''nested-attribute'') ''and''
     [Terminal ''text''
        \<lparr>p_attribute = ''rcsb_polymer_instance_annotation.annotation_lineage.id'',
         p_operator = ''exact_match'', p_value = Scalar (Str v)\<rparr>,
      example_facet_filter]"

text \<open>Three refinements, two of them for the lineage identifier.\<close>

definition example_refinements :: "refinement list" where
  "example_refinements =
     [Refinement ''rcsb_polymer_instance_annotation.annotation_lineage.id'' [''2'', ''3''],
      Refinement ''rcsb_entry_info.resolution_combined'' [''*-0.5''],
      Refinement ''rcsb_polymer_instance_annotation.annotation_lineage.id'' [''4'']]"

text \<open>The request after these refinements and, in a second call, one for the method.\<close>

definition example_refined :: node where
  "example_refined = Group None ''and''
     [example_terminal,
      Group (Some ''text'') ''and''
        [Group None ''and''
           [Group (Some ''rcsb_polymer_instance_annotation.annotation_lineage.id'') ''or''
              [example_lineage ''2'', example_lineage ''3'', example_lineage ''4''],
            Group (Some ''rcsb_entry_info.resolution_combined'') ''or''
              [Terminal ''text'' \<lparr>p_attribute = ''rcsb_entry_info.resolution_combined'',
                  p_operator = ''less'', p_value = Scalar (Number (Num (1 / 2)))\<rparr>]],
         Group None ''and''
           [Group (Some ''exptl.method'') ''or''
              [Terminal ''text'' \<lparr>p_attribute = ''exptl.method'',
                  p_operator = ''exact_match'', p_value = Scalar (Str ''X-RAY DIFFRACTION'')\<rparr>]]]]"

section \<open>The facet-filter expander over a store of objects\<close>

text \<open>
  In the tree the copy of a facet filter and the filter itself are the same value. Whether
  two places of the tree hold the same object shows only when objects have addresses: here
  an object is a list of properties or an array, a property holds a primitive value or a
  reference, and the store is the list of the objects allocated so far (the address of an
  object is its position). A call that throws gives \<open>None\<close>.
\<close>

datatype ref_value = Undefined | Null | Text string | Numeric jsnum | Ref nat

datatype object = Obj "(string \<times> ref_value) list" | Arr "ref_value list"

type_synonym store = "object list"

definition alloc :: "object \<Rightarrow> store \<Rightarrow> (ref_value \<times> store) option" where
  "alloc ob s = Some (Ref (length s), s @ [ob])"

text \<open>\<^verbatim>\<open>x.name\<close>: reading a property of \<^verbatim>\<open>undefined\<close> or \<^verbatim>\<open>null\<close> throws; a property that
  is not there reads \<^verbatim>\<open>undefined\<close>.\<close>

definition read_property :: "store \<Rightarrow> ref_value \<Rightarrow> string \<Rightarrow> ref_value option" where
  "read_property s x name =
    (case x of
       Undefined \<Rightarrow> None
     | Null \<Rightarrow> None
     | Ref a \<Rightarrow>
        (if a < length s then
           (case s ! a of
              Obj fs \<Rightarrow> Some (case map_of fs name of Some v \<Rightarrow> v | None \<Rightarrow> Undefined)
            | Arr vs \<Rightarrow> Some Undefined)
         else None)
     | _ \<Rightarrow> Some Undefined)"

fun set_property :: "(string \<times> ref_value) list \<Rightarrow> string \<Rightarrow> ref_value \<Rightarrow> (string \<times> ref_value) list" where
  "set_property [] name v = [(name, v)]"
| "set_property ((k, w) # fs) name v =
     (if k = name then (k, v) # fs else (k, w) # set_property fs name v)"

text \<open>\<^verbatim>\<open>x.name = v\<close> on an object of the store.\<close>

definition write_property :: "store \<Rightarrow> ref_value \<Rightarrow> string \<Rightarrow> ref_value \<Rightarrow> store option" where
  "write_property s x name v =
    (case x of
       Ref a \<Rightarrow>
        (if a < length s then
           (case s ! a of
              Obj fs \<Rightarrow> Some (s[a := Obj (set_property fs name v)])
            | Arr vs \<Rightarrow> None)
         else None)
     | _ \<Rightarrow> None)"

text \<open>\<^verbatim>\<open>x.push(v)\<close>: \<open>x\<close> has to be an array.\<close>

definition array_push :: "store \<Rightarrow> ref_value \<Rightarrow> ref_value \<Rightarrow> store option" where
  "array_push s x v =
    (case x of
       Ref a \<Rightarrow>
        (if a < length s then
           (case s ! a of
              Arr vs \<Rightarrow> Some (s[a := Arr (vs @ [v])])
            | Obj fs \<Rightarrow> None)
         else None)
     | _ \<Rightarrow> None)"

text \<open>\<^verbatim>\<open>x[i]\<close> on an array.\<close>

definition array_at :: "store \<Rightarrow> ref_value \<Rightarrow> nat \<Rightarrow> ref_value option" where
  "array_at s x i =
    (case x of
       Ref a \<Rightarrow>
        (if a < length s then
           (case s ! a of
              Arr vs \<Rightarrow> Some (if i < length vs then vs ! i else Undefined)
            | Obj fs \<Rightarrow> Some Undefined)
         else None)
     | Undefined \<Rightarrow> None
     | Null \<Rightarrow> None
     | _ \<Rightarrow> Some Undefined)"

text \<open>
  \<^verbatim>\<open>Object.assign({}, src)\<close>: a new object with the own properties of \<open>src\<close>. The values
  of the properties are copied as they are: a property that holds a reference holds the
  same reference in the new object.
\<close>

definition object_assign :: "ref_value \<Rightarrow> store \<Rightarrow> (ref_value \<times> store) option" where
  "object_assign src s =
    (case src of
       Ref a \<Rightarrow>
        (if a < length s then
           (case s ! a of
              Obj fs \<Rightarrow> alloc (Obj fs) s
            | Arr vs \<Rightarrow> alloc (Obj (zip (map nat_toString [0..<length vs]) vs)) s)
         else None)
     | _ \<Rightarrow> alloc (Obj []) s)"

fun truthy :: "ref_value \<Rightarrow> bool" where
  "truthy Undefined = False"
| "truthy Null = False"
| "truthy (Text t) = (t \<noteq> [])"
| "truthy (Numeric n) = (n \<noteq> NaN \<and> n \<noteq> Num 0)"
| "truthy (Ref a) = True"

fun strict_equals_ref :: "ref_value \<Rightarrow> ref_value \<Rightarrow> bool" where
  "strict_equals_ref (Numeric a) (Numeric b) = (a \<noteq> NaN \<and> a = b)"
| "strict_equals_ref x y = (x = y)"

definition getEmptyGroupNode_store :: "ref_value \<Rightarrow> ref_value \<Rightarrow> store \<Rightarrow> (ref_value \<times> store) option" where
  "getEmptyGroupNode_store label logical_operator s =
     do {
       (nodes, s1) \<leftarrow> alloc (Arr []) s;
       (node, s2) \<leftarrow> alloc (Obj [(''type'', Text ''group''), (''nodes'', nodes),
                                 (''logical_operator'', logical_operator)]) s1;
       s3 \<leftarrow> (if truthy label then write_property s2 node ''label'' label else Some s2);
       Some (node, s3)
     }"

definition getTerminalNode_store :: "ref_value \<Rightarrow> ref_value \<Rightarrow> store \<Rightarrow> (ref_value \<times> store) option" where
  "getTerminalNode_store service parameters s =
     alloc (Obj [(''type'', Text ''terminal''), (''service'', service), (''parameters'', parameters)]) s"

text \<open>
  The label of \<^verbatim>\<open>setFacetFilterAttributeNode\<close> in \<^verbatim>\<open>src/unnamed/part_001\<close>:
  \<^verbatim>\<open>(attrObj.nestedAttribute && attrObj.nestedAttribute.attribute ===
  facetFilter.parameters.attribute) ? LABEL_NESTED_ATTRIBUTE : null\<close>.
\<close>

definition facetFilter_label_store :: "store \<Rightarrow> ref_value \<Rightarrow> ref_value \<Rightarrow> ref_value option" where
  "facetFilter_label_store s attrObj facetFilter =
     do {
       nested \<leftarrow> read_property s attrObj ''nestedAttribute'';
       if truthy nested then
         do {
           a \<leftarrow> read_property s nested ''attribute'';
           parameters \<leftarrow> read_property s facetFilter ''parameters'';
           b \<leftarrow> read_property s parameters ''attribute'';
           Some (if strict_equals_ref a b then Text LABEL_NESTED_ATTRIBUTE else Null)
         }
       else Some Null
     }"

text \<open>
  The callback of \<^verbatim>\<open>values.forEach\<close> in \<^verbatim>\<open>setFacetFilterAttributeNode\<close>; \<open>copy\<close> says
  whether the filter goes through \<^verbatim>\<open>Object.assign({}, facetFilter)\<close> (as in
  \<^verbatim>\<open>src/unnamed/part_001\<close>) or is pushed as it is (as in \<^verbatim>\<open>src/index.js\<close>).
\<close>

definition facet_pair_store ::
  "bool \<Rightarrow> ref_value \<Rightarrow> ref_value \<Rightarrow> string \<Rightarrow> ref_value \<Rightarrow> ref_value \<Rightarrow> string \<Rightarrow> store \<Rightarrow> store option" where
  "facet_pair_store copy service attributeNode attribute facetFilter label v s =
     do {
       (groupNode, s1) \<leftarrow> getEmptyGroupNode_store Null (Text GROUP_AND) s;
       (parameters, s2) \<leftarrow> alloc (Obj [(''attribute'', Text attribute), (''value'', Text v),
                                       (''operator'', Text EXACT_MATCH)]) s1;
       (terminal, s3) \<leftarrow> getTerminalNode_store service parameters s2;
       nodes \<leftarrow> read_property s3 groupNode ''nodes'';
       s4 \<leftarrow> array_push s3 nodes terminal;
       (filter, s5) \<leftarrow> (if copy then object_assign facetFilter s4 else Some (facetFilter, s4));
       nodes' \<leftarrow> read_property s5 groupNode ''nodes'';
       s6 \<leftarrow> array_push s5 nodes' filter;
       s7 \<leftarrow> (if truthy label then write_property s6 groupNode ''label'' label else Some s6);
       nodes'' \<leftarrow> read_property s7 attributeNode ''nodes'';
       array_push s7 nodes'' groupNode
     }"

fun facet_pairs_store ::
  "bool \<Rightarrow> ref_value \<Rightarrow> ref_value \<Rightarrow> string \<Rightarrow> ref_value \<Rightarrow> ref_value \<Rightarrow> string list \<Rightarrow> store \<Rightarrow> store option" where
  "facet_pairs_store copy service attributeNode attribute facetFilter label [] s = Some s"
| "facet_pairs_store copy service attributeNode attribute facetFilter label (v # vs) s =
     do {
       s' \<leftarrow> facet_pair_store copy service attributeNode attribute facetFilter label v s;
       facet_pairs_store copy service attributeNode attribute facetFilter label vs s'
     }"

text \<open>
  \<^verbatim>\<open>setFacetFilterAttributeNode(service, attributeNode, refinement, attributeData)\<close> of
  \<^verbatim>\<open>src/unnamed/part_001\<close>, with \<^verbatim>\<open>attributeData = {attrObj, facetFilter}\<close>.
\<close>

definition setFacetFilterAttributeNode_store ::
  "ref_value \<Rightarrow> ref_value \<Rightarrow> refinement \<Rightarrow> ref_value \<Rightarrow> ref_value \<Rightarrow> store \<Rightarrow> store option" where
  "setFacetFilterAttributeNode_store service attributeNode refinement attrObj facetFilter s =
     do {
       label \<leftarrow> facetFilter_label_store s attrObj facetFilter;
       facet_pairs_store True service attributeNode (refinement_attribute refinement) facetFilter label
         (refinement_values refinement) s
     }"

text \<open>
  \<^verbatim>\<open>setFacetFilterAttributeNode(schema, service, attributeNode, refinement)\<close> of
  \<^verbatim>\<open>src/index.js\<close>, with \<^verbatim>\<open>attrObj\<close> and \<^verbatim>\<open>facetFilter\<close> as read from \<^verbatim>\<open>metadata[schema]\<close>.
  The label test has a guard on \<^verbatim>\<open>attrObj\<close>; it does not change the store, so it is
  evaluated once here.
\<close>

definition setFacetFilterAttributeNode_sync_store ::
  "ref_value \<Rightarrow> ref_value \<Rightarrow> refinement \<Rightarrow> ref_value \<Rightarrow> ref_value \<Rightarrow> store \<Rightarrow> store option" where
  "setFacetFilterAttributeNode_sync_store service attributeNode refinement attrObj facetFilter s =
     (if refinement_values refinement = [] then Some s
      else
        do {
          label \<leftarrow> (if truthy attrObj then facetFilter_label_store s attrObj facetFilter else Some Null);
          facet_pairs_store False service attributeNode (refinement_attribute refinement) facetFilter
            label (refinement_values refinement) s
        })"

text \<open>\<^verbatim>\<open>attributeNode.nodes[k].nodes[1]\<close>: the facet filter attached to the pair group \<open>k\<close>.\<close>

definition attached_filter :: "store \<Rightarrow> ref_value \<Rightarrow> nat \<Rightarrow> ref_value option" where
  "attached_filter s attributeNode k =
     do {
       nodes \<leftarrow> read_property s attributeNode ''nodes'';
       groupNode \<leftarrow> array_at s nodes k;
       nodes' \<leftarrow> read_property s groupNode ''nodes'';
       array_at s nodes' 1
     }"

text \<open>
  The test of facet-filter isolation: \<^verbatim>\<open>first.parameters.value = x\<close> on the filter attached
  to the first pair group, and then \<^verbatim>\<open>second.parameters.value\<close> on the one attached to the
  second.
\<close>

definition write_first_read_second :: "store \<Rightarrow> ref_value \<Rightarrow> ref_value \<Rightarrow> ref_value option" where
  "write_first_read_second s attributeNode x =
     do {
       first \<leftarrow> attached_filter s attributeNode 0;
       second \<leftarrow> attached_filter s attributeNode 1;
       parameters \<leftarrow> read_property s first ''parameters'';
       s' \<leftarrow> write_property s parameters ''value'' x;
       parameters' \<leftarrow> read_property s' second ''parameters'';
       read_property s' parameters' ''value''
     }"

text \<open>
  A store with a facet filter template (object 1, with its parameters in object 0), the
  metadata of the attribute (object 3) and an empty attribute group (object 5).
\<close>

definition example_store :: store where
  "example_store =
     [Obj [(''attribute'', Text ''rcsb_polymer_instance_annotation.type''),
           (''operator'', Text ''exact_match''), (''value'', Text ''CATH'')],
      Obj [(''type'', Text ''terminal''), (''service'', Text ''text''), (''parameters'', Ref 0)],
      Obj [(''attribute'', Text ''rcsb_polymer_instance_annotation.type'')],
      Obj [(''nestedAttribute'', Ref 2)],
      Arr [],
      Obj [(''type'', Text ''group''), (''nodes'', Ref 4), (''logical_operator'', Text ''or''),
           (''label'', Text ''rcsb_polymer_instance_annotation.annotation_lineage.id'')]]"

definition example_refinement :: refinement where
  "example_refinement =
     Refinement ''rcsb_polymer_instance_annotation.annotation_lineage.id'' [''1'', ''2'']"

section \<open>Properties\<close>

lemmas string_prims = is_whitespace_def is_digit_def digit_value_def digits_value_def exponent_part_def scale10_def
  parseFloat_def parseFloat_at_def parseInt_def int_toString_def int_plus_def nat_toString.simps
  digit_char_def split_def indexOf_def

lemmas example_defs = example_terminal_def example_pair_def example_root_def example_metadata_def
  example_env_def example_state_def

lemmas facet_defs = example_facet_filter_def example_facet_metadata_def example_facet_env_def
  example_lineage_def example_refinements_def example_refined_def

lemmas constant_defs = GROUP_AND_def GROUP_OR_def EXACT_MATCH_def LESS_def GREATER_OR_EQUAL_def RANGE_def
  LABEL_GROUPS_REFINEMENTS_def LABEL_NESTED_ATTRIBUTE_def

lemmas bulk_defs = addRefinements_def addRefinements_sync_def in_group_def append_refinements_def
  cache_get_def inherited_property_def no_data_def
  append_refinements_sync_def setAttributeMap_def refine_attribute_def refine_attribute_sync_def
  setAttributeNode_def setAttributeNode_value_def getEmptyGroupNode_def getTerminalNode_def
  schema_of_def service_of_def

subsection \<open>Value normalizer\<close>

text \<open>
  Claim C1. For the attribute \<^verbatim>\<open>rcsb_entry_info.resolution_combined\<close>, \<^verbatim>\<open>setAttributeNode\<close>
  pushes onto the attribute group a terminal whose parameters are: operator \<^verbatim>\<open>less\<close> and
  value 0.5 for the raw value \<^verbatim>\<open>*-0.5\<close>; operator \<^verbatim>\<open>range\<close> and value
  \<^verbatim>\<open>{from: 0.5, to: 1.0, include_lower: true, include_upper: false}\<close> for \<^verbatim>\<open>0.5-1.0\<close>;
  operator \<^verbatim>\<open>greater_or_equal\<close> and value 2.0 for \<^verbatim>\<open>2.0-*\<close>.
\<close>

theorem resolution_value_table:
  "setAttributeNode service (Group l lo ns)
       (Refinement ''rcsb_entry_info.resolution_combined'' [''*-0.5'']) next =
     ((Returned, next),
      Group l lo (ns @ [Terminal service
        \<lparr>p_attribute = ''rcsb_entry_info.resolution_combined'', p_operator = ''less'',
         p_value = Scalar (Number (Num (1 / 2)))\<rparr>]))
   \<and> setAttributeNode service (Group l lo ns)
       (Refinement ''rcsb_entry_info.resolution_combined'' [''0.5-1.0'']) next =
     ((Returned, Suc next),
      Group l lo (ns @ [Terminal service
        \<lparr>p_attribute = ''rcsb_entry_info.resolution_combined'', p_operator = ''range'',
         p_value = Object next \<lparr>rfrom = Number (Num (1 / 2)), rto = Number (Num 1),
                include_lower = True, include_upper = False\<rparr>\<rparr>]))
   \<and> setAttributeNode service (Group l lo ns)
       (Refinement ''rcsb_entry_info.resolution_combined'' [''2.0-*'']) next =
     ((Returned, next),
      Group l lo (ns @ [Terminal service
        \<lparr>p_attribute = ''rcsb_entry_info.resolution_combined'', p_operator = ''greater_or_equal'',
         p_value = Scalar (Number (Num 2))\<rparr>]))"
proof (intro conjI)
  show "setAttributeNode service (Group l lo ns)
       (Refinement ''rcsb_entry_info.resolution_combined'' [''*-0.5'']) next =
     ((Returned, next),
      Group l lo (ns @ [Terminal service
        \<lparr>p_attribute = ''rcsb_entry_info.resolution_combined'', p_operator = ''less'',
         p_value = Scalar (Number (Num (1 / 2)))\<rparr>]))"
    by (simp add: setAttributeNode_def setAttributeNode_value_def getTerminalNode_def LESS_def
        string_prims)
  show "setAttributeNode service (Group l lo ns)
       (Refinement ''rcsb_entry_info.resolution_combined'' [''0.5-1.0'']) next =
     ((Returned, Suc next),
      Group l lo (ns @ [Terminal service
        \<lparr>p_attribute = ''rcsb_entry_info.resolution_combined'', p_operator = ''range'',
         p_value = Object next \<lparr>rfrom = Number (Num (1 / 2)), rto = Number (Num 1),
                include_lower = True, include_upper = False\<rparr>\<rparr>]))"
    by (simp add: setAttributeNode_def setAttributeNode_value_def getTerminalNode_def RANGE_def
        string_prims)
  show "setAttributeNode service (Group l lo ns)
       (Refinement ''rcsb_entry_info.resolution_combined'' [''2.0-*'']) next =
     ((Returned, next),
      Group l lo (ns @ [Terminal service
        \<lparr>p_attribute = ''rcsb_entry_info.resolution_combined'', p_operator = ''greater_or_equal'',
         p_value = Scalar (Number (Num 2))\<rparr>]))"
    by (simp add: setAttributeNode_def setAttributeNode_value_def getTerminalNode_def
        GREATER_OR_EQUAL_def string_prims)
qed

lemma position_mem: "position s c \<noteq> None \<Longrightarrow> c \<in> set s"
  by (induction s) (simp_all split: if_splits)

lemma is_digit_cases:
  assumes "is_digit c"
  shows "c = CHR ''0'' \<or> c = CHR ''1'' \<or> c = CHR ''2'' \<or> c = CHR ''3'' \<or> c = CHR ''4''
       \<or> c = CHR ''5'' \<or> c = CHR ''6'' \<or> c = CHR ''7'' \<or> c = CHR ''8'' \<or> c = CHR ''9''"
proof -
  have "c \<in> set ''0123456789''"
    using assms unfolding is_digit_def digit_value_def by (rule position_mem)
  thus ?thesis by simp
qed

lemma digit_value_code:
  assumes "is_digit c"
  shows "digit_value c = Some (of_char c - 48)" and "c \<noteq> CHR ''-''" and "c \<noteq> CHR ''+''"
    and "c \<noteq> CHR ''x''" and "c \<noteq> CHR ''X''" and "\<not> is_whitespace c"
    and "(of_char c :: nat) - 48 < 10"
proof -
  note c = is_digit_cases[OF assms]
  show "digit_value c = Some (of_char c - 48)"
    using c by (elim disjE) (simp_all add: digit_value_def)
  show "c \<noteq> CHR ''-''" using c by (elim disjE) simp_all
  show "c \<noteq> CHR ''+''" using c by (elim disjE) simp_all
  show "c \<noteq> CHR ''x''" using c by (elim disjE) simp_all
  show "c \<noteq> CHR ''X''" using c by (elim disjE) simp_all
  show "\<not> is_whitespace c" using c by (elim disjE) (simp_all add: is_whitespace_def)
  show "(of_char c :: nat) - 48 < 10" using c by (elim disjE) simp_all
qed


lemma year_of_snoc: "year_of (v @ [c]) = (of_char c - 48) + 10 * year_of v"
  by (simp add: year_of_def)

lemma digits_value_year:
  "list_all is_digit v \<Longrightarrow> digits_value 10 digit_value v = year_of v"
proof (induction v rule: rev_induct)
  case Nil
  show ?case by (simp add: digits_value_def year_of_def)
next
  case (snoc c v)
  from snoc.prems have c: "is_digit c" and v: "list_all is_digit v" by simp_all
  have "digits_value 10 digit_value (v @ [c]) = 10 * digits_value 10 digit_value v + (of_char c - 48)"
    by (simp add: digits_value_def digit_value_code(1)[OF c])
  thus ?case using snoc.IH[OF v] by (simp add: year_of_snoc)
qed

lemma takeWhile_all: "list_all P v \<Longrightarrow> takeWhile P v = v"
  by (induction v) simp_all

lemma parseInt_year:
  assumes "year_string v"
  shows "parseInt v = Some (int (year_of v))"
proof -
  from assms obtain c cs where v: "v = c # cs" and c: "is_digit c" and cs: "list_all is_digit cs"
    by (cases v) (auto simp add: year_string_def)
  have all: "list_all is_digit v" using v c cs by simp
  have ws: "dropWhile is_whitespace v = v" using v digit_value_code(6)[OF c] by simp
  have sg: "strip_sign v = (False, v)" using v digit_value_code(2,3)[OF c] by simp
  have nohex: "\<not> starts_with ''0x'' v" "\<not> starts_with ''0X'' v"
  proof -
    show "\<not> starts_with ''0x'' v"
    proof (cases cs)
      case Nil thus ?thesis using v by simp
    next
      case (Cons d ds)
      hence "is_digit d" using cs by simp
      thus ?thesis using v Cons digit_value_code(4)[of d] by simp
    qed
    show "\<not> starts_with ''0X'' v"
    proof (cases cs)
      case Nil thus ?thesis using v by simp
    next
      case (Cons d ds)
      hence "is_digit d" using cs by simp
      thus ?thesis using v Cons digit_value_code(5)[of d] by simp
    qed
  qed
  have ne: "v \<noteq> []" using v by simp
  show ?thesis
    unfolding parseInt_def ws sg
    using nohex ne by (simp add: takeWhile_all[OF all] digits_value_year[OF all])
qed

lemma digit_char_code: "d < 10 \<Longrightarrow> of_char (digit_char d) = 48 + d \<and> is_digit (digit_char d)"
proof -
  assume "d < 10"
  hence "d = 0 \<or> d = 1 \<or> d = 2 \<or> d = 3 \<or> d = 4 \<or> d = 5 \<or> d = 6 \<or> d = 7 \<or> d = 8 \<or> d = 9"
    by arith
  thus ?thesis
    by (elim disjE) (simp_all add: digit_char_def is_digit_def digit_value_def)
qed

lemma nat_toString_digits:
  "list_all is_digit (nat_toString n) \<and> year_of (nat_toString n) = n \<and> nat_toString n \<noteq> []
     \<and> (0 < n \<longrightarrow> hd (nat_toString n) \<noteq> CHR ''0'')"
proof (induction n rule: nat_toString.induct)
  case (1 n)
  show ?case
  proof (cases "n < 10")
    case True
    have s: "nat_toString n = [digit_char n]" using True by (simp add: nat_toString.simps)
    have "0 < n \<longrightarrow> digit_char n \<noteq> CHR ''0''"
    proof
      assume "0 < n"
      have "of_char (digit_char n) = 48 + n" using digit_char_code[OF True] by simp
      moreover have "(of_char (CHR ''0'') :: nat) = 48" by simp
      ultimately show "digit_char n \<noteq> CHR ''0''" using \<open>0 < n\<close> by auto
    qed
    thus ?thesis using digit_char_code[OF True] by (simp add: s year_of_def)
  next
    case False
    have s: "nat_toString n = nat_toString (n div 10) @ [digit_char (n mod 10)]"
      using False by (subst nat_toString.simps) simp
    have m: "n mod 10 < 10" by simp
    have pos: "0 < n div 10" using False by simp
    from 1[OF False] pos have ih: "list_all is_digit (nat_toString (n div 10))"
      "year_of (nat_toString (n div 10)) = n div 10" "nat_toString (n div 10) \<noteq> []"
      "hd (nat_toString (n div 10)) \<noteq> CHR ''0''" by simp_all
    show ?thesis using ih digit_char_code[OF m] by (simp add: s year_of_snoc)
  qed
qed

lemma year_of_bound: "list_all is_digit v \<Longrightarrow> year_of v < 10 ^ length v"
proof (induction v rule: rev_induct)
  case Nil show ?case by (simp add: year_of_def)
next
  case (snoc c v)
  hence c: "is_digit c" and v: "list_all is_digit v" by simp_all
  have "(of_char c :: nat) - 48 < 10" by (rule digit_value_code(7)[OF c])
  moreover have "year_of v < 10 ^ length v" using snoc v by simp
  ultimately have "(of_char c - 48) + 10 * year_of v < 10 * 10 ^ length v" by arith
  thus ?case by (simp add: year_of_snoc)
qed

lemma year_string_safe:
  assumes "year_string v"
  shows "year_of v + 4 \<le> 2 ^ 53"
proof -
  from assms have all: "list_all is_digit v" and len: "length v \<le> 15"
    by (simp_all add: year_string_def)
  have "year_of v < 10 ^ length v" by (rule year_of_bound[OF all])
  also have "... \<le> (10::nat) ^ 15" by (rule power_increasing[OF len]) simp
  finally have "year_of v < 10 ^ 15" .
  thus ?thesis by simp
qed

text \<open>
  Claim C5. For each of the two date attributes and every year \<open>v\<close> of one to fifteen
  decimal digits, \<^verbatim>\<open>setAttributeNode\<close> returns and pushes a terminal with operator \<^verbatim>\<open>range\<close>
  and the value \<^verbatim>\<open>{from: v + "-01-01", to: t + "-12-31", include_lower: true,
  include_upper: true}\<close>, where \<open>t\<close> is the decimal numeral, without a leading zero, of the
  year plus 4: \<^verbatim>\<open>parseInt(v)\<close> is the year, and the sum stays below \<open>2^53\<close>, so that it is
  computed without rounding. For \<^verbatim>\<open>2015\<close> the bounds are \<^verbatim>\<open>2015-01-01\<close> and \<^verbatim>\<open>2019-12-31\<close>.
\<close>

theorem date_range_expansion:
  assumes "year_string v"
    and "attribute = ''rcsb_accession_info.initial_release_date''
         \<or> attribute = ''rcsb_chem_comp_info.initial_release_date''"
  shows "setAttributeNode service (Group l lo ns) (Refinement attribute [v]) next =
     ((Returned, Suc next),
      Group l lo (ns @ [Terminal service
        \<lparr>p_attribute = attribute, p_operator = ''range'',
         p_value = Object next \<lparr>rfrom = Str (v @ ''-01-01''),
            rto = Str (nat_toString (year_of v + 4) @ ''-12-31''),
            include_lower = True, include_upper = True\<rparr>\<rparr>]))
   \<and> parseInt v = Some (int (year_of v))
   \<and> year_of v + 4 \<le> 2 ^ 53
   \<and> list_all is_digit (nat_toString (year_of v + 4))
   \<and> hd (nat_toString (year_of v + 4)) \<noteq> CHR ''0''
   \<and> year_of (nat_toString (year_of v + 4)) = year_of v + 4
   \<and> setAttributeNode service (Group l lo ns) (Refinement attribute [''2015'']) next =
     ((Returned, Suc next),
      Group l lo (ns @ [Terminal service
        \<lparr>p_attribute = attribute, p_operator = ''range'',
         p_value = Object next \<lparr>rfrom = Str ''2015-01-01'', rto = Str ''2019-12-31'',
            include_lower = True, include_upper = True\<rparr>\<rparr>]))"
proof -
  have p: "parseInt v = Some (int (year_of v))" by (rule parseInt_year[OF assms(1)])
  have to: "int_toString (int_plus (parseInt v) 4) = nat_toString (year_of v + 4)"
    by (simp add: p int_plus_def int_toString_def nat_add_distrib)
  have general: "setAttributeNode service (Group l lo ns) (Refinement attribute [v]) next =
     ((Returned, Suc next),
      Group l lo (ns @ [Terminal service
        \<lparr>p_attribute = attribute, p_operator = ''range'',
         p_value = Object next \<lparr>rfrom = Str (v @ ''-01-01''),
            rto = Str (nat_toString (year_of v + 4) @ ''-12-31''),
            include_lower = True, include_upper = True\<rparr>\<rparr>]))"
    using assms(2) unfolding to[symmetric]
    by (elim disjE)
       (simp_all add: setAttributeNode_def setAttributeNode_value_def getTerminalNode_def RANGE_def)
  have y: "setAttributeNode service (Group l lo ns) (Refinement attribute [''2015'']) next =
     ((Returned, Suc next),
      Group l lo (ns @ [Terminal service
        \<lparr>p_attribute = attribute, p_operator = ''range'',
         p_value = Object next \<lparr>rfrom = Str ''2015-01-01'', rto = Str ''2019-12-31'',
            include_lower = True, include_upper = True\<rparr>\<rparr>]))"
    using assms(2)
    by (elim disjE)
       (simp_all add: setAttributeNode_def setAttributeNode_value_def getTerminalNode_def RANGE_def
        string_prims)
  have d: "list_all is_digit (nat_toString (year_of v + 4))"
    "hd (nat_toString (year_of v + 4)) \<noteq> CHR ''0''"
    "year_of (nat_toString (year_of v + 4)) = year_of v + 4"
    using nat_toString_digits[of "year_of v + 4"] by simp_all
  show ?thesis
    by (intro conjI general p year_string_safe[OF assms(1)] d y)
qed

theorem date_range_expansion_witness:
  "year_string ''2015''
   \<and> year_of ''2015'' = 2015
   \<and> setAttributeNode ''text'' (Group None ''and'' [])
       (Refinement ''rcsb_chem_comp_info.initial_release_date'' [''2015'']) 0 =
     ((Returned, Suc 0),
      Group None ''and'' [Terminal ''text''
        \<lparr>p_attribute = ''rcsb_chem_comp_info.initial_release_date'', p_operator = ''range'',
         p_value = Object 0 \<lparr>rfrom = Str ''2015-01-01'', rto = Str ''2019-12-31'',
            include_lower = True, include_upper = True\<rparr>\<rparr>])
   \<and> parseInt ''2015'' = Some 2015"
  using date_range_expansion[of "''2015''" "''rcsb_chem_comp_info.initial_release_date''"
      "''text''" None "''and''" "[]" 0]
  by (simp add: year_string_def year_of_def is_digit_def digit_value_def nat_toString.simps
      digit_char_def)


subsection \<open>Tree navigator\<close>

lemma scan_labels_none:
  "(scan_labels ns label i g = None) = (g = None \<and> (\<forall>n \<in> set ns. label_of n \<noteq> Some label))"
  by (induction ns arbitrary: i g) auto

lemma scan_labels_no_match:
  "\<forall>n \<in> set ns. label_of n \<noteq> Some label \<Longrightarrow> scan_labels ns label i g = g"
  by (induction ns arbitrary: i g) auto

lemma scan_labels_last:
  "j < length ns \<Longrightarrow> label_of (ns ! j) = Some label \<Longrightarrow>
   \<exists>k. scan_labels ns label i g = Some (i + k) \<and> j \<le> k \<and> k < length ns \<and>
       label_of (ns ! k) = Some label \<and>
       (\<forall>m. k < m \<and> m < length ns \<longrightarrow> label_of (ns ! m) \<noteq> Some label)"
proof (induction ns arbitrary: i g j)
  case Nil
  then show ?case by simp
next
  case (Cons n ns)
  show ?case
  proof (cases "\<exists>m < length ns. label_of (ns ! m) = Some label")
    case True
    then obtain m where m: "m < length ns" "label_of (ns ! m) = Some label" by blast
    define j' where "j' = (if j = 0 then m else j - 1)"
    have j': "j' < length ns" "label_of (ns ! j') = Some label" "j \<le> Suc j'"
      using Cons.prems m by (auto simp: j'_def nth_Cons split: nat.splits)
    from Cons.IH[OF j'(1,2), of "Suc i" "if label_of n = Some label then Some i else g"]
    obtain k where k:
      "scan_labels ns label (Suc i) (if label_of n = Some label then Some i else g) = Some (Suc i + k)"
      "j' \<le> k" "k < length ns" "label_of (ns ! k) = Some label"
      "\<forall>m. k < m \<and> m < length ns \<longrightarrow> label_of (ns ! m) \<noteq> Some label" by blast
    have "\<forall>m. Suc k < m \<and> m < length (n # ns) \<longrightarrow> label_of ((n # ns) ! m) \<noteq> Some label"
      using k(5) by (auto simp: nth_Cons split: nat.splits)
    with k j' show ?thesis
      by (intro exI[of _ "Suc k"]) auto
  next
    case False
    then have nm: "\<forall>x \<in> set ns. label_of x \<noteq> Some label"
      by (metis in_set_conv_nth)
    with Cons.prems have j0: "j = 0" "label_of n = Some label"
      using False by (auto simp: nth_Cons split: nat.splits)
    have "\<forall>m. 0 < m \<and> m < length (n # ns) \<longrightarrow> label_of ((n # ns) ! m) \<noteq> Some label"
      using False by (auto simp: nth_Cons split: nat.splits)
    with j0 nm show ?thesis
      by (intro exI[of _ 0]) (simp add: scan_labels_no_match)
  qed
qed

text \<open>
  Claim C7, as stated, fails: with two children labelled \<^verbatim>\<open>a\<close>, the first one is at
  position 0, and \<^verbatim>\<open>getGroupNode\<close> returns the one at position 1.
\<close>

theorem getGroupNode_first_match_counterexample:
  "first_labelled [Group (Some ''a'') ''and'' [], Group (Some ''a'') ''or'' []] ''a'' 0 = Some 0
   \<and> fst (getGroupNode (Group None ''and'' [Group (Some ''a'') ''and'' [], Group (Some ''a'') ''or'' []])
          ''a'' ''and'') = Some 1"
  by simp

text \<open>
  Claim C7, amended. For a group whose children at two positions \<open>j1 < j2\<close> carry the
  requested label, \<^verbatim>\<open>getGroupNode\<close> returns the last child in sequence order whose label
  equals the requested label (so not the one at \<open>j1\<close>); the earlier ones are ignored, and
  the group is left as it was: no node is created or appended.
\<close>

theorem getGroupNode_last_match:
  "j1 < j2 \<Longrightarrow> j2 < length ns \<Longrightarrow> label_of (ns ! j1) = Some label \<Longrightarrow>
   label_of (ns ! j2) = Some label \<Longrightarrow>
   \<exists>k. getGroupNode (Group l lo ns) label operator = (Some k, Group l lo ns) \<and>
       j1 < k \<and> j2 \<le> k \<and> k < length ns \<and> label_of (ns ! k) = Some label \<and>
       (\<forall>m. k < m \<and> m < length ns \<longrightarrow> label_of (ns ! m) \<noteq> Some label)"
  using scan_labels_last[of j2 ns label 0 None] by auto

theorem getGroupNode_last_match_witness:
  "(0::nat) < 1 \<and> (1::nat) < length [Group (Some ''a'') ''and'' [], Group (Some ''a'') ''or'' []]
   \<and> label_of ([Group (Some ''a'') ''and'' [], Group (Some ''a'') ''or'' []] ! 0) = Some ''a''
   \<and> label_of ([Group (Some ''a'') ''and'' [], Group (Some ''a'') ''or'' []] ! 1) = Some ''a''
   \<and> getGroupNode (Group None ''and'' [Group (Some ''a'') ''and'' [], Group (Some ''a'') ''or'' []])
        ''a'' ''and''
      = (Some 1, Group None ''and'' [Group (Some ''a'') ''and'' [], Group (Some ''a'') ''or'' []])"
  using getGroupNode_last_match[of 0 1 "[Group (Some ''a'') ''and'' [], Group (Some ''a'') ''or'' []]"
      "''a''" None "''and''" "''and''"]
  by simp

text \<open>
  Claim C9. For a node that is not a group, \<^verbatim>\<open>getGroupNode\<close> returns \<^verbatim>\<open>undefined\<close> and
  leaves the node as it was.
\<close>

theorem getGroupNode_non_group:
  "is_terminal node \<Longrightarrow> getGroupNode node label operator = (None, node)"
  by (cases node) simp_all

theorem getGroupNode_non_group_witness:
  "is_terminal (Terminal ''text'' \<lparr>p_attribute = ''exptl.method'', p_operator = ''exact_match'',
       p_value = Scalar (Str ''ELECTRON MICROSCOPY'')\<rparr>)
   \<and> getGroupNode (Terminal ''text'' \<lparr>p_attribute = ''exptl.method'', p_operator = ''exact_match'',
       p_value = Scalar (Str ''ELECTRON MICROSCOPY'')\<rparr>) ''text'' ''and''
     = (None, Terminal ''text'' \<lparr>p_attribute = ''exptl.method'', p_operator = ''exact_match'',
       p_value = Scalar (Str ''ELECTRON MICROSCOPY'')\<rparr>)"
  using getGroupNode_non_group[of "Terminal ''text'' \<lparr>p_attribute = ''exptl.method'',
       p_operator = ''exact_match'', p_value = Scalar (Str ''ELECTRON MICROSCOPY'')\<rparr>" "''text''" "''and''"]
  by simp

subsection \<open>Lemmas on the navigator\<close>

lemma in_group_Group:
  "in_group (Group l lo ns) label operator fail body =
     (case scan_labels ns label 0 None of
        Some i \<Rightarrow> (fst (body (ns ! i)), Group l lo (ns[i := snd (body (ns ! i))]))
      | None \<Rightarrow> (fst (body (getEmptyGroupNode (Some label) operator)),
                 Group l lo (ns @ [snd (body (getEmptyGroupNode (Some label) operator))])))"
  by (simp add: in_group_def split: option.splits prod.splits)

lemma in_group_keeps_head:
  "\<exists>ns'. snd (in_group (Group l lo ns) label operator fail body) = Group l lo ns'"
  by (simp add: in_group_Group split: option.splits)

lemma scan_labels_bound:
  "scan_labels ns label i g = Some k \<Longrightarrow> g = Some k \<or> (i \<le> k \<and> k < i + length ns \<and> label_of (ns ! (k - i)) = Some label)"
proof (induction ns arbitrary: i g)
  case Nil
  then show ?case by simp
next
  case (Cons n ns)
  from Cons.IH[OF Cons.prems[simplified]]
  consider "(if label_of n = Some label then Some i else g) = Some k"
    | "Suc i \<le> k" "k < Suc i + length ns" "label_of (ns ! (k - Suc i)) = Some label"
    by blast
  then show ?case
  proof cases
    case 1
    then show ?thesis by (auto split: if_splits)
  next
    case 2
    then have "k - i = Suc (k - Suc i)" by arith
    with 2 show ?thesis by simp
  qed
qed

lemma find_group_label:
  "find_group parent label = Some c \<Longrightarrow> label_of c = Some label"
  by (cases parent) (auto dest: scan_labels_bound)

lemma find_group_is_Group:
  "find_group parent label = Some c \<Longrightarrow> \<exists>lo ns. c = Group (Some label) lo ns"
  using find_group_label[of parent label c] by (cases c) auto

lemma in_group_found_unchanged:
  assumes "find_group parent label = Some c" and "snd (body c) = c"
  shows "in_group parent label operator fail body = (fst (body c), parent)"
proof (cases parent)
  case (Terminal s p)
  with assms show ?thesis by simp
next
  case (Group l lo ns)
  with assms obtain i where i: "scan_labels ns label 0 None = Some i" "c = ns ! i"
    by auto
  with assms(2) Group show ?thesis
    by (simp add: in_group_Group)
qed

lemma scan_labels_cong:
  "map label_of ns = map label_of ns' \<Longrightarrow> scan_labels ns label i g = scan_labels ns' label i g"
proof (induction ns arbitrary: ns' i g)
  case Nil
  then show ?case by simp
next
  case (Cons n ns)
  then obtain n' ms where "ns' = n' # ms" "label_of n = label_of n'" "map label_of ns = map label_of ms"
    by (cases ns') auto
  with Cons.IH[of ms] show ?case by simp
qed

lemma scan_labels_append:
  "scan_labels (ns @ ms) label i g = scan_labels ms label (i + length ns) (scan_labels ns label i g)"
  by (induction ns arbitrary: i g) auto

lemma find_group_update:
  assumes "scan_labels ns label 0 None = Some i" and "label_of c' = label_of (ns ! i)"
  shows "find_group (Group l lo (ns[i := c'])) label = Some c'"
proof -
  from scan_labels_bound[OF assms(1)] have i: "i < length ns" by simp
  have "map label_of (ns[i := c']) = map label_of ns"
    using assms(2) by (simp add: map_update list_update_same_conv i)
  from scan_labels_cong[OF this] assms(1) i show ?thesis by simp
qed

lemma find_group_append_new:
  assumes "scan_labels ns label 0 None = None" and "label_of c' = Some label"
  shows "find_group (Group l lo (ns @ [c'])) label = Some c'"
  using assms by (simp add: scan_labels_append)

lemma in_group_located:
  assumes "label \<noteq> []"
      and "\<And>c. label_of c = Some label \<Longrightarrow> label_of (snd (body c)) = Some label"
  shows "fst (in_group (Group l lo ns) label operator fail body)
           = fst (body (located_or_new (find_group (Group l lo ns) label) label operator))"
    and "find_group (snd (in_group (Group l lo ns) label operator fail body)) label
           = Some (snd (body (located_or_new (find_group (Group l lo ns) label) label operator)))"
proof -
  show "fst (in_group (Group l lo ns) label operator fail body)
           = fst (body (located_or_new (find_group (Group l lo ns) label) label operator))"
    using assms(1)
    by (simp add: in_group_Group located_or_new_def getEmptyGroupNode_def split: option.splits)
  show "find_group (snd (in_group (Group l lo ns) label operator fail body)) label
           = Some (snd (body (located_or_new (find_group (Group l lo ns) label) label operator)))"
  proof (cases "scan_labels ns label 0 None")
    case None
    have "label_of (snd (body (Group (Some label) operator []))) = Some label"
      using assms(2) by simp
    from find_group_append_new[OF None this] None assms(1) show ?thesis
      by (simp add: in_group_Group located_or_new_def getEmptyGroupNode_def)
  next
    case (Some i)
    from scan_labels_bound[OF Some] have "label_of (ns ! i) = Some label" by simp
    then have "label_of (snd (body (ns ! i))) = label_of (ns ! i)"
      using assms(2) by simp
    from find_group_update[OF Some this] Some show ?thesis
      by (simp add: in_group_Group located_or_new_def)
  qed
qed

lemma label_Some_Group: "label_of c = Some label \<Longrightarrow> \<exists>lo ns. c = Group (Some label) lo ns"
  by (cases c) auto

lemma in_group_keeps_label:
  "label_of c = Some label \<Longrightarrow> label_of (snd (in_group c lbl operator fail body)) = Some label"
proof -
  assume "label_of c = Some label"
  then obtain lo ns where c: "c = Group (Some label) lo ns" using label_Some_Group by blast
  from in_group_keeps_head[of "Some label" lo ns lbl operator fail body] c show ?thesis by auto
qed

lemma find_group_new_empty [simp]: "find_group (Group l lo []) label = None"
  by simp

lemma located_or_new_Group:
  "\<exists>lo ns. located_or_new (find_group parent label) label operator = Group (Some label) lo ns"
  by (cases "find_group parent label") (auto simp: located_or_new_def dest: find_group_is_Group)

lemma in_group_put:
  assumes "label \<noteq> []"
  shows "snd (in_group (Group l lo ns) label operator fail body) =
     put_group (Group l lo ns) label
       (snd (body (located_or_new (find_group (Group l lo ns) label) label operator)))"
  using assms
  by (simp add: in_group_Group located_or_new_def getEmptyGroupNode_def split: option.splits)

lemma put_group_again:
  assumes "label_of c = Some label"
  shows "put_group (put_group (Group l lo ns) label c) label c' = put_group (Group l lo ns) label c'"
    and "find_group (put_group (Group l lo ns) label c) label = Some c"
proof -
  show "put_group (put_group (Group l lo ns) label c) label c' = put_group (Group l lo ns) label c'"
  proof (cases "scan_labels ns label 0 None")
    case None
    then show ?thesis using assms by (simp add: scan_labels_append)
  next
    case (Some i)
    from scan_labels_bound[OF Some] have i: "i < length ns" "label_of (ns ! i) = Some label" by simp_all
    have "map label_of (ns[i := c]) = map label_of ns"
      using assms i by (simp add: map_update list_update_same_conv)
    from scan_labels_cong[OF this, of label 0 None] Some show ?thesis by simp
  qed
  show "find_group (put_group (Group l lo ns) label c) label = Some c"
  proof (cases "scan_labels ns label 0 None")
    case None
    from find_group_append_new[OF None assms] None show ?thesis by simp
  next
    case (Some i)
    from scan_labels_bound[OF Some] have "label_of c = label_of (ns ! i)" using assms by simp
    from find_group_update[OF Some this] Some show ?thesis by simp
  qed
qed

lemma put_group_head: "\<exists>ns'. put_group (Group l lo ns) label c = Group l lo ns'"
  by (simp split: option.splits)

subsection \<open>Single-refinement merger\<close>

lemma find_value_Some:
  "find_value rd v ns found = Some b \<Longrightarrow>
     b = (found \<or> (\<exists>n \<in> set ns. \<exists>w. rd n = Some w \<and> strict_equals w v))"
  by (induction ns arbitrary: found) (auto split: option.splits if_splits)

lemma find_value_None:
  "(find_value rd v ns found = None) = (\<exists>n \<in> set ns. rd n = None)"
  by (induction ns arbitrary: found) (auto split: option.splits)

lemma add_terminal_present:
  assumes "\<exists>c \<in> set cs. \<exists>w. terminal_value c = Some w \<and> strict_equals w v"
  shows "snd (add_terminal node v (Group l lo cs)) = Group l lo cs"
    and "\<forall>c \<in> set cs. is_terminal c \<Longrightarrow> fst (add_terminal node v (Group l lo cs)) = Returned"
proof -
  show "snd (add_terminal node v (Group l lo cs)) = Group l lo cs"
    using assms find_value_Some[of terminal_value v cs False]
    by (auto simp: add_terminal_def split: option.splits)
  assume "\<forall>c \<in> set cs. is_terminal c"
  then have "\<forall>c \<in> set cs. terminal_value c \<noteq> None"
    by (metis is_terminal.elims(2) option.distinct(1) terminal_value.simps(1))
  then have "find_value terminal_value v cs False \<noteq> None"
    by (simp add: find_value_None)
  then show "fst (add_terminal node v (Group l lo cs)) = Returned"
    using assms find_value_Some[of terminal_value v cs False]
    by (auto simp: add_terminal_def split: option.splits)
qed

lemma add_node_keeps_head:
  "\<exists>ns'. snd (add_node e schema node (Group l lo ns)) = Group l lo ns'"
  using in_group_keeps_head[of l lo ns]
  by (auto simp: add_node_def split: node.splits option.splits)

lemma add_node_keeps_label:
  "label_of c = Some label \<Longrightarrow> label_of (snd (add_node e schema node c)) = Some label"
proof -
  assume "label_of c = Some label"
  then obtain lo ns where c: "c = Group (Some label) lo ns" using label_Some_Group by blast
  from add_node_keeps_head[of e schema node "Some label" lo ns] c show ?thesis by auto
qed

lemma addRefinement_group_root:
  assumes "query st = Group l lo ns" and "service \<noteq> []"
  defines "sN \<equiv> located_or_new (find_group (query st) service) service GROUP_AND"
  defines "rN \<equiv> located_or_new (find_group sN LABEL_GROUPS_REFINEMENTS) LABEL_GROUPS_REFINEMENTS GROUP_AND"
  shows "fst (addRefinement e st node schema service) = fst (add_node e schema node rN)"
    and "\<exists>sN'. find_group (query (snd (addRefinement e st node schema service))) service = Some sN'
           \<and> find_group sN' LABEL_GROUPS_REFINEMENTS = Some (snd (add_node e schema node rN))"
proof -
  let ?bs = "\<lambda>serviceNode. in_group serviceNode LABEL_GROUPS_REFINEMENTS GROUP_AND (Thrown TypeError)
                 (add_node e schema node)"
  have res: "addRefinement e st node schema service =
     (fst (in_group (Group l lo ns) service GROUP_AND (Thrown TypeError) ?bs),
      st\<lparr>query := snd (in_group (Group l lo ns) service GROUP_AND (Thrown TypeError) ?bs)\<rparr>)"
    using assms(1) by (simp add: addRefinement_def split: prod.splits)
  have keep: "\<And>c. label_of c = Some service \<Longrightarrow> label_of (snd (?bs c)) = Some service"
    by (rule in_group_keeps_label)
  note L = in_group_located[where body = ?bs and label = service, OF assms(2) keep, of l lo ns GROUP_AND "Thrown TypeError"]
  obtain slo sns where sNG: "sN = Group (Some service) slo sns"
    unfolding sN_def using located_or_new_Group by blast
  have lgr: "LABEL_GROUPS_REFINEMENTS \<noteq> []" by (simp add: LABEL_GROUPS_REFINEMENTS_def)
  note L2 = in_group_located[where body = "add_node e schema node" and label = LABEL_GROUPS_REFINEMENTS,
      OF lgr add_node_keeps_label, of "Some service" slo sns GROUP_AND "Thrown TypeError"]
  show "fst (addRefinement e st node schema service) = fst (add_node e schema node rN)"
    using res L(1) L2(1) sNG assms(1) by (simp add: sN_def rN_def)
  show "\<exists>sN'. find_group (query (snd (addRefinement e st node schema service))) service = Some sN'
           \<and> find_group sN' LABEL_GROUPS_REFINEMENTS = Some (snd (add_node e schema node rN))"
    using res L(2) L2(2) sNG assms(1) by (simp add: sN_def rN_def)
qed


lemma addRefinement_wraps_terminal:
  assumes "is_terminal (query st)" "service \<noteq> []"
  shows "addRefinement e st node schema service =
    (fst (add_node e schema node (Group (Some LABEL_GROUPS_REFINEMENTS) GROUP_AND [])),
     st\<lparr>query := Group None GROUP_AND
             [Group (Some service) GROUP_AND
                [Group None GROUP_AND [query st],
                 snd (add_node e schema node (Group (Some LABEL_GROUPS_REFINEMENTS) GROUP_AND []))]]\<rparr>)"
  using assms
  by (simp add: addRefinement_def in_group_Group getEmptyGroupNode_def wrap_terminal_def
      LABEL_GROUPS_REFINEMENTS_def)

lemma add_node_terminal_empty:
  "add_node e schema (Terminal s p) (Group l lo []) =
     (Returned, Group l lo [Group (if p_attribute p = [] then None else Some (p_attribute p)) GROUP_OR [Terminal s p]])"
  by (simp add: add_node_def in_group_Group getEmptyGroupNode_def add_terminal_def)

lemma add_node_pair_empty:
  "metadata e schema = Some md \<Longrightarrow>
   add_node e schema (Group nl nlo (Terminal s0 p0 # Terminal s1 p1 # ns)) (Group l lo []) =
     (Returned, Group l lo [Group (if p_attribute p0 = [] then None else Some (p_attribute p0)) GROUP_OR
        [if is_nested (uiAttrMap md (p_attribute p0)) (p_attribute p1)
         then Group (Some LABEL_NESTED_ATTRIBUTE) nlo (Terminal s0 p0 # Terminal s1 p1 # ns)
         else Group nl nlo (Terminal s0 p0 # Terminal s1 p1 # ns)]])"
  by (simp add: add_node_def in_group_Group getEmptyGroupNode_def add_group_def)

text \<open>
  Claim C3. On a request whose query is a terminal, one call of \<^verbatim>\<open>addRefinement\<close> with a
  non-empty service key (the default is \<^verbatim>\<open>text\<close>) leaves a root group with one child, the
  group labelled with the service key; that group has two children: an unlabelled \<^verbatim>\<open>and\<close>
  group that holds the original terminal, unchanged, and the group labelled
  \<^verbatim>\<open>groups-refinements\<close>, which holds the new attribute group. For a terminal node, and for
  a pair of terminals under a schema that the metadata has, the call returns and the
  attribute group holds the node.
\<close>

theorem addRefinement_root_normalization:
  assumes "is_terminal (query st)" and "service \<noteq> []"
  shows "(\<exists>rest. query (snd (addRefinement e st node schema service)) =
           Group None GROUP_AND
             [Group (Some service) GROUP_AND
                [Group None GROUP_AND [query st],
                 Group (Some LABEL_GROUPS_REFINEMENTS) GROUP_AND rest]])
      \<and> (\<forall>s p. node = Terminal s p \<longrightarrow>
            addRefinement e st node schema service =
              (Returned, st\<lparr>query := Group None GROUP_AND
                 [Group (Some service) GROUP_AND
                    [Group None GROUP_AND [query st],
                     Group (Some LABEL_GROUPS_REFINEMENTS) GROUP_AND
                       [Group (if p_attribute p = [] then None else Some (p_attribute p)) GROUP_OR
                          [node]]]]\<rparr>))
      \<and> (\<forall>nl nlo s0 p0 s1 p1 ns md.
            node = Group nl nlo (Terminal s0 p0 # Terminal s1 p1 # ns) \<and> metadata e schema = Some md \<longrightarrow>
            addRefinement e st node schema service =
              (Returned, st\<lparr>query := Group None GROUP_AND
                 [Group (Some service) GROUP_AND
                    [Group None GROUP_AND [query st],
                     Group (Some LABEL_GROUPS_REFINEMENTS) GROUP_AND
                       [Group (if p_attribute p0 = [] then None else Some (p_attribute p0)) GROUP_OR
                          [if is_nested (uiAttrMap md (p_attribute p0)) (p_attribute p1)
                           then Group (Some LABEL_NESTED_ATTRIBUTE) nlo (Terminal s0 p0 # Terminal s1 p1 # ns)
                           else node]]]]\<rparr>))"
proof (intro conjI allI impI)
  obtain rest where "snd (add_node e schema node (Group (Some LABEL_GROUPS_REFINEMENTS) GROUP_AND []))
      = Group (Some LABEL_GROUPS_REFINEMENTS) GROUP_AND rest"
    using add_node_keeps_head by blast
  then show "\<exists>rest. query (snd (addRefinement e st node schema service)) =
           Group None GROUP_AND
             [Group (Some service) GROUP_AND
                [Group None GROUP_AND [query st],
                 Group (Some LABEL_GROUPS_REFINEMENTS) GROUP_AND rest]]"
    by (simp add: addRefinement_wraps_terminal[OF assms])
next
  fix s p assume "node = Terminal s p"
  then show "addRefinement e st node schema service =
              (Returned, st\<lparr>query := Group None GROUP_AND
                 [Group (Some service) GROUP_AND
                    [Group None GROUP_AND [query st],
                     Group (Some LABEL_GROUPS_REFINEMENTS) GROUP_AND
                       [Group (if p_attribute p = [] then None else Some (p_attribute p)) GROUP_OR
                          [node]]]]\<rparr>)"
    by (simp add: addRefinement_wraps_terminal[OF assms] add_node_terminal_empty)
next
  fix nl nlo s0 p0 s1 p1 ns md
  assume "node = Group nl nlo (Terminal s0 p0 # Terminal s1 p1 # ns) \<and> metadata e schema = Some md"
  then show "addRefinement e st node schema service =
              (Returned, st\<lparr>query := Group None GROUP_AND
                 [Group (Some service) GROUP_AND
                    [Group None GROUP_AND [query st],
                     Group (Some LABEL_GROUPS_REFINEMENTS) GROUP_AND
                       [Group (if p_attribute p0 = [] then None else Some (p_attribute p0)) GROUP_OR
                          [if is_nested (uiAttrMap md (p_attribute p0)) (p_attribute p1)
                           then Group (Some LABEL_NESTED_ATTRIBUTE) nlo (Terminal s0 p0 # Terminal s1 p1 # ns)
                           else node]]]]\<rparr>)"
    by (simp add: addRefinement_wraps_terminal[OF assms] add_node_pair_empty)
qed

theorem addRefinement_root_normalization_witness:
  "is_terminal (query (example_state example_root)) \<and> default_service \<noteq> []
   \<and> addRefinement example_env (example_state example_root) example_terminal default_schema default_service
     = (Returned, example_state (Group None ''and''
          [Group (Some ''text'') ''and''
             [Group None ''and'' [example_root],
              Group (Some ''groups-refinements'') ''and''
                [Group (Some ''exptl.method'') ''or'' [example_terminal]]]]))
   \<and> addRefinement example_env (example_state example_root) example_pair default_schema default_service
     = (Returned, example_state (Group None ''and''
          [Group (Some ''text'') ''and''
             [Group None ''and'' [example_root],
              Group (Some ''groups-refinements'') ''and''
                [Group (Some ''rcsb_polymer_instance_annotation.annotation_lineage.id'') ''or''
                   [Group (Some ''nested-attribute'') ''and''
                      [Terminal ''text''
                         \<lparr>p_attribute = ''rcsb_polymer_instance_annotation.annotation_lineage.id'',
                          p_operator = ''exact_match'', p_value = Scalar (Str ''2'')\<rparr>,
                       Terminal ''text''
                         \<lparr>p_attribute = ''rcsb_polymer_instance_annotation.type'',
                          p_operator = ''exact_match'', p_value = Scalar (Str ''CATH'')\<rparr>]]]]]))"
  using addRefinement_root_normalization[where e = example_env and schema = default_schema
      and service = default_service and st = "example_state example_root" and node = example_terminal]
    addRefinement_root_normalization[where e = example_env and schema = default_schema
      and service = default_service and st = "example_state example_root" and node = example_pair]
  by (simp add: example_defs constant_defs is_nested_def default_schema_def default_service_def)

lemma attribute_group_terminal [simp]: "is_terminal q \<Longrightarrow> attribute_group q service attr = None"
  by (cases q) (simp_all add: attribute_group_def)

lemma addRefinement_located:
  fixes st :: state
  assumes "service \<noteq> []" and "attr \<noteq> []"
      and node: "\<And>r. add_node e schema node r = in_group r attr GROUP_OR (Thrown TypeError) leaf"
      and keep: "\<And>c. label_of c = Some attr \<Longrightarrow> label_of (snd (leaf c)) = Some attr"
  defines "a0 \<equiv> located_or_new (attribute_group (query st) service attr) attr GROUP_OR"
  shows "fst (addRefinement e st node schema service) = fst (leaf a0)"
    and "attribute_group (query (snd (addRefinement e st node schema service))) service attr
           = Some (snd (leaf a0))"
proof -
  have N: "\<And>l lo ns. fst (add_node e schema node (Group l lo ns))
              = fst (leaf (located_or_new (find_group (Group l lo ns) attr) attr GROUP_OR))
          \<and> find_group (snd (add_node e schema node (Group l lo ns))) attr
              = Some (snd (leaf (located_or_new (find_group (Group l lo ns) attr) attr GROUP_OR)))"
    using in_group_located[where body = leaf and label = attr, OF assms(2) keep]
    by (simp add: node)
  have R: "fst (addRefinement e st node schema service) = fst (leaf a0)
     \<and> attribute_group (query (snd (addRefinement e st node schema service))) service attr
           = Some (snd (leaf a0))"
  proof (cases "query st")
    case (Terminal s p)
    then have t: "is_terminal (query st)" by simp
    obtain rest where rest: "snd (add_node e schema node (Group (Some LABEL_GROUPS_REFINEMENTS) GROUP_AND []))
        = Group (Some LABEL_GROUPS_REFINEMENTS) GROUP_AND rest"
      using add_node_keeps_head by blast
    have a0: "a0 = Group (Some attr) GROUP_OR []"
      using t by (simp add: a0_def located_or_new_def)
    from N[of "Some LABEL_GROUPS_REFINEMENTS" GROUP_AND "[]"] rest a0
    show ?thesis
      by (simp add: addRefinement_wraps_terminal[OF t assms(1)] attribute_group_def located_or_new_def)
  next
    case (Group l lo ns)
    define sN where "sN = located_or_new (find_group (query st) service) service GROUP_AND"
    define rN where "rN = located_or_new (find_group sN LABEL_GROUPS_REFINEMENTS) LABEL_GROUPS_REFINEMENTS GROUP_AND"
    note G = addRefinement_group_root[OF Group assms(1), of e node schema, folded sN_def rN_def]
    obtain rlo rns where rNG: "rN = Group (Some LABEL_GROUPS_REFINEMENTS) rlo rns"
      unfolding rN_def using located_or_new_Group by blast
    have "located_or_new (find_group rN attr) attr GROUP_OR = a0"
      by (auto simp: a0_def rN_def sN_def attribute_group_def located_or_new_def split: option.splits)
    with N[of "Some LABEL_GROUPS_REFINEMENTS" rlo rns] rNG G show ?thesis
      by (auto simp: attribute_group_def)
  qed
  from R show "fst (addRefinement e st node schema service) = fst (leaf a0)" by simp
  from R show "attribute_group (query (snd (addRefinement e st node schema service))) service attr
           = Some (snd (leaf a0))" by simp
qed

lemma push_Group_keeps_label:
  "label_of c = Some l \<Longrightarrow> label_of (snd (push c n)) = Some l"
  by (cases c) auto


lemma add_terminal_keeps_label:
  "label_of c = Some l \<Longrightarrow> label_of (snd (add_terminal node v c)) = Some l"
  by (cases c) (auto simp: add_terminal_def split: option.splits)


lemma add_terminal_outcome:
  "fst (add_terminal node v (Group l lo cs)) =
     (if \<forall>c \<in> set cs. is_terminal c then Returned else Thrown TypeError)"
proof -
  have n: "(find_value terminal_value v cs False = None) = (\<exists>c \<in> set cs. \<not> is_terminal c)"
  proof -
    have "\<And>c. (terminal_value c = None) = (\<not> is_terminal c)"
    proof -
      fix c show "(terminal_value c = None) = (\<not> is_terminal c)" by (cases c) simp_all
    qed
    thus ?thesis by (simp add: find_value_None)
  qed
  show ?thesis
  proof (cases "find_value terminal_value v cs False")
    case None
    with n show ?thesis by (auto simp add: add_terminal_def)
  next
    case (Some found)
    with n have "\<forall>c \<in> set cs. is_terminal c" by auto
    with Some show ?thesis by (simp add: add_terminal_def)
  qed
qed

lemma add_terminal_children:
  "\<exists>cs'. snd (add_terminal node v (Group l lo cs)) = Group l lo cs'
     \<and> (cs' = cs \<or> cs' = cs @ [node])
     \<and> (fst (add_terminal node v (Group l lo cs)) = Returned \<longrightarrow>
          (\<exists>c \<in> set cs. \<exists>w. terminal_value c = Some w \<and> strict_equals w v) \<or> cs' = cs @ [node])"
proof (cases "find_value terminal_value v cs False")
  case None
  thus ?thesis by (simp add: add_terminal_def)
next
  case (Some found)
  from find_value_Some[OF Some]
  have f: "found = (\<exists>c \<in> set cs. \<exists>w. terminal_value c = Some w \<and> strict_equals w v)" by simp
  show ?thesis
  proof (cases found)
    case True
    with Some f show ?thesis by (simp add: add_terminal_def)
  next
    case False
    with Some show ?thesis by (simp add: add_terminal_def)
  qed
qed

lemma addRefinement_present:
  assumes "attribute_group (query st) service (p_attribute p) = Some (Group l lo cs)"
      and "\<exists>c \<in> set cs. \<exists>w. terminal_value c = Some w \<and> strict_equals w (p_value p)"
  shows "addRefinement e st (Terminal s p) schema service =
           (if \<forall>c \<in> set cs. is_terminal c then Returned else Thrown TypeError, st)"
proof -
  from assms(1) obtain sN rN where
    sN: "find_group (query st) service = Some sN" and
    rN: "find_group sN LABEL_GROUPS_REFINEMENTS = Some rN" and
    aN: "find_group rN (p_attribute p) = Some (Group l lo cs)"
    by (auto simp: attribute_group_def split: option.splits)
  let ?leaf = "add_terminal (Terminal s p) (p_value p)"
  have leaf: "snd (?leaf (Group l lo cs)) = Group l lo cs"
    using add_terminal_present(1)[OF assms(2)] .
  have n: "add_node e schema (Terminal s p) rN = (fst (?leaf (Group l lo cs)), rN)"
    using in_group_found_unchanged[where body = ?leaf, OF aN leaf] by (simp add: add_node_def)
  let ?bs = "\<lambda>serviceNode. in_group serviceNode LABEL_GROUPS_REFINEMENTS GROUP_AND (Thrown TypeError)
                 (add_node e schema (Terminal s p))"
  have s: "?bs sN = (fst (?leaf (Group l lo cs)), sN)"
    using in_group_found_unchanged[where body = "add_node e schema (Terminal s p)", OF rN] n by simp
  have nt: "\<not> is_terminal (query st)"
    using sN by (cases "query st") auto
  have "in_group (query st) service GROUP_AND (Thrown TypeError) ?bs = (fst (?leaf (Group l lo cs)), query st)"
    using in_group_found_unchanged[where body = ?bs, OF sN] s by simp
  with nt have res: "addRefinement e st (Terminal s p) schema service = (fst (?leaf (Group l lo cs)), st)"
    by (simp add: addRefinement_def)
  show ?thesis
    unfolding res add_terminal_outcome ..
qed

lemma attribute_group_located:
  "\<exists>lo cs. located_or_new (attribute_group q service attr) attr GROUP_OR = Group (Some attr) lo cs"
proof (cases "attribute_group q service attr")
  case None
  thus ?thesis by (simp add: located_or_new_def)
next
  case (Some c)
  then obtain rN where "find_group rN attr = Some c"
    by (auto simp add: attribute_group_def split: option.splits)
  from find_group_is_Group[OF this] Some show ?thesis by (simp add: located_or_new_def)
qed

lemma addRefinement_inserted:
  assumes "service \<noteq> []" and "p_attribute p \<noteq> []"
    and "addRefinement e st (Terminal s p) schema service = (Returned, st')"
  shows "\<exists>lo cs. attribute_group (query st') service (p_attribute p) = Some (Group (Some (p_attribute p)) lo cs)
     \<and> (\<forall>c \<in> set cs. is_terminal c)
     \<and> (strict_equals (p_value p) (p_value p) \<longrightarrow>
          (\<exists>c \<in> set cs. \<exists>w. terminal_value c = Some w \<and> strict_equals w (p_value p)))"
proof -
  let ?attr = "p_attribute p"
  let ?leaf = "add_terminal (Terminal s p) (p_value p)"
  have n: "\<And>r. add_node e schema (Terminal s p) r = in_group r ?attr GROUP_OR (Thrown TypeError) ?leaf"
    by (simp add: add_node_def)
  note M = addRefinement_located[where leaf = ?leaf and attr = ?attr and node = "Terminal s p",
      OF assms(1,2) n add_terminal_keeps_label, of st]
  obtain lo cs where a0: "located_or_new (attribute_group (query st) service ?attr) ?attr GROUP_OR
      = Group (Some ?attr) lo cs"
    using attribute_group_located by blast
  from M(1) assms(3) a0 have ret: "fst (?leaf (Group (Some ?attr) lo cs)) = Returned" by simp
  hence tm: "\<forall>c \<in> set cs. is_terminal c"
    by (simp add: add_terminal_outcome split: if_splits)
  from add_terminal_children[of "Terminal s p" "p_value p" "Some ?attr" lo cs] obtain cs' where
    cs': "snd (?leaf (Group (Some ?attr) lo cs)) = Group (Some ?attr) lo cs'"
      "cs' = cs \<or> cs' = cs @ [Terminal s p]"
      "fst (?leaf (Group (Some ?attr) lo cs)) = Returned \<longrightarrow>
          (\<exists>c \<in> set cs. \<exists>w. terminal_value c = Some w \<and> strict_equals w (p_value p))
          \<or> cs' = cs @ [Terminal s p]"
    by blast
  have g: "attribute_group (query st') service ?attr = Some (Group (Some ?attr) lo cs')"
    using M(2) assms(3) a0 cs'(1) by simp
  have t': "\<forall>c \<in> set cs'. is_terminal c"
    using tm cs'(2) by auto
  have eq: "strict_equals (p_value p) (p_value p) \<longrightarrow>
          (\<exists>c \<in> set cs'. \<exists>w. terminal_value c = Some w \<and> strict_equals w (p_value p))"
  proof
    assume v: "strict_equals (p_value p) (p_value p)"
    from cs'(3) ret consider
      "\<exists>c \<in> set cs. \<exists>w. terminal_value c = Some w \<and> strict_equals w (p_value p)"
      | "cs' = cs @ [Terminal s p]" by blast
    thus "\<exists>c \<in> set cs'. \<exists>w. terminal_value c = Some w \<and> strict_equals w (p_value p)"
    proof cases
      case 1
      with cs'(2) show ?thesis by auto
    next
      case 2
      have "Terminal s p \<in> set cs'" using 2 by simp
      moreover have "terminal_value (Terminal s p) = Some (p_value p)" by simp
      ultimately show ?thesis using v by blast
    qed
  qed
  from g t' eq show ?thesis by blast
qed

text \<open>
  Claim C2, as stated, fails for a request whose attribute group holds a pair next to the
  terminal: the group is there and a child has a \<^verbatim>\<open>parameters.value\<close> strictly equal to the
  terminal's, but the scan reads \<^verbatim>\<open>n.parameters.value\<close> of the pair and the call throws a
  \<^verbatim>\<open>TypeError\<close>. It leaves the request as it was.
\<close>

theorem addRefinement_idempotent_counterexample:
  "attribute_group
      (query (example_state (Group None ''and'' [Group (Some ''text'') ''and''
         [Group (Some ''groups-refinements'') ''and''
            [Group (Some ''exptl.method'') ''or'' [example_pair, example_terminal]]]])))
      ''text'' ''exptl.method''
     = Some (Group (Some ''exptl.method'') ''or'' [example_pair, example_terminal])
   \<and> terminal_value example_terminal = Some (Scalar (Str ''ELECTRON MICROSCOPY''))
   \<and> strict_equals (Scalar (Str ''ELECTRON MICROSCOPY'')) (Scalar (Str ''ELECTRON MICROSCOPY''))
   \<and> addRefinement example_env
        (example_state (Group None ''and'' [Group (Some ''text'') ''and''
           [Group (Some ''groups-refinements'') ''and''
              [Group (Some ''exptl.method'') ''or'' [example_pair, example_terminal]]]]))
        example_terminal ''structure'' ''text''
     = (Thrown TypeError,
        example_state (Group None ''and'' [Group (Some ''text'') ''and''
           [Group (Some ''groups-refinements'') ''and''
              [Group (Some ''exptl.method'') ''or'' [example_pair, example_terminal]]]]))"
  by (simp add: example_defs constant_defs addRefinement_def in_group_def add_node_def
      add_terminal_def attribute_group_def)

text \<open>
  Claim C2, amended. When the request has the attribute group of a terminal's attribute and
  a child of that group has a \<^verbatim>\<open>parameters.value\<close> strictly equal to the terminal's,
  \<^verbatim>\<open>addRefinement\<close> leaves the request and the rest of the state as they were, so that
  nothing is inserted; it returns when every child of the group is a terminal, and throws a
  \<^verbatim>\<open>TypeError\<close> when a child is a group. After a call of \<^verbatim>\<open>addRefinement\<close> with the terminal
  that returned (service key and attribute non-empty, the value strictly equal to itself, so
  not \<^verbatim>\<open>NaN\<close>), the attribute group is there, its children are terminals and one of them
  has the terminal's value: a second call with the same terminal returns and leaves the
  state as it was.
\<close>

theorem addRefinement_idempotent:
  "(attribute_group (query st) service (p_attribute p) = Some (Group l lo cs)
      \<and> (\<exists>c \<in> set cs. \<exists>w. terminal_value c = Some w \<and> strict_equals w (p_value p))
    \<longrightarrow> addRefinement e st (Terminal s p) schema service =
          (if \<forall>c \<in> set cs. is_terminal c then Returned else Thrown TypeError, st))
   \<and> (service \<noteq> [] \<and> p_attribute p \<noteq> [] \<and> strict_equals (p_value p) (p_value p)
      \<and> addRefinement e st (Terminal s p) schema service = (Returned, st')
    \<longrightarrow> addRefinement e st' (Terminal s p) schema service = (Returned, st')
        \<and> (\<exists>lo' cs'. attribute_group (query st') service (p_attribute p)
                        = Some (Group (Some (p_attribute p)) lo' cs')
              \<and> (\<forall>c \<in> set cs'. is_terminal c)
              \<and> (\<exists>c \<in> set cs'. \<exists>w. terminal_value c = Some w \<and> strict_equals w (p_value p))))"
proof (intro conjI impI)
  assume "attribute_group (query st) service (p_attribute p) = Some (Group l lo cs)
      \<and> (\<exists>c \<in> set cs. \<exists>w. terminal_value c = Some w \<and> strict_equals w (p_value p))"
  hence a: "attribute_group (query st) service (p_attribute p) = Some (Group l lo cs)"
    and b: "\<exists>c \<in> set cs. \<exists>w. terminal_value c = Some w \<and> strict_equals w (p_value p)" by simp_all
  show "addRefinement e st (Terminal s p) schema service =
          (if \<forall>c \<in> set cs. is_terminal c then Returned else Thrown TypeError, st)"
    by (rule addRefinement_present[OF a b])
next
  assume h: "service \<noteq> [] \<and> p_attribute p \<noteq> [] \<and> strict_equals (p_value p) (p_value p)
      \<and> addRefinement e st (Terminal s p) schema service = (Returned, st')"
  hence sv: "service \<noteq> []" and at: "p_attribute p \<noteq> []"
    and v: "strict_equals (p_value p) (p_value p)"
    and first: "addRefinement e st (Terminal s p) schema service = (Returned, st')" by simp_all
  from addRefinement_inserted[OF sv at first] v obtain lo' cs' where
    g: "attribute_group (query st') service (p_attribute p) = Some (Group (Some (p_attribute p)) lo' cs')"
    and t: "\<forall>c \<in> set cs'. is_terminal c"
    and eq: "\<exists>c \<in> set cs'. \<exists>w. terminal_value c = Some w \<and> strict_equals w (p_value p)"
    by blast
  from addRefinement_present[OF g eq, of e s schema] t
  show "addRefinement e st' (Terminal s p) schema service = (Returned, st')" by simp
  from g t eq
  show "\<exists>lo' cs'. attribute_group (query st') service (p_attribute p)
                        = Some (Group (Some (p_attribute p)) lo' cs')
              \<and> (\<forall>c \<in> set cs'. is_terminal c)
              \<and> (\<exists>c \<in> set cs'. \<exists>w. terminal_value c = Some w \<and> strict_equals w (p_value p))"
    by blast
qed


theorem addRefinement_idempotent_witness:
  "default_service \<noteq> [] \<and> ''exptl.method'' \<noteq> []
   \<and> strict_equals (Scalar (Str ''ELECTRON MICROSCOPY'')) (Scalar (Str ''ELECTRON MICROSCOPY''))
   \<and> addRefinement example_env (example_state (Group None ''and'' [])) example_terminal
        default_schema default_service
     = (Returned, example_state (Group None ''and'' [Group (Some ''text'') ''and''
         [Group (Some ''groups-refinements'') ''and''
            [Group (Some ''exptl.method'') ''or'' [example_terminal]]]]))
   \<and> attribute_group
        (query (example_state (Group None ''and'' [Group (Some ''text'') ''and''
           [Group (Some ''groups-refinements'') ''and''
              [Group (Some ''exptl.method'') ''or'' [example_terminal]]]])))
        default_service ''exptl.method''
     = Some (Group (Some ''exptl.method'') ''or'' [example_terminal])
   \<and> addRefinement example_env
        (example_state (Group None ''and'' [Group (Some ''text'') ''and''
           [Group (Some ''groups-refinements'') ''and''
              [Group (Some ''exptl.method'') ''or'' [example_terminal]]]]))
        example_terminal default_schema default_service
     = (Returned, example_state (Group None ''and'' [Group (Some ''text'') ''and''
         [Group (Some ''groups-refinements'') ''and''
            [Group (Some ''exptl.method'') ''or'' [example_terminal]]]]))"
proof -
  have first: "addRefinement example_env (example_state (Group None ''and'' [])) example_terminal
        default_schema default_service
     = (Returned, example_state (Group None ''and'' [Group (Some ''text'') ''and''
         [Group (Some ''groups-refinements'') ''and''
            [Group (Some ''exptl.method'') ''or'' [example_terminal]]]]))"
    by (simp add: example_defs constant_defs default_schema_def default_service_def addRefinement_def
        in_group_def add_node_def add_terminal_def getEmptyGroupNode_def)
  from addRefinement_idempotent[where e = example_env and schema = default_schema
      and service = default_service and s = "''text''"
      and p = "\<lparr>p_attribute = ''exptl.method'', p_operator = ''exact_match'',
                p_value = Scalar (Str ''ELECTRON MICROSCOPY'')\<rparr>"
      and st = "example_state (Group None ''and'' [])"
      and st' = "example_state (Group None ''and'' [Group (Some ''text'') ''and''
         [Group (Some ''groups-refinements'') ''and''
            [Group (Some ''exptl.method'') ''or'' [example_terminal]]]])"] first
  show ?thesis
    by (simp add: example_defs constant_defs default_schema_def default_service_def
        attribute_group_def prod_eq_iff)
qed







subsection \<open>Bulk-refinement translator\<close>

lemma append_refinements_Group:
  "snd (append_refinements e schema service rs m next (Group l lo sns)) =
     Group l lo (sns @ [refinements_group e schema service rs m next])"
  by (simp add: append_refinements_def refinements_group_def split: prod.splits outcome.splits)

lemma append_refinements_sync_Group:
  "snd (append_refinements_sync e schema service rs next (Group l lo sns)) =
     Group l lo (sns @ [refinements_group_sync e schema service rs next])"
  by (simp add: append_refinements_sync_def refinements_group_sync_def split: prod.splits outcome.splits)

lemma service_of_nonempty: "service_of rt \<noteq> []"
  by (simp add: service_of_def)

lemma addRefinements_query:
  assumes "query st = Group l lo ns"
  shows "\<exists>slo sns.
     located_or_new (find_group (query st) (service_of rt)) (service_of rt) GROUP_AND
        = Group (Some (service_of rt)) slo sns
     \<and> query (snd (addRefinements e st rs rt)) =
        put_group (query st) (service_of rt)
          (Group (Some (service_of rt)) slo
             (sns @ [refinements_group e (schema_of rt) (service_of rt) rs (attributeMap st) (fresh st)]))"
proof -
  obtain slo sns where sN:
    "located_or_new (find_group (query st) (service_of rt)) (service_of rt) GROUP_AND
        = Group (Some (service_of rt)) slo sns"
    using located_or_new_Group by blast
  have "query (snd (addRefinements e st rs rt)) =
      snd (in_group (Group l lo ns) (service_of rt) GROUP_AND (Thrown TypeError, attributeMap st, fresh st)
             (append_refinements e (schema_of rt) (service_of rt) rs (attributeMap st) (fresh st)))"
    using assms by (simp add: addRefinements_def Let_def split: prod.splits)
  with sN assms show ?thesis
    by (simp add: in_group_put[OF service_of_nonempty] append_refinements_Group)
qed

lemma addRefinements_twice_query:
  assumes "query st = Group l lo ns"
  shows "\<exists>slo sns.
     located_or_new (find_group (query st) (service_of rt)) (service_of rt) GROUP_AND
        = Group (Some (service_of rt)) slo sns
     \<and> query (snd (addRefinements e st rs1 rt)) =
        put_group (query st) (service_of rt)
          (Group (Some (service_of rt)) slo
             (sns @ [refinements_group e (schema_of rt) (service_of rt) rs1 (attributeMap st) (fresh st)]))
     \<and> query (snd (addRefinements e (snd (addRefinements e st rs1 rt)) rs2 rt)) =
        put_group (query st) (service_of rt)
          (Group (Some (service_of rt)) slo
             (sns @ [refinements_group e (schema_of rt) (service_of rt) rs1 (attributeMap st) (fresh st),
                     refinements_group e (schema_of rt) (service_of rt) rs2
                       (attributeMap (snd (addRefinements e st rs1 rt)))
                       (fresh (snd (addRefinements e st rs1 rt)))]))"
proof -
  let ?sv = "service_of rt"
  let ?st1 = "snd (addRefinements e st rs1 rt)"
  let ?g1 = "refinements_group e (schema_of rt) ?sv rs1 (attributeMap st) (fresh st)"
  let ?g2 = "refinements_group e (schema_of rt) ?sv rs2 (attributeMap ?st1) (fresh ?st1)"
  from addRefinements_query[OF assms, of rt e rs1] obtain slo sns where
    sN: "located_or_new (find_group (query st) ?sv) ?sv GROUP_AND = Group (Some ?sv) slo sns" and
    q1: "query ?st1 = put_group (query st) ?sv (Group (Some ?sv) slo (sns @ [?g1]))"
    by blast
  obtain ns1 where ns1: "query ?st1 = Group l lo ns1"
    using q1 assms put_group_head[of l lo ns] by auto
  have f1: "find_group (query ?st1) ?sv = Some (Group (Some ?sv) slo (sns @ [?g1]))"
    using q1 assms put_group_again(2)[of "Group (Some ?sv) slo (sns @ [?g1])" ?sv l lo ns] by simp
  from addRefinements_query[OF ns1, of rt e rs2] f1
  have "query (snd (addRefinements e ?st1 rs2 rt)) =
      put_group (query ?st1) ?sv (Group (Some ?sv) slo ((sns @ [?g1]) @ [?g2]))"
    by (simp add: located_or_new_def)
  then have "query (snd (addRefinements e ?st1 rs2 rt)) =
      put_group (query st) ?sv (Group (Some ?sv) slo (sns @ [?g1, ?g2]))"
    using q1 assms put_group_again(1)[of "Group (Some ?sv) slo (sns @ [?g1])" ?sv l lo ns] by simp
  with sN q1 show ?thesis by blast
qed

lemma setAttributeNode_each_leaves:
  "\<exists>ys. snd (setAttributeNode_each service a vs (Group l lo xs) next) = Group l lo (xs @ ys)
     \<and> (\<forall>y \<in> set ys. \<exists>v \<in> set vs. \<exists>n. y = Terminal service
            \<lparr>p_attribute = a, p_operator = fst (setAttributeNode_value a v n),
             p_value = fst (snd (setAttributeNode_value a v n))\<rparr>)"
proof (induction vs arbitrary: xs "next")
  case Nil
  then show ?case by simp
next
  case (Cons v vs)
  obtain oper v' next' where sv: "setAttributeNode_value a v next = (oper, v', next')"
    by (cases "setAttributeNode_value a v next") auto
  let ?t = "Terminal service \<lparr>p_attribute = a, p_operator = oper, p_value = v'\<rparr>"
  from Cons.IH[of "xs @ [?t]" next'] obtain ys where
    ys: "snd (setAttributeNode_each service a vs (Group l lo (xs @ [?t])) next') = Group l lo ((xs @ [?t]) @ ys)"
      "\<forall>y \<in> set ys. \<exists>v \<in> set vs. \<exists>n. y = Terminal service
            \<lparr>p_attribute = a, p_operator = fst (setAttributeNode_value a v n),
             p_value = fst (snd (setAttributeNode_value a v n))\<rparr>"
    by blast
  have t: "?t = Terminal service \<lparr>p_attribute = a, p_operator = fst (setAttributeNode_value a v next),
             p_value = fst (snd (setAttributeNode_value a v next))\<rparr>"
    using sv by simp
  have "snd (setAttributeNode_each service a (v # vs) (Group l lo xs) next) = Group l lo (xs @ (?t # ys))"
    using sv ys(1) by (simp add: getTerminalNode_def)
  moreover have "\<forall>y \<in> set (?t # ys). \<exists>w \<in> set (v # vs). \<exists>n. y = Terminal service
            \<lparr>p_attribute = a, p_operator = fst (setAttributeNode_value a w n),
             p_value = fst (snd (setAttributeNode_value a w n))\<rparr>"
  proof
    fix y assume "y \<in> set (?t # ys)"
    then consider "y = ?t" | "y \<in> set ys" by auto
    then show "\<exists>w \<in> set (v # vs). \<exists>n. y = Terminal service
            \<lparr>p_attribute = a, p_operator = fst (setAttributeNode_value a w n),
             p_value = fst (snd (setAttributeNode_value a w n))\<rparr>"
    proof cases
      case 1
      with t show ?thesis by auto
    next
      case 2
      with ys(2) obtain w n where "w \<in> set vs" "y = Terminal service
            \<lparr>p_attribute = a, p_operator = fst (setAttributeNode_value a w n),
             p_value = fst (snd (setAttributeNode_value a w n))\<rparr>" by blast
      then show ?thesis by auto
    qed
  qed
  ultimately show ?case by blast
qed


lemma setFacetFilterAttributeNode_each_leaves:
  "\<exists>ys. snd (setFacetFilterAttributeNode_each service a label ff vs (Group l lo xs)) = Group l lo (xs @ ys)
     \<and> (\<forall>y \<in> set ys. \<exists>v \<in> set vs. y = Group label GROUP_AND
           [Terminal service \<lparr>p_attribute = a, p_operator = EXACT_MATCH, p_value = Scalar (Str v)\<rparr>, ff])"
proof (induction vs arbitrary: xs)
  case Nil
  then show ?case by simp
next
  case (Cons v vs)
  let ?g = "Group label GROUP_AND
           [Terminal service \<lparr>p_attribute = a, p_operator = EXACT_MATCH, p_value = Scalar (Str v)\<rparr>, ff]"
  from Cons.IH[of "xs @ [?g]"] obtain ys where
    ys: "snd (setFacetFilterAttributeNode_each service a label ff vs (Group l lo (xs @ [?g]))) = Group l lo ((xs @ [?g]) @ ys)"
      "\<forall>y \<in> set ys. \<exists>v \<in> set vs. y = Group label GROUP_AND
           [Terminal service \<lparr>p_attribute = a, p_operator = EXACT_MATCH, p_value = Scalar (Str v)\<rparr>, ff]"
    by blast
  have "snd (setFacetFilterAttributeNode_each service a label ff (v # vs) (Group l lo xs)) = Group l lo (xs @ (?g # ys))"
    using ys(1) by (simp add: getTerminalNode_def)
  moreover have "\<forall>y \<in> set (?g # ys). \<exists>w \<in> set (v # vs). y = Group label GROUP_AND
           [Terminal service \<lparr>p_attribute = a, p_operator = EXACT_MATCH, p_value = Scalar (Str w)\<rparr>, ff]"
    using ys(2) by auto
  ultimately show ?case by blast
qed

lemma setFacetFilterAttributeNode_sync_each_leaves:
  "\<exists>ys. snd (setFacetFilterAttributeNode_sync_each service a ao ff vs (Group l lo xs)) = Group l lo (xs @ ys)
     \<and> (\<forall>y \<in> set ys. \<exists>v \<in> set vs. \<exists>label. y = Group label GROUP_AND
           [Terminal service \<lparr>p_attribute = a, p_operator = EXACT_MATCH, p_value = Scalar (Str v)\<rparr>, ff])"
proof (induction vs arbitrary: xs)
  case Nil
  then show ?case by simp
next
  case (Cons v vs)
  show ?case
  proof (cases "facetFilter_label_sync ao ff")
    case None
    then have "snd (setFacetFilterAttributeNode_sync_each service a ao ff (v # vs) (Group l lo xs)) = Group l lo (xs @ [])"
      by simp
    then show ?thesis by (metis empty_iff empty_set)
  next
    case (Some label)
    let ?g = "Group label GROUP_AND
           [Terminal service \<lparr>p_attribute = a, p_operator = EXACT_MATCH, p_value = Scalar (Str v)\<rparr>, ff]"
    from Cons.IH[of "xs @ [?g]"] obtain ys where
      ys: "snd (setFacetFilterAttributeNode_sync_each service a ao ff vs (Group l lo (xs @ [?g]))) = Group l lo ((xs @ [?g]) @ ys)"
        "\<forall>y \<in> set ys. \<exists>v \<in> set vs. \<exists>label. y = Group label GROUP_AND
           [Terminal service \<lparr>p_attribute = a, p_operator = EXACT_MATCH, p_value = Scalar (Str v)\<rparr>, ff]"
      by blast
    have "snd (setFacetFilterAttributeNode_sync_each service a ao ff (v # vs) (Group l lo xs)) = Group l lo (xs @ (?g # ys))"
      using ys(1) Some by (simp add: getTerminalNode_def)
    moreover have "\<forall>y \<in> set (?g # ys). \<exists>w \<in> set (v # vs). \<exists>label. y = Group label GROUP_AND
           [Terminal service \<lparr>p_attribute = a, p_operator = EXACT_MATCH, p_value = Scalar (Str w)\<rparr>, ff]"
      using ys(2) by auto
    ultimately show ?thesis by blast
  qed
qed



lemma refined_leaf_terminalI:
  "r \<in> set rs \<Longrightarrow> v \<in> set (refinement_values r) \<Longrightarrow>
   refined_leaf rs (refinement_attribute r) (Terminal s
     \<lparr>p_attribute = refinement_attribute r,
      p_operator = fst (setAttributeNode_value (refinement_attribute r) v n),
      p_value = fst (snd (setAttributeNode_value (refinement_attribute r) v n))\<rparr>)"
  unfolding refined_leaf_def by (intro bexI[of _ r] conjI bexI[of _ v] disjI1 exI refl) simp_all

lemma refined_leaf_pairI:
  "r \<in> set rs \<Longrightarrow> v \<in> set (refinement_values r) \<Longrightarrow>
   refined_leaf rs (refinement_attribute r) (Group l GROUP_AND
     [Terminal s \<lparr>p_attribute = refinement_attribute r, p_operator = EXACT_MATCH,
        p_value = Scalar (Str v)\<rparr>, f])"
  unfolding refined_leaf_def by (intro bexI[of _ r] conjI bexI[of _ v] disjI2 exI refl) simp_all

lemma refine_attribute_leaves:
  assumes "r \<in> set rs"
  shows "\<exists>ys. snd (refine_attribute service ad r next (Group l lo xs)) = Group l lo (xs @ ys)
     \<and> (\<forall>y \<in> set ys. refined_leaf rs (refinement_attribute r) y)"
proof (cases ad)
  case None
  then have "snd (refine_attribute service ad r next (Group l lo xs)) = Group l lo (xs @ [])"
    by (simp add: refine_attribute_def)
  moreover have "\<forall>y \<in> set []. refined_leaf rs (refinement_attribute r) y" by simp
  ultimately show ?thesis by (rule_tac x = "[]" in exI) simp
next
  case d: (Some d)
  show ?thesis
  proof (cases "ad_facetFilter d")
    case None
    from setAttributeNode_each_leaves[of service "refinement_attribute r" "refinement_values r" l lo xs "next"]
    obtain ys where ys: "snd (setAttributeNode service (Group l lo xs) r next) = Group l lo (xs @ ys)"
      "\<forall>y \<in> set ys. \<exists>v \<in> set (refinement_values r). \<exists>n. y = Terminal service
            \<lparr>p_attribute = refinement_attribute r, p_operator = fst (setAttributeNode_value (refinement_attribute r) v n),
             p_value = fst (snd (setAttributeNode_value (refinement_attribute r) v n))\<rparr>"
      unfolding setAttributeNode_def by blast
    have leaves: "\<forall>y \<in> set ys. refined_leaf rs (refinement_attribute r) y"
    proof
      fix y assume "y \<in> set ys"
      with ys(2) obtain v n where "v \<in> set (refinement_values r)" "y = Terminal service
            \<lparr>p_attribute = refinement_attribute r, p_operator = fst (setAttributeNode_value (refinement_attribute r) v n),
             p_value = fst (snd (setAttributeNode_value (refinement_attribute r) v n))\<rparr>" by blast
      with assms show "refined_leaf rs (refinement_attribute r) y"
        by (simp add: refined_leaf_terminalI)
    qed
    have "snd (refine_attribute service ad r next (Group l lo xs)) = Group l lo (xs @ ys)"
      using ys(1) d None by (simp add: refine_attribute_def)
    with leaves show ?thesis by blast
  next
    case ff: (Some ff)
    show ?thesis
    proof (cases "facetFilter_label (ad_attrObj d) ff")
      case None
      with ff d have "snd (refine_attribute service ad r next (Group l lo xs)) = Group l lo (xs @ [])"
        by (simp add: refine_attribute_def setFacetFilterAttributeNode_def)
      then show ?thesis by (rule_tac x = "[]" in exI) simp
    next
      case (Some label)
      from setFacetFilterAttributeNode_each_leaves[of service "refinement_attribute r" label ff "refinement_values r" l lo xs]
      obtain ys where ys: "snd (setFacetFilterAttributeNode_each service (refinement_attribute r) label ff
           (refinement_values r) (Group l lo xs)) = Group l lo (xs @ ys)"
        "\<forall>y \<in> set ys. \<exists>v \<in> set (refinement_values r). y = Group label GROUP_AND
           [Terminal service \<lparr>p_attribute = refinement_attribute r, p_operator = EXACT_MATCH, p_value = Scalar (Str v)\<rparr>, ff]"
        by blast
      have leaves: "\<forall>y \<in> set ys. refined_leaf rs (refinement_attribute r) y"
      proof
        fix y assume "y \<in> set ys"
        with ys(2) obtain v where "v \<in> set (refinement_values r)" "y = Group label GROUP_AND
           [Terminal service \<lparr>p_attribute = refinement_attribute r, p_operator = EXACT_MATCH, p_value = Scalar (Str v)\<rparr>, ff]"
          by blast
        with assms show "refined_leaf rs (refinement_attribute r) y"
          by (simp add: refined_leaf_pairI)
      qed
      have "snd (refine_attribute service ad r next (Group l lo xs)) = Group l lo (xs @ ys)"
        using ys(1) Some ff d
        by (simp add: refine_attribute_def setFacetFilterAttributeNode_def case_prod_beta)
      with leaves show ?thesis by blast
    qed
  qed
qed


lemma refine_attribute_sync_leaves:
  assumes "r \<in> set rs"
  shows "\<exists>ys. snd (refine_attribute_sync e schema service r next (Group l lo xs)) = Group l lo (xs @ ys)
     \<and> (\<forall>y \<in> set ys. refined_leaf rs (refinement_attribute r) y)"
proof (cases "metadata e schema")
  case None
  then have "snd (refine_attribute_sync e schema service r next (Group l lo xs)) = Group l lo (xs @ [])"
    by (simp add: refine_attribute_sync_def)
  then show ?thesis by (rule_tac x = "[]" in exI) simp
next
  case md: (Some md)
  show ?thesis
  proof (cases "facetFilters md (refinement_attribute r)")
    case None
    from setAttributeNode_each_leaves[of service "refinement_attribute r" "refinement_values r" l lo xs "next"]
    obtain ys where ys: "snd (setAttributeNode service (Group l lo xs) r next) = Group l lo (xs @ ys)"
      "\<forall>y \<in> set ys. \<exists>v \<in> set (refinement_values r). \<exists>n. y = Terminal service
            \<lparr>p_attribute = refinement_attribute r, p_operator = fst (setAttributeNode_value (refinement_attribute r) v n),
             p_value = fst (snd (setAttributeNode_value (refinement_attribute r) v n))\<rparr>"
      unfolding setAttributeNode_def by blast
    have leaves: "\<forall>y \<in> set ys. refined_leaf rs (refinement_attribute r) y"
    proof
      fix y assume "y \<in> set ys"
      with ys(2) obtain v n where "v \<in> set (refinement_values r)" "y = Terminal service
            \<lparr>p_attribute = refinement_attribute r, p_operator = fst (setAttributeNode_value (refinement_attribute r) v n),
             p_value = fst (snd (setAttributeNode_value (refinement_attribute r) v n))\<rparr>" by blast
      with assms show "refined_leaf rs (refinement_attribute r) y"
        by (simp add: refined_leaf_terminalI)
    qed
    have "snd (refine_attribute_sync e schema service r next (Group l lo xs)) = Group l lo (xs @ ys)"
      using ys(1) md None by (simp add: refine_attribute_sync_def)
    with leaves show ?thesis by blast
  next
    case ff: (Some ff)
    from setFacetFilterAttributeNode_sync_each_leaves[of service "refinement_attribute r"
        "uiAttrMap md (refinement_attribute r)" ff "refinement_values r" l lo xs]
    obtain ys where ys: "snd (setFacetFilterAttributeNode_sync_each service (refinement_attribute r)
           (uiAttrMap md (refinement_attribute r)) ff (refinement_values r) (Group l lo xs)) = Group l lo (xs @ ys)"
      "\<forall>y \<in> set ys. \<exists>v \<in> set (refinement_values r). \<exists>label. y = Group label GROUP_AND
           [Terminal service \<lparr>p_attribute = refinement_attribute r, p_operator = EXACT_MATCH, p_value = Scalar (Str v)\<rparr>, ff]"
      by blast
    have leaves: "\<forall>y \<in> set ys. refined_leaf rs (refinement_attribute r) y"
    proof
      fix y assume "y \<in> set ys"
      with ys(2) obtain v label where "v \<in> set (refinement_values r)" "y = Group label GROUP_AND
           [Terminal service \<lparr>p_attribute = refinement_attribute r, p_operator = EXACT_MATCH, p_value = Scalar (Str v)\<rparr>, ff]"
        by blast
      with assms show "refined_leaf rs (refinement_attribute r) y"
        by (simp add: refined_leaf_pairI)
    qed
    have "snd (refine_attribute_sync e schema service r next (Group l lo xs)) = Group l lo (xs @ ys)"
      using ys(1) ff md
      by (simp add: refine_attribute_sync_def case_prod_beta)
    with leaves show ?thesis by blast
  qed
qed

lemma in_group_only_refinements:
  assumes inv: "only_refinements rs g" and a: "a \<in> refinement_attribute ` set rs"
      and body: "\<And>l lo xs. \<exists>ys. snd (body (Group l lo xs)) = Group l lo (xs @ ys)
                    \<and> (\<forall>y \<in> set ys. refined_leaf rs a y)"
  shows "only_refinements rs (snd (in_group g a GROUP_OR fail body))"
proof -
  from inv obtain cs where g: "g = Group None GROUP_AND cs" and
    cs: "\<forall>c \<in> set cs. \<exists>a xs. a \<in> refinement_attribute ` set rs \<and>
           c = Group (if a = [] then None else Some a) GROUP_OR xs \<and>
           (\<forall>x \<in> set xs. refined_leaf rs a x)"
    unfolding only_refinements_def by blast
  let ?ok = "\<lambda>c. \<exists>a xs. a \<in> refinement_attribute ` set rs \<and>
           c = Group (if a = [] then None else Some a) GROUP_OR xs \<and>
           (\<forall>x \<in> set xs. refined_leaf rs a x)"
  show ?thesis
  proof (cases "scan_labels cs a 0 None")
    case None
    from body[of "if a = [] then None else Some a" GROUP_OR "[]"] obtain ys where
      ys: "snd (body (Group (if a = [] then None else Some a) GROUP_OR [])) =
             Group (if a = [] then None else Some a) GROUP_OR ys"
          "\<forall>y \<in> set ys. refined_leaf rs a y" by auto
    have new: "?ok (snd (body (getEmptyGroupNode (Some a) GROUP_OR)))"
      using ys a by (auto simp: getEmptyGroupNode_def)
    have "snd (in_group g a GROUP_OR fail body) =
        Group None GROUP_AND (cs @ [snd (body (getEmptyGroupNode (Some a) GROUP_OR))])"
      using g None by (simp add: in_group_Group)
    moreover have "\<forall>c \<in> set (cs @ [snd (body (getEmptyGroupNode (Some a) GROUP_OR))]). ?ok c"
      using cs new by simp
    ultimately show ?thesis unfolding only_refinements_def by blast
  next
    case (Some i)
    from scan_labels_bound[OF Some] have i: "i < length cs" "label_of (cs ! i) = Some a" by simp_all
    have "cs ! i \<in> set cs" using i(1) by simp
    from bspec[OF cs this] obtain a' xs where c: "a' \<in> refinement_attribute ` set rs"
      "cs ! i = Group (if a' = [] then None else Some a') GROUP_OR xs"
      "\<forall>x \<in> set xs. refined_leaf rs a' x"
      by blast
    from i(2) c(2) have a': "a' = a" "a \<noteq> []" by (auto split: if_splits)
    from body[of "Some a" GROUP_OR xs] obtain ys where
      ys: "snd (body (Group (Some a) GROUP_OR xs)) = Group (Some a) GROUP_OR (xs @ ys)"
          "\<forall>y \<in> set ys. refined_leaf rs a y" by auto
    have upd: "?ok (snd (body (cs ! i)))"
    proof (intro exI conjI)
      show "a \<in> refinement_attribute ` set rs" by (rule a)
      show "snd (body (cs ! i)) = Group (if a = [] then None else Some a) GROUP_OR (xs @ ys)"
        using c(2) a' ys(1) by simp
      show "\<forall>x \<in> set (xs @ ys). refined_leaf rs a x"
        using c(3) a'(1) ys(2) by auto
    qed
    have "snd (in_group g a GROUP_OR fail body) = Group None GROUP_AND (cs[i := snd (body (cs ! i))])"
      using g Some by (simp add: in_group_Group)
    moreover have "\<forall>c \<in> set (cs[i := snd (body (cs ! i))]). ?ok c"
    proof
      fix c assume "c \<in> set (cs[i := snd (body (cs ! i))])"
      then have "c = snd (body (cs ! i)) \<or> c \<in> set cs"
        using set_update_subset_insert[of cs i "snd (body (cs ! i))"] by auto
      then show "?ok c" using upd cs by blast
    qed
    ultimately show ?thesis unfolding only_refinements_def by blast
  qed
qed

lemma addRefinements_each_only_refinements:
  "set todo \<subseteq> set rs \<Longrightarrow> only_refinements rs g \<Longrightarrow>
   only_refinements rs (snd (addRefinements_each service m todo g next))"
proof (induction todo arbitrary: g "next")
  case Nil
  then show ?case by simp
next
  case (Cons r todo)
  let ?step = "in_group g (refinement_attribute r) GROUP_OR (Thrown TypeError, next)
             (refine_attribute service (cache_get m (refinement_attribute r)) r next)"
  have r: "r \<in> set rs" using Cons.prems(1) by simp
  have inv: "only_refinements rs (snd ?step)"
    by (rule in_group_only_refinements[OF Cons.prems(2)]) (use r refine_attribute_leaves[OF r] in auto)
  obtain oc next' g' where step: "?step = ((oc, next'), g')"
    by (metis surj_pair)
  show ?case
  proof (cases oc)
    case Returned
    with step inv Cons.IH[of g' next'] Cons.prems(1) show ?thesis by simp
  next
    case (Thrown err)
    with step inv show ?thesis by simp
  qed
qed

lemma addRefinements_sync_each_only_refinements:
  "set todo \<subseteq> set rs \<Longrightarrow> only_refinements rs g \<Longrightarrow>
   only_refinements rs (snd (addRefinements_sync_each e schema service todo g next))"
proof (induction todo arbitrary: g "next")
  case Nil
  then show ?case by simp
next
  case (Cons r todo)
  let ?step = "in_group g (refinement_attribute r) GROUP_OR (Thrown TypeError, next)
             (refine_attribute_sync e schema service r next)"
  have r: "r \<in> set rs" using Cons.prems(1) by simp
  have inv: "only_refinements rs (snd ?step)"
    by (rule in_group_only_refinements[OF Cons.prems(2)]) (use r refine_attribute_sync_leaves[OF r] in auto)
  obtain oc next' g' where step: "?step = ((oc, next'), g')"
    by (metis surj_pair)
  show ?case
  proof (cases oc)
    case Returned
    with step inv Cons.IH[of g' next'] Cons.prems(1) show ?thesis by simp
  next
    case (Thrown err)
    with step inv show ?thesis by simp
  qed
qed

lemma only_refinements_empty: "only_refinements rs (getEmptyGroupNode None GROUP_AND)"
  by (simp add: only_refinements_def getEmptyGroupNode_def)

lemma refinements_group_only_refinements:
  "only_refinements rs (refinements_group e schema service rs m next)"
  using addRefinements_each_only_refinements[OF subset_refl only_refinements_empty]
  by (auto simp: refinements_group_def only_refinements_empty split: prod.splits outcome.splits)

lemma refinements_group_sync_only_refinements:
  "only_refinements rs (refinements_group_sync e schema service rs next)"
  using addRefinements_sync_each_only_refinements[OF subset_refl only_refinements_empty]
  by (simp add: refinements_group_sync_def)

lemma addRefinements_sync_query:
  assumes "query st = Group l lo ns"
  shows "\<exists>slo sns.
     located_or_new (find_group (query st) (service_of rt)) (service_of rt) GROUP_AND
        = Group (Some (service_of rt)) slo sns
     \<and> query (snd (addRefinements_sync e st rs rt)) =
        put_group (query st) (service_of rt)
          (Group (Some (service_of rt)) slo
             (sns @ [refinements_group_sync e (schema_of rt) (service_of rt) rs (fresh st)]))"
proof -
  obtain slo sns where sN:
    "located_or_new (find_group (query st) (service_of rt)) (service_of rt) GROUP_AND
        = Group (Some (service_of rt)) slo sns"
    using located_or_new_Group by blast
  have "query (snd (addRefinements_sync e st rs rt)) =
      snd (in_group (Group l lo ns) (service_of rt) GROUP_AND (Thrown TypeError, fresh st)
             (append_refinements_sync e (schema_of rt) (service_of rt) rs (fresh st)))"
    using assms by (simp add: addRefinements_sync_def Let_def split: prod.splits)
  with sN assms show ?thesis
    by (simp add: in_group_put[OF service_of_nonempty] append_refinements_sync_Group)
qed

lemma addRefinements_sync_twice_query:
  assumes "query st = Group l lo ns"
  shows "\<exists>slo sns.
     located_or_new (find_group (query st) (service_of rt)) (service_of rt) GROUP_AND
        = Group (Some (service_of rt)) slo sns
     \<and> query (snd (addRefinements_sync e st rs1 rt)) =
        put_group (query st) (service_of rt)
          (Group (Some (service_of rt)) slo
             (sns @ [refinements_group_sync e (schema_of rt) (service_of rt) rs1 (fresh st)]))
     \<and> query (snd (addRefinements_sync e (snd (addRefinements_sync e st rs1 rt)) rs2 rt)) =
        put_group (query st) (service_of rt)
          (Group (Some (service_of rt)) slo
             (sns @ [refinements_group_sync e (schema_of rt) (service_of rt) rs1 (fresh st),
                     refinements_group_sync e (schema_of rt) (service_of rt) rs2
                       (fresh (snd (addRefinements_sync e st rs1 rt)))]))"
proof -
  let ?sv = "service_of rt"
  let ?st1 = "snd (addRefinements_sync e st rs1 rt)"
  let ?g1 = "refinements_group_sync e (schema_of rt) ?sv rs1 (fresh st)"
  let ?g2 = "refinements_group_sync e (schema_of rt) ?sv rs2 (fresh ?st1)"
  from addRefinements_sync_query[OF assms, of rt e rs1] obtain slo sns where
    sN: "located_or_new (find_group (query st) ?sv) ?sv GROUP_AND = Group (Some ?sv) slo sns" and
    q1: "query ?st1 = put_group (query st) ?sv (Group (Some ?sv) slo (sns @ [?g1]))"
    by blast
  obtain ns1 where ns1: "query ?st1 = Group l lo ns1"
    using q1 assms put_group_head[of l lo ns] by auto
  have f1: "find_group (query ?st1) ?sv = Some (Group (Some ?sv) slo (sns @ [?g1]))"
    using q1 assms put_group_again(2)[of "Group (Some ?sv) slo (sns @ [?g1])" ?sv l lo ns] by simp
  from addRefinements_sync_query[OF ns1, of rt e rs2] f1
  have "query (snd (addRefinements_sync e ?st1 rs2 rt)) =
      put_group (query ?st1) ?sv (Group (Some ?sv) slo ((sns @ [?g1]) @ [?g2]))"
    by (simp add: located_or_new_def)
  then have "query (snd (addRefinements_sync e ?st1 rs2 rt)) =
      put_group (query st) ?sv (Group (Some ?sv) slo (sns @ [?g1, ?g2]))"
    using q1 assms put_group_again(1)[of "Group (Some ?sv) slo (sns @ [?g1])" ?sv l lo ns] by simp
  with sN q1 show ?thesis by blast
qed

lemma setAttributeNode_each_exact:
  "\<exists>ys n'. setAttributeNode_each service a vs (Group l lo xs) next = ((Returned, n'), Group l lo (xs @ ys))
     \<and> list_all2 (\<lambda>v y. \<exists>n. y = Terminal service
            \<lparr>p_attribute = a, p_operator = fst (setAttributeNode_value a v n),
             p_value = fst (snd (setAttributeNode_value a v n))\<rparr>) vs ys"
proof (induction vs arbitrary: xs "next")
  case Nil
  show ?case by simp
next
  case (Cons v vs)
  obtain oper v' next' where sv: "setAttributeNode_value a v next = (oper, v', next')"
    by (cases "setAttributeNode_value a v next") auto
  let ?t = "Terminal service \<lparr>p_attribute = a, p_operator = oper, p_value = v'\<rparr>"
  let ?L = "\<lambda>v y. \<exists>n. y = Terminal service
            \<lparr>p_attribute = a, p_operator = fst (setAttributeNode_value a v n),
             p_value = fst (snd (setAttributeNode_value a v n))\<rparr>"
  from Cons.IH[of "xs @ [?t]" next'] obtain ys n' where
    ys: "setAttributeNode_each service a vs (Group l lo (xs @ [?t])) next'
           = ((Returned, n'), Group l lo ((xs @ [?t]) @ ys))"
      "list_all2 ?L vs ys"
    by blast
  have t: "?L v ?t"
    using sv by (intro exI[of _ "next"]) simp
  have "setAttributeNode_each service a (v # vs) (Group l lo xs) next
          = ((Returned, n'), Group l lo (xs @ (?t # ys)))"
    using sv ys(1) by (simp add: getTerminalNode_def)
  moreover have "list_all2 ?L (v # vs) (?t # ys)"
    using t ys(2) by simp
  ultimately show ?case by blast
qed

lemma setFacetFilterAttributeNode_each_exact:
  "setFacetFilterAttributeNode_each service a label ff vs (Group l lo xs) =
     (Returned, Group l lo (xs @ map (\<lambda>v. Group label GROUP_AND
        [Terminal service \<lparr>p_attribute = a, p_operator = EXACT_MATCH, p_value = Scalar (Str v)\<rparr>, ff]) vs))"
  by (induction vs arbitrary: xs) (simp_all add: getTerminalNode_def)

lemma facetFilter_label_nested:
  "facetFilter_label ao ff = Some label \<Longrightarrow> label = nested_label ao ff"
  by (auto simp add: facetFilter_label_def nested_label_def split: option.splits node.splits if_splits)

lemma facetFilter_label_sync_nested:
  "facetFilter_label_sync ao ff = Some label \<Longrightarrow> label = nested_label ao ff"
  by (auto simp add: facetFilter_label_sync_def nested_label_def split: option.splits node.splits if_splits)

lemma setFacetFilterAttributeNode_sync_each_exact:
  "fst (setFacetFilterAttributeNode_sync_each service a ao ff vs (Group l lo xs)) = Returned \<Longrightarrow>
   snd (setFacetFilterAttributeNode_sync_each service a ao ff vs (Group l lo xs)) =
     Group l lo (xs @ map (\<lambda>v. Group (nested_label ao ff) GROUP_AND
        [Terminal service \<lparr>p_attribute = a, p_operator = EXACT_MATCH, p_value = Scalar (Str v)\<rparr>, ff]) vs)"
proof (induction vs arbitrary: xs)
  case Nil
  show ?case by simp
next
  case (Cons v vs)
  show ?case
  proof (cases "facetFilter_label_sync ao ff")
    case None
    with Cons.prems show ?thesis by simp
  next
    case (Some label)
    have lab: "label = nested_label ao ff" by (rule facetFilter_label_sync_nested[OF Some])
    let ?g = "Group label GROUP_AND
           [Terminal service \<lparr>p_attribute = a, p_operator = EXACT_MATCH, p_value = Scalar (Str v)\<rparr>, ff]"
    have step: "setFacetFilterAttributeNode_sync_each service a ao ff (v # vs) (Group l lo xs)
        = setFacetFilterAttributeNode_sync_each service a ao ff vs (Group l lo (xs @ [?g]))"
      using Some by (simp add: getTerminalNode_def)
    from Cons.prems have "fst (setFacetFilterAttributeNode_sync_each service a ao ff vs (Group l lo (xs @ [?g]))) = Returned"
      by (simp only: step)
    from Cons.IH[OF this] show ?thesis
      by (simp only: step) (simp add: lab)
  qed
qed

lemma list_all2_map_right: "(\<And>v. v \<in> set vs \<Longrightarrow> P v (f v)) \<Longrightarrow> list_all2 P vs (map f vs)"
  by (induction vs) simp_all

lemma refine_attribute_exact:
  assumes "fst (fst (refine_attribute service d r next (Group l lo xs))) = Returned"
  shows "\<exists>ys. snd (refine_attribute service d r next (Group l lo xs)) = Group l lo (xs @ ys)
     \<and> list_all2 (refinement_leaf service d (refinement_attribute r)) (refinement_values r) ys"
proof (cases d)
  case None
  with assms show ?thesis by (simp add: refine_attribute_def)
next
  case d: (Some ad)
  show ?thesis
  proof (cases "ad_facetFilter ad")
    case None
    from setAttributeNode_each_exact[of service "refinement_attribute r" "refinement_values r" l lo xs "next"]
    obtain ys n' where ys:
      "setAttributeNode_each service (refinement_attribute r) (refinement_values r) (Group l lo xs) next
         = ((Returned, n'), Group l lo (xs @ ys))"
      "list_all2 (\<lambda>v y. \<exists>n. y = Terminal service
            \<lparr>p_attribute = refinement_attribute r,
             p_operator = fst (setAttributeNode_value (refinement_attribute r) v n),
             p_value = fst (snd (setAttributeNode_value (refinement_attribute r) v n))\<rparr>)
         (refinement_values r) ys"
      by blast
    have leaf: "refinement_leaf service d (refinement_attribute r) =
       (\<lambda>v y. \<exists>n. y = Terminal service
            \<lparr>p_attribute = refinement_attribute r,
             p_operator = fst (setAttributeNode_value (refinement_attribute r) v n),
             p_value = fst (snd (setAttributeNode_value (refinement_attribute r) v n))\<rparr>)"
      using d None by (simp add: refinement_leaf_def fun_eq_iff)
    have "snd (refine_attribute service d r next (Group l lo xs)) = Group l lo (xs @ ys)"
      using d None ys(1) by (simp add: refine_attribute_def setAttributeNode_def)
    with ys(2) leaf show ?thesis by simp
  next
    case (Some ff)
    from assms d Some obtain label where lab: "facetFilter_label (ad_attrObj ad) ff = Some label"
      by (cases "facetFilter_label (ad_attrObj ad) ff")
         (simp_all add: refine_attribute_def setFacetFilterAttributeNode_def)
    have nl: "label = nested_label (ad_attrObj ad) ff" by (rule facetFilter_label_nested[OF lab])
    let ?f = "\<lambda>v. Group (nested_label (ad_attrObj ad) ff) GROUP_AND
        [Terminal service \<lparr>p_attribute = refinement_attribute r, p_operator = EXACT_MATCH,
           p_value = Scalar (Str v)\<rparr>, ff]"
    have "snd (refine_attribute service d r next (Group l lo xs))
            = Group l lo (xs @ map ?f (refinement_values r))"
      using d Some lab nl
      by (simp add: refine_attribute_def setFacetFilterAttributeNode_def
          setFacetFilterAttributeNode_each_exact)
    moreover have "list_all2 (refinement_leaf service d (refinement_attribute r)) (refinement_values r)
        (map ?f (refinement_values r))"
      by (rule list_all2_map_right) (simp add: refinement_leaf_def d Some)
    ultimately show ?thesis by blast
  qed
qed

lemma refine_attribute_sync_exact:
  assumes "fst (fst (refine_attribute_sync e schema service r next (Group l lo xs))) = Returned"
  shows "\<exists>ys. snd (refine_attribute_sync e schema service r next (Group l lo xs)) = Group l lo (xs @ ys)
     \<and> list_all2 (refinement_leaf service (metadata_data e schema (refinement_attribute r))
                     (refinement_attribute r)) (refinement_values r) ys"
proof (cases "metadata e schema")
  case None
  with assms show ?thesis by (simp add: refine_attribute_sync_def)
next
  case md: (Some md)
  let ?a = "refinement_attribute r"
  let ?d = "metadata_data e schema ?a"
  have d: "?d = Some \<lparr>ad_attrObj = uiAttrMap md ?a, ad_facetFilter = facetFilters md ?a\<rparr>"
    using md by (simp add: metadata_data_def)
  show ?thesis
  proof (cases "facetFilters md ?a")
    case None
    from setAttributeNode_each_exact[of service ?a "refinement_values r" l lo xs "next"]
    obtain ys n' where ys:
      "setAttributeNode_each service ?a (refinement_values r) (Group l lo xs) next
         = ((Returned, n'), Group l lo (xs @ ys))"
      "list_all2 (\<lambda>v y. \<exists>n. y = Terminal service
            \<lparr>p_attribute = ?a, p_operator = fst (setAttributeNode_value ?a v n),
             p_value = fst (snd (setAttributeNode_value ?a v n))\<rparr>)
         (refinement_values r) ys"
      by blast
    have leaf: "refinement_leaf service ?d ?a =
       (\<lambda>v y. \<exists>n. y = Terminal service
            \<lparr>p_attribute = ?a, p_operator = fst (setAttributeNode_value ?a v n),
             p_value = fst (snd (setAttributeNode_value ?a v n))\<rparr>)"
      using None by (simp add: d refinement_leaf_def fun_eq_iff)
    have "snd (refine_attribute_sync e schema service r next (Group l lo xs)) = Group l lo (xs @ ys)"
      using md None ys(1) by (simp add: refine_attribute_sync_def setAttributeNode_def)
    with ys(2) leaf show ?thesis by simp
  next
    case (Some ff)
    let ?f = "\<lambda>v. Group (nested_label (uiAttrMap md ?a) ff) GROUP_AND
        [Terminal service \<lparr>p_attribute = ?a, p_operator = EXACT_MATCH, p_value = Scalar (Str v)\<rparr>, ff]"
    have eq: "refine_attribute_sync e schema service r next (Group l lo xs) =
        ((fst (setFacetFilterAttributeNode_sync_each service ?a (uiAttrMap md ?a) ff
                 (refinement_values r) (Group l lo xs)), next),
         snd (setFacetFilterAttributeNode_sync_each service ?a (uiAttrMap md ?a) ff
                 (refinement_values r) (Group l lo xs)))"
      using md Some by (simp add: refine_attribute_sync_def case_prod_beta)
    from assms have "fst (setFacetFilterAttributeNode_sync_each service ?a (uiAttrMap md ?a) ff
                 (refinement_values r) (Group l lo xs)) = Returned"
      by (simp add: eq)
    from setFacetFilterAttributeNode_sync_each_exact[OF this]
    have "snd (refine_attribute_sync e schema service r next (Group l lo xs))
            = Group l lo (xs @ map ?f (refinement_values r))"
      by (simp add: eq)
    moreover have "list_all2 (refinement_leaf service ?d ?a) (refinement_values r)
        (map ?f (refinement_values r))"
      by (rule list_all2_map_right) (simp add: refinement_leaf_def d Some)
    ultimately show ?thesis by blast
  qed
qed


lemma mentions_snoc:
  "mentions (seen @ [r]) =
     mentions seen @ (if refinement_attribute r = []
                        \<or> refinement_attribute r \<notin> refinement_attribute ` set seen
                      then [length seen] else [])"
proof -
  have "filter (\<lambda>i. refinement_attribute ((seen @ [r]) ! i) = []
                \<or> refinement_attribute ((seen @ [r]) ! i)
                     \<notin> refinement_attribute ` set (take i (seen @ [r]))) [0..<length seen]
        = filter (\<lambda>i. refinement_attribute (seen ! i) = []
                \<or> refinement_attribute (seen ! i) \<notin> refinement_attribute ` set (take i seen))
            [0..<length seen]"
    by (rule filter_cong) (simp_all add: nth_append)
  thus ?thesis by (simp add: mentions_def)
qed

lemma mentions_bound: "i \<in> set (mentions rs) \<Longrightarrow> i < length rs"
  by (simp add: mentions_def)

lemma mentions_distinct: "distinct (mentions rs)"
  by (simp add: mentions_def)

lemma mentions_unique:
  assumes "i \<in> set (mentions rs)" and "j \<in> set (mentions rs)"
    and "refinement_attribute (rs ! i) = refinement_attribute (rs ! j)"
    and "refinement_attribute (rs ! i) \<noteq> []"
  shows "i = j"
proof -
  have first: "\<And>i j. i \<in> set (mentions rs) \<Longrightarrow> j \<in> set (mentions rs) \<Longrightarrow>
      refinement_attribute (rs ! i) = refinement_attribute (rs ! j) \<Longrightarrow>
      refinement_attribute (rs ! i) \<noteq> [] \<Longrightarrow> \<not> i < j"
  proof
    fix i j
    assume i: "i \<in> set (mentions rs)" and j: "j \<in> set (mentions rs)"
      and eq: "refinement_attribute (rs ! i) = refinement_attribute (rs ! j)"
      and ne: "refinement_attribute (rs ! i) \<noteq> []" and lt: "i < j"
    from j have jl: "j < length rs" by (rule mentions_bound)
    from j eq ne have notin: "refinement_attribute (rs ! j) \<notin> refinement_attribute ` set (take j rs)"
      by (simp add: mentions_def)
    have "rs ! i \<in> set (take j rs)"
      using lt jl by (simp add: in_set_conv_nth) (rule exI[of _ i], simp)
    hence "refinement_attribute (rs ! i) \<in> refinement_attribute ` set (take j rs)" by (rule imageI)
    with notin eq show False by simp
  qed
  from first[OF assms] first[OF assms(2,1) assms(3)[symmetric]] assms(3,4)
  show ?thesis by simp
qed

lemma mentions_cover:
  "a \<in> refinement_attribute ` set rs \<Longrightarrow>
   \<exists>i \<in> set (mentions rs). refinement_attribute (rs ! i) = a"
proof (induction rs rule: rev_induct)
  case Nil
  thus ?case by simp
next
  case (snoc r rs)
  show ?case
  proof (cases "a \<in> refinement_attribute ` set rs")
    case True
    from snoc.IH[OF True] obtain i where i: "i \<in> set (mentions rs)" "refinement_attribute (rs ! i) = a"
      by blast
    from i(1) have "i < length rs" by (rule mentions_bound)
    with i show ?thesis
      by (intro bexI[of _ i]) (simp_all add: mentions_snoc nth_append)
  next
    case False
    with snoc.prems have a: "refinement_attribute r = a" by auto
    with False show ?thesis
      by (intro bexI[of _ "length rs"]) (simp_all add: mentions_snoc)
  qed
qed

lemma values_of_snoc:
  "values_of (seen @ [r]) a =
     values_of seen a @ (if refinement_attribute r = a then refinement_values r else [])"
  by (simp add: values_of_def)

lemma values_of_absent:
  "a \<notin> refinement_attribute ` set rs \<Longrightarrow> values_of rs a = []"
proof -
  assume "a \<notin> refinement_attribute ` set rs"
  hence "filter (\<lambda>r. refinement_attribute r = a) rs = []"
    by (auto simp add: filter_empty_conv)
  thus ?thesis by (simp add: values_of_def)
qed

lemma mention_values_snoc:
  "i < length seen \<Longrightarrow>
   mention_values (seen @ [r]) i =
     mention_values seen i @
       (if refinement_attribute (seen ! i) \<noteq> [] \<and> refinement_attribute r = refinement_attribute (seen ! i)
        then refinement_values r else [])"
  by (simp add: mention_values_def nth_append values_of_snoc)

lemma attribute_group_of_keep:
  assumes "attribute_group_of service data seen i c" and "i < length seen"
    and "\<not> (refinement_attribute (seen ! i) \<noteq> []
             \<and> refinement_attribute r = refinement_attribute (seen ! i))"
  shows "attribute_group_of service data (seen @ [r]) i c"
proof -
  have mv: "mention_values (seen @ [r]) i = mention_values seen i"
    using assms(3) by (auto simp add: mention_values_snoc[OF assms(2)])
  have at: "(seen @ [r]) ! i = seen ! i" using assms(2) by (simp add: nth_append)
  from assms(1) show ?thesis
    unfolding attribute_group_of_def mv at .
qed

lemma attribute_group_of_label:
  "attribute_group_of service data rs i c \<Longrightarrow> label_of c = group_label (refinement_attribute (rs ! i))"
  by (auto simp add: attribute_group_of_def)

lemma group_label_Some: "(group_label a = Some b) = (a = b \<and> a \<noteq> [])"
  by (auto simp add: group_label_def)

lemma in_group_step:
  fixes body :: "node \<Rightarrow> (outcome \<times> nat) \<times> node"
  assumes inv: "list_all2 (attribute_group_of service data seen) (mentions seen) cs"
    and body: "\<And>l lo xs. fst (fst (body (Group l lo xs))) = Returned \<Longrightarrow>
        \<exists>ys. snd (body (Group l lo xs)) = Group l lo (xs @ ys)
           \<and> list_all2 (refinement_leaf service (data (refinement_attribute r)) (refinement_attribute r))
                (refinement_values r) ys"
    and res: "fst (fst (in_group (Group None GROUP_AND cs) (refinement_attribute r) GROUP_OR fail body))
                = Returned"
  shows "\<exists>cs'. snd (in_group (Group None GROUP_AND cs) (refinement_attribute r) GROUP_OR fail body)
                  = Group None GROUP_AND cs'
     \<and> list_all2 (attribute_group_of service data (seen @ [r])) (mentions (seen @ [r])) cs'"
proof -
  let ?a = "refinement_attribute r"
  let ?ms = "mentions seen"
  let ?P = "attribute_group_of service data"
  from inv have len: "length ?ms = length cs"
    and all: "\<And>j. j < length cs \<Longrightarrow> ?P seen (?ms ! j) (cs ! j)"
    by (simp_all add: list_all2_conv_all_nth)
  have msb: "\<And>j. j < length cs \<Longrightarrow> ?ms ! j < length seen"
    using len by (intro mentions_bound) simp
  have lab: "\<And>j. j < length cs \<Longrightarrow>
      label_of (cs ! j) = group_label (refinement_attribute (seen ! (?ms ! j)))"
    by (rule attribute_group_of_label[OF all])
  show ?thesis
  proof (cases "scan_labels cs ?a 0 None")
    case (Some i)
    from scan_labels_bound[OF Some] have i: "i < length cs" "label_of (cs ! i) = Some ?a" by simp_all
    from lab[OF i(1)] i(2) have "group_label (refinement_attribute (seen ! (?ms ! i))) = Some ?a"
      by simp
    hence ai: "refinement_attribute (seen ! (?ms ! i)) = ?a" "?a \<noteq> []"
      by (auto simp add: group_label_Some)
    have mem: "?a \<in> refinement_attribute ` set seen"
      using msb[OF i(1)] ai(1) by (metis imageI nth_mem)
    have ms': "mentions (seen @ [r]) = ?ms"
      using mem ai(2) by (simp add: mentions_snoc)
    from all[OF i(1)] obtain xs where
      ci: "cs ! i = Group (Some ?a) GROUP_OR xs"
      and xs: "list_all2 (refinement_leaf service (data ?a) ?a) (mention_values seen (?ms ! i)) xs"
      using ai by (auto simp add: attribute_group_of_def group_label_def)
    have run: "in_group (Group None GROUP_AND cs) ?a GROUP_OR fail body
        = (fst (body (cs ! i)), Group None GROUP_AND (cs[i := snd (body (cs ! i))]))"
      using Some by (simp add: in_group_Group)
    from res have "fst (fst (body (Group (Some ?a) GROUP_OR xs))) = Returned"
      by (simp add: run ci)
    from body[OF this] obtain ys where
      ys: "snd (body (Group (Some ?a) GROUP_OR xs)) = Group (Some ?a) GROUP_OR (xs @ ys)"
      and lys: "list_all2 (refinement_leaf service (data ?a) ?a) (refinement_values r) ys"
      by blast
    let ?c = "Group (Some ?a) GROUP_OR (xs @ ys)"
    have new: "?P (seen @ [r]) (?ms ! i) ?c"
    proof -
      have mv: "mention_values (seen @ [r]) (?ms ! i) = mention_values seen (?ms ! i) @ refinement_values r"
        using ai by (simp add: mention_values_snoc[OF msb[OF i(1)]])
      have at: "(seen @ [r]) ! (?ms ! i) = seen ! (?ms ! i)"
        using msb[OF i(1)] by (simp add: nth_append)
      have "list_all2 (refinement_leaf service (data ?a) ?a)
              (mention_values seen (?ms ! i) @ refinement_values r) (xs @ ys)"
        by (rule list_all2_appendI[OF xs lys])
      thus ?thesis
        unfolding attribute_group_of_def mv at ai(1)
        using ai(2) by (simp add: group_label_def)
    qed
    have old: "\<And>j. j < length cs \<Longrightarrow> j \<noteq> i \<Longrightarrow> ?P (seen @ [r]) (?ms ! j) (cs ! j)"
    proof -
      fix j assume j: "j < length cs" and ne: "j \<noteq> i"
      have "\<not> (refinement_attribute (seen ! (?ms ! j)) \<noteq> []
             \<and> ?a = refinement_attribute (seen ! (?ms ! j)))"
      proof
        assume h: "refinement_attribute (seen ! (?ms ! j)) \<noteq> []
             \<and> ?a = refinement_attribute (seen ! (?ms ! j))"
        have mj: "?ms ! j \<in> set ?ms" using j len by simp
        have mi: "?ms ! i \<in> set ?ms" using i(1) len by simp
        have "?ms ! j = ?ms ! i"
          using mentions_unique[OF mj mi] h ai(1) by simp
        hence "j = i"
          using mentions_distinct[of "seen"] j i(1) len by (simp add: nth_eq_iff_index_eq)
        with ne show False by simp
      qed
      from attribute_group_of_keep[OF all[OF j] msb[OF j] this]
      show "?P (seen @ [r]) (?ms ! j) (cs ! j)" .
    qed
    have "list_all2 (?P (seen @ [r])) ?ms (cs[i := ?c])"
      unfolding list_all2_conv_all_nth
    proof (intro conjI allI impI)
      show "length ?ms = length (cs[i := ?c])" using len by simp
    next
      fix j assume "j < length ?ms"
      hence j: "j < length cs" using len by simp
      show "?P (seen @ [r]) (?ms ! j) (cs[i := ?c] ! j)"
      proof (cases "j = i")
        case True
        with new i(1) show ?thesis by simp
      next
        case False
        with old[OF j False] show ?thesis by simp
      qed
    qed
    thus ?thesis
      by (simp add: run ci ys ms')
  next
    case None
    hence nolab: "\<And>n. n \<in> set cs \<Longrightarrow> label_of n \<noteq> Some ?a"
      by (simp add: scan_labels_none)
    have fresh: "?a = [] \<or> ?a \<notin> refinement_attribute ` set seen"
    proof (rule ccontr)
      assume "\<not> (?a = [] \<or> ?a \<notin> refinement_attribute ` set seen)"
      hence ne: "?a \<noteq> []" and mem: "?a \<in> refinement_attribute ` set seen" by simp_all
      from mentions_cover[OF mem] obtain k where
        k: "k \<in> set ?ms" "refinement_attribute (seen ! k) = ?a" by blast
      from k(1) obtain j where j: "j < length ?ms" "?ms ! j = k"
        by (auto simp add: in_set_conv_nth)
      hence jl: "j < length cs" using len by simp
      from lab[OF jl] j(2) k(2) ne have "label_of (cs ! j) = Some ?a"
        by (simp add: group_label_def)
      with nolab[of "cs ! j"] jl show False by simp
    qed
    have ms': "mentions (seen @ [r]) = ?ms @ [length seen]"
      using fresh by (simp add: mentions_snoc)
    let ?new = "Group (group_label ?a) GROUP_OR []"
    have run: "in_group (Group None GROUP_AND cs) ?a GROUP_OR fail body
        = (fst (body ?new), Group None GROUP_AND (cs @ [snd (body ?new)]))"
      using None by (simp add: in_group_Group getEmptyGroupNode_def group_label_def)
    from res have "fst (fst (body ?new)) = Returned" by (simp add: run)
    from body[OF this] obtain ys where
      ys: "snd (body ?new) = Group (group_label ?a) GROUP_OR ys"
      and lys: "list_all2 (refinement_leaf service (data ?a) ?a) (refinement_values r) ys"
      by auto
    have mv: "mention_values (seen @ [r]) (length seen) = refinement_values r"
      using fresh by (auto simp add: mention_values_def values_of_snoc values_of_absent)
    have new: "?P (seen @ [r]) (length seen) (Group (group_label ?a) GROUP_OR ys)"
      unfolding attribute_group_of_def mv using lys by simp
    have old: "list_all2 (?P (seen @ [r])) ?ms cs"
      unfolding list_all2_conv_all_nth
    proof (intro conjI allI impI)
      show "length ?ms = length cs" by (rule len)
    next
      fix j assume "j < length ?ms"
      hence j: "j < length cs" using len by simp
      have "\<not> (refinement_attribute (seen ! (?ms ! j)) \<noteq> []
             \<and> ?a = refinement_attribute (seen ! (?ms ! j)))"
      proof
        assume h: "refinement_attribute (seen ! (?ms ! j)) \<noteq> []
             \<and> ?a = refinement_attribute (seen ! (?ms ! j))"
        have "seen ! (?ms ! j) \<in> set seen" using msb[OF j] by simp
        hence "?a \<in> refinement_attribute ` set seen" using h by (metis imageI)
        with fresh h show False by simp
      qed
      from attribute_group_of_keep[OF all[OF j] msb[OF j] this]
      show "?P (seen @ [r]) (?ms ! j) (cs ! j)" .
    qed
    have "list_all2 (?P (seen @ [r])) (?ms @ [length seen]) (cs @ [Group (group_label ?a) GROUP_OR ys])"
      by (rule list_all2_appendI[OF old]) (simp add: new)
    thus ?thesis
      by (simp add: run ys ms')
  qed
qed


lemma addRefinements_each_exact:
  assumes "list_all2 (attribute_group_of service (cache_get m) seen) (mentions seen) cs"
    and "fst (fst (addRefinements_each service m rest (Group None GROUP_AND cs) next)) = Returned"
  shows "\<exists>cs'. snd (addRefinements_each service m rest (Group None GROUP_AND cs) next)
                  = Group None GROUP_AND cs'
     \<and> list_all2 (attribute_group_of service (cache_get m) (seen @ rest)) (mentions (seen @ rest)) cs'"
  using assms
proof (induction rest arbitrary: seen cs "next")
  case Nil
  thus ?case by simp
next
  case (Cons r rest)
  let ?X = "in_group (Group None GROUP_AND cs) (refinement_attribute r) GROUP_OR (Thrown TypeError, next)
             (refine_attribute service (cache_get m (refinement_attribute r)) r next)"
  obtain out n' g' where X: "?X = ((out, n'), g')" by (cases ?X) auto
  from Cons.prems(2) X have out: "out = Returned"
    by (cases out) simp_all
  have each: "addRefinements_each service m (r # rest) (Group None GROUP_AND cs) next
      = addRefinements_each service m rest g' n'"
    using X out by simp
  have res: "fst (fst ?X) = Returned" using X out by simp
  from in_group_step[where body = "refine_attribute service (cache_get m (refinement_attribute r)) r next"
      and data = "cache_get m", OF Cons.prems(1) refine_attribute_exact res]
  obtain cs' where cs': "g' = Group None GROUP_AND cs'"
    "list_all2 (attribute_group_of service (cache_get m) (seen @ [r])) (mentions (seen @ [r])) cs'"
    using X by auto
  from Cons.prems(2) have "fst (fst (addRefinements_each service m rest (Group None GROUP_AND cs') n')) = Returned"
    by (simp only: each cs'(1))
  from Cons.IH[OF cs'(2) this] show ?case
    by (simp only: each cs'(1)) simp
qed

lemma addRefinements_sync_each_exact:
  assumes "list_all2 (attribute_group_of service (metadata_data e schema) seen) (mentions seen) cs"
    and "fst (fst (addRefinements_sync_each e schema service rest (Group None GROUP_AND cs) next)) = Returned"
  shows "\<exists>cs'. snd (addRefinements_sync_each e schema service rest (Group None GROUP_AND cs) next)
                  = Group None GROUP_AND cs'
     \<and> list_all2 (attribute_group_of service (metadata_data e schema) (seen @ rest))
          (mentions (seen @ rest)) cs'"
  using assms
proof (induction rest arbitrary: seen cs "next")
  case Nil
  thus ?case by simp
next
  case (Cons r rest)
  let ?X = "in_group (Group None GROUP_AND cs) (refinement_attribute r) GROUP_OR (Thrown TypeError, next)
             (refine_attribute_sync e schema service r next)"
  obtain out n' g' where X: "?X = ((out, n'), g')" by (cases ?X) auto
  from Cons.prems(2) X have out: "out = Returned"
    by (cases out) simp_all
  have each: "addRefinements_sync_each e schema service (r # rest) (Group None GROUP_AND cs) next
      = addRefinements_sync_each e schema service rest g' n'"
    using X out by simp
  have res: "fst (fst ?X) = Returned" using X out by simp
  from in_group_step[where body = "refine_attribute_sync e schema service r next"
      and data = "metadata_data e schema", OF Cons.prems(1) refine_attribute_sync_exact res]
  obtain cs' where cs': "g' = Group None GROUP_AND cs'"
    "list_all2 (attribute_group_of service (metadata_data e schema) (seen @ [r])) (mentions (seen @ [r])) cs'"
    using X by auto
  from Cons.prems(2) have "fst (fst (addRefinements_sync_each e schema service rest (Group None GROUP_AND cs') n')) = Returned"
    by (simp only: each cs'(1))
  from Cons.IH[OF cs'(2) this] show ?case
    by (simp only: each cs'(1)) simp
qed

lemma mentions_Nil [simp]: "mentions [] = []"
  by (simp add: mentions_def)

lemma refinements_group_exact:
  assumes "setAttributeMap e m (map refinement_attribute rs) schema = (Returned, m')"
    and "fst (fst (addRefinements_each service m' rs (getEmptyGroupNode None GROUP_AND) next)) = Returned"
  shows "holds_refinements service (cache_get m') rs (refinements_group e schema service rs m next)"
proof -
  have e: "getEmptyGroupNode None GROUP_AND = Group None GROUP_AND []"
    by (simp add: getEmptyGroupNode_def)
  have "list_all2 (attribute_group_of service (cache_get m') []) (mentions []) []" by simp
  from addRefinements_each_exact[OF this assms(2)[unfolded e]]
  show ?thesis
    by (simp add: holds_refinements_def refinements_group_def assms(1) e)
qed

lemma refinements_group_sync_exact:
  assumes "fst (fst (addRefinements_sync_each e schema service rs (getEmptyGroupNode None GROUP_AND) next))
             = Returned"
  shows "holds_refinements service (metadata_data e schema) rs
           (refinements_group_sync e schema service rs next)"
proof -
  have e: "getEmptyGroupNode None GROUP_AND = Group None GROUP_AND []"
    by (simp add: getEmptyGroupNode_def)
  have "list_all2 (attribute_group_of service (metadata_data e schema) []) (mentions []) []" by simp
  from addRefinements_sync_each_exact[OF this assms[unfolded e]]
  show ?thesis
    by (simp add: holds_refinements_def refinements_group_sync_def e)
qed

lemma in_group_fst:
  "label \<noteq> [] \<Longrightarrow>
   fst (in_group (Group l lo ns) label operator fail body)
     = fst (body (located_or_new (find_group (Group l lo ns) label) label operator))"
  by (simp add: in_group_Group located_or_new_def getEmptyGroupNode_def split: option.splits)

lemma addRefinements_returned:
  assumes "query st = Group l lo ns" and "fst (addRefinements e st rs rt) = Returned"
  shows "holds_refinements (service_of rt) (cache_get (attributeMap (snd (addRefinements e st rs rt)))) rs
           (refinements_group e (schema_of rt) (service_of rt) rs (attributeMap st) (fresh st))"
proof -
  let ?sv = "service_of rt"
  let ?body = "append_refinements e (schema_of rt) ?sv rs (attributeMap st) (fresh st)"
  obtain slo sns where sN:
    "located_or_new (find_group (Group l lo ns) ?sv) ?sv GROUP_AND = Group (Some ?sv) slo sns"
    using located_or_new_Group by blast
  have f: "fst (in_group (Group l lo ns) ?sv GROUP_AND (Thrown TypeError, attributeMap st, fresh st) ?body)
      = fst (?body (Group (Some ?sv) slo sns))"
    using in_group_fst[OF service_of_nonempty, of l lo ns rt GROUP_AND _ ?body] sN by simp
  have r: "addRefinements e st rs rt =
     (fst (fst (?body (Group (Some ?sv) slo sns))),
      \<lparr>query = snd (in_group (Group l lo ns) ?sv GROUP_AND (Thrown TypeError, attributeMap st, fresh st) ?body),
       attributeMap = fst (snd (fst (?body (Group (Some ?sv) slo sns)))),
       fresh = snd (snd (fst (?body (Group (Some ?sv) slo sns))))\<rparr>)"
    using assms(1) f[symmetric] by (simp add: addRefinements_def Let_def case_prod_beta)
  obtain out m' where sm: "setAttributeMap e (attributeMap st) (map refinement_attribute rs) (schema_of rt) = (out, m')"
    by (cases "setAttributeMap e (attributeMap st) (map refinement_attribute rs) (schema_of rt)") auto
  from assms(2) have b: "fst (fst (?body (Group (Some ?sv) slo sns))) = Returned"
    by (simp add: r)
  have out: "out = Returned"
    using b sm by (cases out) (simp_all add: append_refinements_def Let_def)
  have each: "fst (fst (addRefinements_each ?sv m' rs (getEmptyGroupNode None GROUP_AND) (fresh st))) = Returned"
    using b sm out by (simp add: append_refinements_def case_prod_beta Let_def)
  have m: "attributeMap (snd (addRefinements e st rs rt)) = m'"
    using sm out by (simp add: r append_refinements_def case_prod_beta Let_def)
  from refinements_group_exact[OF sm[unfolded out] each] show ?thesis
    by (simp only: m)
qed

lemma addRefinements_sync_returned:
  assumes "query st = Group l lo ns" and "fst (addRefinements_sync e st rs rt) = Returned"
  shows "holds_refinements (service_of rt) (metadata_data e (schema_of rt)) rs
           (refinements_group_sync e (schema_of rt) (service_of rt) rs (fresh st))"
proof -
  let ?sv = "service_of rt"
  let ?body = "append_refinements_sync e (schema_of rt) ?sv rs (fresh st)"
  obtain slo sns where sN:
    "located_or_new (find_group (Group l lo ns) ?sv) ?sv GROUP_AND = Group (Some ?sv) slo sns"
    using located_or_new_Group by blast
  have f: "fst (in_group (Group l lo ns) ?sv GROUP_AND (Thrown TypeError, fresh st) ?body)
      = fst (?body (Group (Some ?sv) slo sns))"
    using in_group_fst[OF service_of_nonempty, of l lo ns rt GROUP_AND _ ?body] sN by simp
  have r: "fst (addRefinements_sync e st rs rt) = fst (fst (?body (Group (Some ?sv) slo sns)))"
    using assms(1) f[symmetric] by (simp add: addRefinements_sync_def Let_def case_prod_beta)
  from assms(2) have b: "fst (fst (?body (Group (Some ?sv) slo sns))) = Returned"
    by (simp add: r)
  have each: "fst (fst (addRefinements_sync_each e (schema_of rt) ?sv rs
                 (getEmptyGroupNode None GROUP_AND) (fresh st))) = Returned"
    using b by (simp add: append_refinements_sync_def case_prod_beta Let_def)
  from refinements_group_sync_exact[OF each] show ?thesis .
qed


text \<open>
  Claim C4. On a request whose query is a group, two calls of \<^verbatim>\<open>addRefinements\<close> (of either
  version, with the same result type) leave the tree as it was but for the service group:
  the last child of the root labelled with the service key, or a new group appended to the
  root when there is none. The service group keeps its label, its operator and its children
  \<open>sns\<close>, and gets one new child per call, \<open>ga\<close> and then \<open>gb\<close>. Each new child holds
  only attribute groups and nodes of the refinements of its own call. When the call returns,
  its new child is the unlabelled \<^verbatim>\<open>and\<close> group of exactly these refinements: one \<^verbatim>\<open>or\<close>
  group per attribute of the call, in the order of their first refinements, that holds one
  node for each raw value that the call gives for the attribute, in order (and one group per
  refinement with the empty attribute); the node is the terminal of the value normalizer,
  or the pair with the facet filter when the attribute data of the call has one.
\<close>

theorem addRefinements_appends_new_group:
  assumes "query st = Group l lo ns"
  shows "(\<exists>slo sns ga gb.
       located_or_new (find_group (query st) (service_of rt)) (service_of rt) GROUP_AND
         = Group (Some (service_of rt)) slo sns
     \<and> only_refinements rsa ga \<and> only_refinements rsb gb
     \<and> (fst (addRefinements e st rsa rt) = Returned \<longrightarrow>
          holds_refinements (service_of rt)
            (cache_get (attributeMap (snd (addRefinements e st rsa rt)))) rsa ga)
     \<and> (fst (addRefinements e (snd (addRefinements e st rsa rt)) rsb rt) = Returned \<longrightarrow>
          holds_refinements (service_of rt)
            (cache_get (attributeMap (snd (addRefinements e (snd (addRefinements e st rsa rt)) rsb rt))))
            rsb gb)
     \<and> query (snd (addRefinements e st rsa rt)) =
         put_group (query st) (service_of rt) (Group (Some (service_of rt)) slo (sns @ [ga]))
     \<and> query (snd (addRefinements e (snd (addRefinements e st rsa rt)) rsb rt)) =
         put_group (query st) (service_of rt) (Group (Some (service_of rt)) slo (sns @ [ga, gb])))
   \<and> (\<exists>slo sns ga gb.
       located_or_new (find_group (query st) (service_of rt)) (service_of rt) GROUP_AND
         = Group (Some (service_of rt)) slo sns
     \<and> only_refinements rsa ga \<and> only_refinements rsb gb
     \<and> (fst (addRefinements_sync e st rsa rt) = Returned \<longrightarrow>
          holds_refinements (service_of rt) (metadata_data e (schema_of rt)) rsa ga)
     \<and> (fst (addRefinements_sync e (snd (addRefinements_sync e st rsa rt)) rsb rt) = Returned \<longrightarrow>
          holds_refinements (service_of rt) (metadata_data e (schema_of rt)) rsb gb)
     \<and> query (snd (addRefinements_sync e st rsa rt)) =
         put_group (query st) (service_of rt) (Group (Some (service_of rt)) slo (sns @ [ga]))
     \<and> query (snd (addRefinements_sync e (snd (addRefinements_sync e st rsa rt)) rsb rt)) =
         put_group (query st) (service_of rt) (Group (Some (service_of rt)) slo (sns @ [ga, gb])))"
proof (rule conjI)
  let ?sv = "service_of rt"
  let ?st1 = "snd (addRefinements e st rsa rt)"
  let ?st2 = "snd (addRefinements e ?st1 rsb rt)"
  let ?ga = "refinements_group e (schema_of rt) ?sv rsa (attributeMap st) (fresh st)"
  let ?gb = "refinements_group e (schema_of rt) ?sv rsb (attributeMap ?st1) (fresh ?st1)"
  from addRefinements_twice_query[OF assms, of rt e rsa rsb] obtain slo sns where
    a: "located_or_new (find_group (query st) ?sv) ?sv GROUP_AND = Group (Some ?sv) slo sns"
       "query ?st1 = put_group (query st) ?sv (Group (Some ?sv) slo (sns @ [?ga]))"
       "query ?st2 = put_group (query st) ?sv (Group (Some ?sv) slo (sns @ [?ga, ?gb]))"
    by blast
  obtain ns1 where q1: "query ?st1 = Group l lo ns1"
    using a(2) assms put_group_head[of l lo ns] by auto
  have h1: "fst (addRefinements e st rsa rt) = Returned \<longrightarrow>
      holds_refinements ?sv (cache_get (attributeMap ?st1)) rsa ?ga"
    by (rule impI) (rule addRefinements_returned[OF assms])
  have h2: "fst (addRefinements e ?st1 rsb rt) = Returned \<longrightarrow>
      holds_refinements ?sv (cache_get (attributeMap ?st2)) rsb ?gb"
    by (rule impI) (rule addRefinements_returned[OF q1])
  have o1: "only_refinements rsa ?ga" by (rule refinements_group_only_refinements)
  have o2: "only_refinements rsb ?gb" by (rule refinements_group_only_refinements)
  show "\<exists>slo sns ga gb.
       located_or_new (find_group (query st) ?sv) ?sv GROUP_AND = Group (Some ?sv) slo sns
     \<and> only_refinements rsa ga \<and> only_refinements rsb gb
     \<and> (fst (addRefinements e st rsa rt) = Returned \<longrightarrow>
          holds_refinements ?sv (cache_get (attributeMap ?st1)) rsa ga)
     \<and> (fst (addRefinements e ?st1 rsb rt) = Returned \<longrightarrow>
          holds_refinements ?sv (cache_get (attributeMap ?st2)) rsb gb)
     \<and> query ?st1 = put_group (query st) ?sv (Group (Some ?sv) slo (sns @ [ga]))
     \<and> query ?st2 = put_group (query st) ?sv (Group (Some ?sv) slo (sns @ [ga, gb]))"
    by (rule exI[of _ slo], rule exI[of _ sns], rule exI[of _ ?ga], rule exI[of _ ?gb])
       (intro conjI a o1 o2 h1 h2)
next
  let ?sv = "service_of rt"
  let ?st1 = "snd (addRefinements_sync e st rsa rt)"
  let ?st2 = "snd (addRefinements_sync e ?st1 rsb rt)"
  let ?ga = "refinements_group_sync e (schema_of rt) ?sv rsa (fresh st)"
  let ?gb = "refinements_group_sync e (schema_of rt) ?sv rsb (fresh ?st1)"
  from addRefinements_sync_twice_query[OF assms, of rt e rsa rsb] obtain slo sns where
    b: "located_or_new (find_group (query st) ?sv) ?sv GROUP_AND = Group (Some ?sv) slo sns"
       "query ?st1 = put_group (query st) ?sv (Group (Some ?sv) slo (sns @ [?ga]))"
       "query ?st2 = put_group (query st) ?sv (Group (Some ?sv) slo (sns @ [?ga, ?gb]))"
    by blast
  obtain ns1 where q1: "query ?st1 = Group l lo ns1"
    using b(2) assms put_group_head[of l lo ns] by auto
  have h1: "fst (addRefinements_sync e st rsa rt) = Returned \<longrightarrow>
      holds_refinements ?sv (metadata_data e (schema_of rt)) rsa ?ga"
    by (rule impI) (rule addRefinements_sync_returned[OF assms])
  have h2: "fst (addRefinements_sync e ?st1 rsb rt) = Returned \<longrightarrow>
      holds_refinements ?sv (metadata_data e (schema_of rt)) rsb ?gb"
    by (rule impI) (rule addRefinements_sync_returned[OF q1])
  have o1: "only_refinements rsa ?ga" by (rule refinements_group_sync_only_refinements)
  have o2: "only_refinements rsb ?gb" by (rule refinements_group_sync_only_refinements)
  show "\<exists>slo sns ga gb.
       located_or_new (find_group (query st) ?sv) ?sv GROUP_AND = Group (Some ?sv) slo sns
     \<and> only_refinements rsa ga \<and> only_refinements rsb gb
     \<and> (fst (addRefinements_sync e st rsa rt) = Returned \<longrightarrow>
          holds_refinements ?sv (metadata_data e (schema_of rt)) rsa ga)
     \<and> (fst (addRefinements_sync e ?st1 rsb rt) = Returned \<longrightarrow>
          holds_refinements ?sv (metadata_data e (schema_of rt)) rsb gb)
     \<and> query ?st1 = put_group (query st) ?sv (Group (Some ?sv) slo (sns @ [ga]))
     \<and> query ?st2 = put_group (query st) ?sv (Group (Some ?sv) slo (sns @ [ga, gb]))"
    by (rule exI[of _ slo], rule exI[of _ sns], rule exI[of _ ?ga], rule exI[of _ ?gb])
       (intro conjI b o1 o2 h1 h2)
qed


theorem addRefinements_appends_new_group_witness:
  "query (example_state (Group None ''and'' [example_terminal])) = Group None ''and'' [example_terminal]
   \<and> mentions example_refinements = [0, 1]
   \<and> mention_values example_refinements 0 = [''2'', ''3'', ''4'']
   \<and> mention_values example_refinements 1 = [''*-0.5'']
   \<and> fst (addRefinements example_facet_env (example_state (Group None ''and'' [example_terminal]))
        example_refinements ''entry'') = Returned
   \<and> fst (addRefinements example_facet_env
        (snd (addRefinements example_facet_env (example_state (Group None ''and'' [example_terminal]))
           example_refinements ''entry''))
        [Refinement ''exptl.method'' [''X-RAY DIFFRACTION'']] ''entry'') = Returned
   \<and> query (snd (addRefinements example_facet_env
        (snd (addRefinements example_facet_env (example_state (Group None ''and'' [example_terminal]))
           example_refinements ''entry''))
        [Refinement ''exptl.method'' [''X-RAY DIFFRACTION'']] ''entry'')) = example_refined
   \<and> fst (addRefinements_sync example_facet_env (example_state (Group None ''and'' [example_terminal]))
        example_refinements ''entry'') = Returned
   \<and> fst (addRefinements_sync example_facet_env
        (snd (addRefinements_sync example_facet_env (example_state (Group None ''and'' [example_terminal]))
           example_refinements ''entry''))
        [Refinement ''exptl.method'' [''X-RAY DIFFRACTION'']] ''entry'') = Returned
   \<and> query (snd (addRefinements_sync example_facet_env
        (snd (addRefinements_sync example_facet_env (example_state (Group None ''and'' [example_terminal]))
           example_refinements ''entry''))
        [Refinement ''exptl.method'' [''X-RAY DIFFRACTION'']] ''entry'')) = example_refined"
proof -
  let ?st = "example_state (Group None ''and'' [example_terminal])"
  let ?rs2 = "[Refinement ''exptl.method'' [''X-RAY DIFFRACTION'']]"
  note defs = example_defs facet_defs constant_defs bulk_defs string_prims Let_def
    setFacetFilterAttributeNode_def facetFilter_label_def facetFilter_label_sync_def
  have h: "query ?st = Group None ''and'' [example_terminal]"
    by (simp add: example_state_def)
  have m: "mentions example_refinements = [0, 1]"
    "mention_values example_refinements 0 = [''2'', ''3'', ''4'']"
    "mention_values example_refinements 1 = [''*-0.5'']"
    by (simp_all add: mentions_def mention_values_def values_of_def example_refinements_def)
  have r1: "fst (addRefinements example_facet_env ?st example_refinements ''entry'') = Returned"
    by (simp add: defs)
  have r2: "fst (addRefinements example_facet_env
        (snd (addRefinements example_facet_env ?st example_refinements ''entry'')) ?rs2 ''entry'') = Returned"
    by (simp add: defs)
  have c1: "query (snd (addRefinements example_facet_env
        (snd (addRefinements example_facet_env ?st example_refinements ''entry'')) ?rs2 ''entry''))
      = example_refined"
    by (simp add: defs)
  have s1: "fst (addRefinements_sync example_facet_env ?st example_refinements ''entry'') = Returned"
    by (simp add: defs)
  have s2: "fst (addRefinements_sync example_facet_env
        (snd (addRefinements_sync example_facet_env ?st example_refinements ''entry'')) ?rs2 ''entry'')
      = Returned"
    by (simp add: defs)
  have c2: "query (snd (addRefinements_sync example_facet_env
        (snd (addRefinements_sync example_facet_env ?st example_refinements ''entry'')) ?rs2 ''entry''))
      = example_refined"
    by (simp add: defs)
  from addRefinements_appends_new_group[OF h, where rt = "''entry''" and e = example_facet_env
      and rsa = example_refinements and rsb = ?rs2] h m r1 r2 c1 s1 s2 c2
  show ?thesis by blast
qed


text \<open>
  Claim C10. On a request whose query is a terminal, \<^verbatim>\<open>addRefinements\<close> (in both versions)
  throws a \<^verbatim>\<open>TypeError\<close> and leaves the request, the cache and the allocation counter as
  they were: nothing is inserted.
\<close>

theorem addRefinements_terminal_root:
  "is_terminal (query st) \<Longrightarrow>
   addRefinements e st refinements result_type = (Thrown TypeError, st)
   \<and> addRefinements_sync e st refinements result_type = (Thrown TypeError, st)"
  by (cases "query st") (simp_all add: addRefinements_def addRefinements_sync_def in_group_def)

theorem addRefinements_terminal_root_witness:
  "is_terminal (query \<lparr>query = Terminal ''text'' \<lparr>p_attribute = ''exptl.method'',
        p_operator = ''exact_match'', p_value = Scalar (Str ''ELECTRON MICROSCOPY'')\<rparr>,
      attributeMap = (\<lambda>a. None), fresh = 0\<rparr>)
   \<and> fst (addRefinements \<lparr>metadata = (\<lambda>s. None), metadata__defined = False, fetch = (\<lambda>as s. Some [])\<rparr>
       \<lparr>query = Terminal ''text'' \<lparr>p_attribute = ''exptl.method'',
        p_operator = ''exact_match'', p_value = Scalar (Str ''ELECTRON MICROSCOPY'')\<rparr>,
      attributeMap = (\<lambda>a. None), fresh = 0\<rparr>
       [Refinement ''rcsb_entry_info.resolution_combined'' [''*-0.5'']] ''entry'') = Thrown TypeError
   \<and> query (snd (addRefinements \<lparr>metadata = (\<lambda>s. None), metadata__defined = False, fetch = (\<lambda>as s. Some [])\<rparr>
       \<lparr>query = Terminal ''text'' \<lparr>p_attribute = ''exptl.method'',
        p_operator = ''exact_match'', p_value = Scalar (Str ''ELECTRON MICROSCOPY'')\<rparr>,
      attributeMap = (\<lambda>a. None), fresh = 0\<rparr>
       [Refinement ''rcsb_entry_info.resolution_combined'' [''*-0.5'']] ''entry''))
      = Terminal ''text'' \<lparr>p_attribute = ''exptl.method'',
        p_operator = ''exact_match'', p_value = Scalar (Str ''ELECTRON MICROSCOPY'')\<rparr>"
  using addRefinements_terminal_root[of "\<lparr>query = Terminal ''text'' \<lparr>p_attribute = ''exptl.method'',
        p_operator = ''exact_match'', p_value = Scalar (Str ''ELECTRON MICROSCOPY'')\<rparr>,
      attributeMap = (\<lambda>a. None), fresh = 0\<rparr>"
      "\<lparr>metadata = (\<lambda>s. None), metadata__defined = False, fetch = (\<lambda>as s. Some [])\<rparr>"
      "[Refinement ''rcsb_entry_info.resolution_combined'' [''*-0.5'']]" "''entry''"]
  by simp

section \<open>Sharing between the copies of a facet filter\<close>

lemmas store_defs = alloc_def read_property_def write_property_def array_push_def array_at_def
  object_assign_def getEmptyGroupNode_store_def getTerminalNode_store_def facetFilter_label_store_def
  facet_pair_store_def setFacetFilterAttributeNode_store_def setFacetFilterAttributeNode_sync_store_def
  attached_filter_def write_first_read_second_def example_store_def example_refinement_def

text \<open>
  The copy that \<^verbatim>\<open>Object.assign\<close> makes is a new object, and each of its properties reads
  what the property of the source reads: a reference in the source is the same reference
  in the copy.
\<close>

lemma object_assign_shares:
  assumes "a < length s" and "s ! a = Obj fs"
  shows "object_assign (Ref a) s = Some (Ref (length s), s @ [Obj fs])"
    and "read_property (s @ [Obj fs]) (Ref (length s)) name = read_property s (Ref a) name"
  using assms by (simp_all add: object_assign_def alloc_def read_property_def nth_append)

text \<open>
  One step of the loop, in any store: the filter attached to the new pair group is a new
  object (the fifth that the step allocates) with the property list of the template, so
  each reference in the template, its \<^verbatim>\<open>parameters\<close> among them, is a reference in the
  copy to the same object; the template is left as it was.
\<close>

lemma array_push_keeps:
  "array_push s x v = Some s' \<Longrightarrow> length s' = length s \<and> (\<forall>k fs. s ! k = Obj fs \<longrightarrow> s' ! k = Obj fs)"
  by (auto simp: array_push_def nth_list_update split: ref_value.splits if_splits object.splits)

lemma facet_pair_store_copy:
  assumes "a < length s" and "s ! a = Obj fs"
      and "facet_pair_store True service attributeNode attribute (Ref a) label v s = Some s'"
  shows "length s' = length s + 5 \<and> s' ! (length s + 4) = Obj fs \<and> s' ! a = Obj fs"
proof -
  let ?n = "length s"
  let ?g = "[(''type'', Text ''group''), (''nodes'', Ref ?n), (''logical_operator'', Text GROUP_AND)]"
  let ?p = "Obj [(''attribute'', Text attribute), (''value'', Text v), (''operator'', Text EXACT_MATCH)]"
  let ?t = "Obj [(''type'', Text ''terminal''), (''service'', service), (''parameters'', Ref (Suc (Suc ?n)))]"
  define s7 where "s7 = s @ [Arr [Ref (Suc (Suc (Suc ?n))), Ref (Suc (Suc (Suc (Suc ?n))))],
      Obj (if truthy label then set_property ?g ''label'' label else ?g), ?p, ?t, Obj fs]"
  have "facet_pair_store True service attributeNode attribute (Ref a) label v s =
      do { nodes \<leftarrow> read_property s7 attributeNode ''nodes''; array_push s7 nodes (Ref (Suc ?n)) }"
    using assms(1,2)
    unfolding s7_def facet_pair_store_def getEmptyGroupNode_store_def getTerminalNode_store_def alloc_def
      object_assign_def
    by (cases "truthy label")
       (simp_all add: read_property_def[of "_ @ _" "Ref (length s)"] read_property_def[of "_ @ _" "Ref (Suc (length s))"]
          write_property_def[of _ "Ref (Suc (length s))"] array_push_def[of _ "Ref (length s)"] nth_append
          list_update_append)
  with assms(3) obtain nodes where "array_push s7 nodes (Ref (Suc ?n)) = Some s'"
    by (auto split: Option.bind_splits)
  from array_push_keeps[OF this] have k: "length s' = length s7"
    "\<And>k fs. s7 ! k = Obj fs \<Longrightarrow> s' ! k = Obj fs" by auto
  have "s7 ! (?n + 4) = Obj fs" "s7 ! a = Obj fs" "length s7 = ?n + 5"
    using assms(1,2) by (simp_all add: s7_def nth_append eval_nat_numeral)
  with k show ?thesis by simp
qed

text \<open>
  Claim C6 on the code. Two values are added for an attribute whose facet filter is the
  object 1 of the example store. In \<^verbatim>\<open>src/unnamed/part_001\<close> the two pair groups get two
  new objects (10 and 15), so a write to \<^verbatim>\<open>first.service\<close> does not show in
  \<^verbatim>\<open>second.service\<close>; the \<^verbatim>\<open>parameters\<close> of both are the object 0, the parameters of
  the template, so after \<^verbatim>\<open>first.parameters.value = 'X'\<close> the second filter reads \<^verbatim>\<open>X\<close>
  where it read \<^verbatim>\<open>CATH\<close>. In \<^verbatim>\<open>src/index.js\<close> both pair groups hold the object 1 itself,
  and a write to \<^verbatim>\<open>first.service\<close> shows in \<^verbatim>\<open>second.service\<close>.
\<close>

theorem facetFilter_copies_share_parameters:
  "do {
     s \<leftarrow> setFacetFilterAttributeNode_store (Text ''text'') (Ref 5) example_refinement (Ref 3) (Ref 1)
           example_store;
     first \<leftarrow> attached_filter s (Ref 5) 0;
     second \<leftarrow> attached_filter s (Ref 5) 1;
     s' \<leftarrow> write_property s first ''service'' (Text ''X'');
     service \<leftarrow> read_property s' second ''service'';
     parameters \<leftarrow> read_property s first ''parameters'';
     parameters' \<leftarrow> read_property s second ''parameters'';
     before \<leftarrow> read_property s parameters' ''value'';
     after \<leftarrow> write_first_read_second s (Ref 5) (Text ''X'');
     Some (first, second, service, parameters, parameters', before, after)
   } = Some (Ref 10, Ref 15, Text ''text'', Ref 0, Ref 0, Text ''CATH'', Text ''X'')
   \<and> do {
     s \<leftarrow> setFacetFilterAttributeNode_sync_store (Text ''text'') (Ref 5) example_refinement (Ref 3) (Ref 1)
           example_store;
     first \<leftarrow> attached_filter s (Ref 5) 0;
     second \<leftarrow> attached_filter s (Ref 5) 1;
     before \<leftarrow> read_property s second ''service'';
     s' \<leftarrow> write_property s first ''service'' (Text ''X'');
     after \<leftarrow> read_property s' second ''service'';
     Some (first, second, before, after)
   } = Some (Ref 1, Ref 1, Text ''text'', Text ''X'')"
  by (simp add: store_defs constant_defs)

end
